(* ===== verification/Prelude.thy ===== *)
theory Prelude
  imports Main
begin

text \<open>
  Shared vocabulary of the development: the JavaScript idioms the sources rely on
  (falsy strings and numbers under \<open>||\<close>, \<open>String.prototype.startsWith\<close>, whitespace
  trimming, splitting on a separator and at the first occurrence of a character), the
  collections of facts the component theories fill, and the lemmas on these helpers that
  the component proofs share.
\<close>

section \<open>Fact collections\<close>

named_theorems http_simps "evaluation rules of the HTTP client model"
named_theorems guard_simps "evaluation rules of the route guard model"
named_theorems store_simps "evaluation rules of the session and loader stores"

section \<open>Types shared by all components\<close>

type_synonym path = string

text \<open>
  A JavaScript value read from an optional property: the sources only ever test such
  values for truthiness or pass them on, so an absent property is \<open>None\<close>.
\<close>

type_synonym js_string = "string option"

section \<open>JavaScript truthiness\<close>

text \<open>\<open>a || b\<close> on strings: the empty string is falsy.\<close>

definition js_or :: "string \<Rightarrow> string \<Rightarrow> string" where
  "js_or a b = (if a = [] then b else a)"

text \<open>\<open>a || b\<close> on an optional string: \<open>undefined\<close> and \<open>''\<close> are falsy.\<close>

definition js_or_opt :: "js_string \<Rightarrow> string \<Rightarrow> string" where
  "js_or_opt a b = (case a of None \<Rightarrow> b | Some s \<Rightarrow> js_or s b)"

text \<open>\<open>n || d\<close> on a number: \<open>0\<close> is falsy.\<close>

definition js_or_num :: "nat \<Rightarrow> nat \<Rightarrow> nat" where
  "js_or_num n d = (if n = 0 then d else n)"

text \<open>\<open>!!s\<close> on an optional string.\<close>

definition js_truthy :: "js_string \<Rightarrow> bool" where
  "js_truthy a = (case a of None \<Rightarrow> False | Some s \<Rightarrow> s \<noteq> [])"

section \<open>Strings\<close>

text \<open>\<open>s.startsWith(p)\<close>.\<close>

fun starts_with :: "string \<Rightarrow> string \<Rightarrow> bool" where
  "starts_with s [] = True"
| "starts_with [] (c # p) = False"
| "starts_with (d # s) (c # p) = (d = c \<and> starts_with s p)"

text \<open>Whitespace in the sense of the cookie parser: space and horizontal tab.\<close>

definition is_ws :: "char \<Rightarrow> bool" where
  "is_ws c \<longleftrightarrow> c = CHR '' '' \<or> c = CHR 0x09"

definition trim_ws :: "string \<Rightarrow> string" where
  "trim_ws s = rev (dropWhile is_ws (rev (dropWhile is_ws s)))"

text \<open>\<open>s.split(sep)\<close>: the pieces between separators, empty pieces kept.\<close>

fun split_on :: "char \<Rightarrow> string \<Rightarrow> string list" where
  "split_on sep [] = [[]]"
| "split_on sep (c # s) =
     (if c = sep then [] # split_on sep s
      else (case split_on sep s of [] \<Rightarrow> [[c]] | w # ws \<Rightarrow> (c # w) # ws))"

text \<open>The parts before and after the first occurrence of \<open>c\<close>, if there is one.\<close>

fun split_first :: "char \<Rightarrow> string \<Rightarrow> (string \<times> string) option" where
  "split_first c [] = None"
| "split_first c (d # s) =
     (if d = c then Some ([], s) else map_option (\<lambda>(a, b). (d # a, b)) (split_first c s))"

section \<open>Lemmas\<close>

lemma js_or_simps [simp]:
  "js_or [] b = b"
  "js_or (c # s) b = c # s"
  by (simp_all add: js_or_def)

lemma js_or_opt_simps [simp]:
  "js_or_opt None b = b"
  "js_or_opt (Some s) b = js_or s b"
  by (simp_all add: js_or_opt_def)

lemma js_or_num_simps [simp]:
  "js_or_num 0 d = d"
  "n \<noteq> 0 \<Longrightarrow> js_or_num n d = n"
  by (simp_all add: js_or_num_def)

lemma js_truthy_simps [simp]:
  "js_truthy None = False"
  "js_truthy (Some s) = (s \<noteq> [])"
  by (simp_all add: js_truthy_def)

lemma js_or_nonempty: "b \<noteq> [] \<Longrightarrow> js_or a b \<noteq> []"
  by (simp add: js_or_def)

lemma js_or_opt_nonempty: "b \<noteq> [] \<Longrightarrow> js_or_opt a b \<noteq> []"
  by (cases a) (simp_all add: js_or_nonempty)

lemma starts_with_iff: "starts_with s p \<longleftrightarrow> (\<exists>r. s = p @ r)"
  by (induction s p rule: starts_with.induct) auto

lemma starts_with_append [simp]: "starts_with (p @ r) p"
  by (simp add: starts_with_iff)

lemma starts_with_refl [simp]: "starts_with s s"
  using starts_with_append [of s "[]"] by simp

lemma starts_with_length: "starts_with s p \<Longrightarrow> length p \<le> length s"
  by (auto simp: starts_with_iff)

lemma trim_ws_id: "\<forall>c \<in> set s. \<not> is_ws c \<Longrightarrow> trim_ws s = s"
proof -
  assume h: "\<forall>c \<in> set s. \<not> is_ws c"
  have "dropWhile is_ws s = s" using h by (cases s) auto
  moreover have "dropWhile is_ws (rev s) = rev s" using h by (cases "rev s") auto
  ultimately show ?thesis by (simp add: trim_ws_def)
qed

lemma trim_ws_Cons_ws: "is_ws c \<Longrightarrow> trim_ws (c # s) = trim_ws s"
  by (simp add: trim_ws_def)

lemma split_on_nonempty [simp]: "split_on sep s \<noteq> []"
  by (induction s) (auto split: list.splits)

lemma split_on_no_sep: "sep \<notin> set s \<Longrightarrow> split_on sep s = [s]"
  by (induction s) auto

lemma split_on_append_sep:
  "sep \<notin> set a \<Longrightarrow> split_on sep (a @ sep # b) = a # split_on sep b"
  by (induction a) auto

lemma split_on_append_split:
  "split_on sep (a @ sep # b) = split_on sep a @ split_on sep b"
proof (induction a)
  case (Cons c a)
  then show ?case by (cases "split_on sep a") (auto split: list.split)
qed simp

lemma split_first_append:
  "c \<notin> set a \<Longrightarrow> split_first c (a @ c # b) = Some (a, b)"
  by (induction a) auto

lemma split_first_None: "c \<notin> set s \<Longrightarrow> split_first c s = None"
  by (induction s) auto

end
