(* ===== verification/Http_Client.thy ===== *)
theory Http_Client
  imports Prelude
begin

text \<open>
  The HTTP client of \<open>src/src/lib/api/axiosInstance.ts\<close> and the REST services of
  \<open>src/src/lib/api/services/authService.ts\<close> and \<open>userService.ts\<close> that call it.
  The server is an oracle with its own state: every request put on the wire consumes one
  answer from it. The client's observable effects (requests sent with their \<open>_retry\<close>
  flag, the hard navigation of \<open>handleSessionExpiration\<close>, the logged logout failure)
  are appended to a trace in the client world. The response interceptor calls the client
  again (refresh, replay, logout), so the client is defined by recursion on a fuel
  argument that bounds the nesting depth of these calls; \<open>None\<close> is "never settles".
\<close>

section \<open>Wire data\<close>

text \<open>\<open>IUser\<close> of \<open>@/types/user\<close> (its fields as the tests of the repository use them).\<close>

record iuser =
  user_id :: string
  user_name :: string
  user_email :: string
  user_role :: string
  user_company :: js_string
  user_picture :: js_string

text \<open>The \<open>data\<close> payloads of \<open>ApiResponse<T>\<close> the client reads.\<close>

datatype payload =
    PLogin iuser string string  \<comment> \<open>\<open>LoginResponse\<close>: user, accessToken, refreshToken\<close>
  | PUser iuser                 \<comment> \<open>\<open>IUser\<close>\<close>
  | PToken string               \<comment> \<open>\<open>RefreshTokenResponse\<close>: accessToken\<close>
  | POther                      \<comment> \<open>any other present value\<close>

text \<open>\<open>ApiResponse<T>\<close> (\<open>api.types.ts\<close>); an absent \<open>message\<close> reads as \<open>''\<close>.\<close>

record envelope =
  success :: bool
  data :: "payload option"
  message :: string
  errorCode :: js_string

text \<open>A request body: a flat JSON object.\<close>

type_synonym json_obj = "(string \<times> string) list"

datatype endpoint =
    Login | Signup | Logout | ForgotPassword | ResetPassword | VerifyEmail | RefreshToken
  | UserMe | UpdateProfile | ChangePassword

datatype http_method = GET | POST | PUT

text \<open>\<open>InternalAxiosRequestConfig\<close> as far as the interceptor reads and writes it.\<close>

record request =
  req_endpoint :: endpoint
  req_body :: json_obj
  req_retry :: bool

text \<open>What the transport delivers: a response with status and body (\<open>None\<close>: an empty body), or no response.\<close>

datatype reply = Reply nat "envelope option" | NoReply

text \<open>\<open>ApiError\<close>: \<open>success\<close> is always \<open>false\<close> and \<open>name\<close> always \<open>'ApiError'\<close>.\<close>

record api_error =
  err_message :: string
  err_status :: nat
  err_cause :: "envelope option"  \<comment> \<open>\<open>errorData\<close>; \<open>None\<close> is \<open>{}\<close>\<close>

type_synonym result = "api_error + envelope option"

datatype event =
    Sent endpoint bool     \<comment> \<open>a request on the wire, with its \<open>_retry\<close> flag\<close>
  | Navigate path          \<comment> \<open>\<open>window.location.href = ...\<close>\<close>
  | LogoutFailed           \<comment> \<open>\<open>console.error('Logout error:', ...)\<close>\<close>

record 's world =
  server :: 's
  trace :: "event list"

type_synonym 's server = "'s \<Rightarrow> endpoint \<Rightarrow> json_obj \<Rightarrow> 's \<times> reply"

section \<open>The services' endpoints\<close>

fun endpoint_path :: "endpoint \<Rightarrow> path" where
  "endpoint_path Login = ''/api/v1/auth/login/''"
| "endpoint_path Signup = ''/api/v1/auth/signup/''"
| "endpoint_path Logout = ''/api/v1/auth/logout/''"
| "endpoint_path ForgotPassword = ''/api/v1/auth/forgot-password/''"
| "endpoint_path ResetPassword = ''/api/v1/auth/reset-password/''"
| "endpoint_path VerifyEmail = ''/api/v1/auth/verify-email/''"
| "endpoint_path RefreshToken = ''/api/v1/auth/refresh-token''"
| "endpoint_path UserMe = ''/api/v1/user/me''"
| "endpoint_path UpdateProfile = ''/api/v1/user/profile''"
| "endpoint_path ChangePassword = ''/api/v1/user/change-password''"

fun endpoint_method :: "endpoint \<Rightarrow> http_method" where
  "endpoint_method UserMe = GET"
| "endpoint_method UpdateProfile = PUT"
| "endpoint_method _ = POST"

text \<open>A fresh config, as every service method builds one: \<open>_retry\<close> is unset.\<close>

definition service_request :: "endpoint \<Rightarrow> json_obj \<Rightarrow> request" where
  "service_request e b = \<lparr>req_endpoint = e, req_body = b, req_retry = False\<rparr>"

section \<open>The response interceptor\<close>

text \<open>axios' default \<open>validateStatus\<close>: a 2xx status resolves, anything else rejects.\<close>

definition status_ok :: "nat \<Rightarrow> bool" where
  "status_ok st \<longleftrightarrow> 200 \<le> st \<and> st < 300"

text \<open>The three values the error handler reads first (lines 47--49).\<close>

fun error_data :: "reply \<Rightarrow> envelope option" where
  "error_data (Reply st b) = b"
| "error_data NoReply = None"

fun error_status :: "reply \<Rightarrow> nat" where
  "error_status (Reply st b) = js_or_num st 500"
| "error_status NoReply = 500"

definition error_code :: "reply \<Rightarrow> js_string" where
  "error_code r = (case error_data r of None \<Rightarrow> None | Some env \<Rightarrow> errorCode env)"

text \<open>The guard of the refresh branch (lines 59--63).\<close>

definition token_rejection :: "bool \<Rightarrow> reply \<Rightarrow> bool" where
  "token_rejection in_browser r \<longleftrightarrow>
     error_status r = 401 \<and>
     (error_code r = Some ''TOKEN_EXPIRED'' \<or> error_code r = Some ''INVALID_TOKEN'') \<and>
     in_browser"

text \<open>The generic rejection (lines 96--97).\<close>

definition generic_error :: "reply \<Rightarrow> api_error" where
  "generic_error r =
     \<lparr>err_message = js_or_opt (map_option message (error_data r)) ''Something went wrong'',
      err_status = error_status r, err_cause = error_data r\<rparr>"

definition expired_error :: "string \<Rightarrow> reply \<Rightarrow> api_error" where
  "expired_error msg r = \<lparr>err_message = msg, err_status = 401, err_cause = error_data r\<rparr>"

text \<open>\<open>!refreshResponse?.success || !refreshResponse?.data\<close> is false (line 80).\<close>

fun refresh_accepted :: "result \<Rightarrow> bool" where
  "refresh_accepted (Inr (Some env)) = (success env \<and> data env \<noteq> None)"
| "refresh_accepted _ = False"

text \<open>
  \<open>handleSessionExpiration\<close> (lines 34--41) once \<open>AuthService.logout()\<close> has settled:
  on success the hard navigation to \<open>/login\<close>, on failure only the log line.
\<close>

fun after_logout :: "'s world \<times> result \<Rightarrow> 's world" where
  "after_logout (w, Inr _) = w\<lparr>trace := trace w @ [Navigate ''/login'']\<rparr>"
| "after_logout (w, Inl _) = w\<lparr>trace := trace w @ [LogoutFailed]\<rparr>"

text \<open>
  The transport: a 2xx answer resolves with its body, anything else rejects. A body
  \<open>None\<close> is an empty body, which axios resolves as \<open>response.data = ''\<close> (not
  \<open>undefined\<close>); the callers read it as a value without properties.
\<close>

fun resolved :: "reply \<Rightarrow> envelope option option" where
  "resolved (Reply st b) = (if status_ok st then Some b else None)"
| "resolved NoReply = None"

text \<open>One request on the wire: the server answers from its state, the trace records it.\<close>

definition transmit :: "'s server \<Rightarrow> request \<Rightarrow> 's world \<Rightarrow> 's world \<times> reply" where
  "transmit srv rq w =
     (let (s', r) = srv (server w) (req_endpoint rq) (req_body rq)
      in (w\<lparr>server := s', trace := trace w @ [Sent (req_endpoint rq) (req_retry rq)]\<rparr>, r))"

type_synonym 's client = "request \<Rightarrow> 's world \<Rightarrow> ('s world \<times> result) option"

text \<open>
  \<open>handleSessionExpiration\<close> as a call of the client: \<open>AuthService.logout()\<close> with a
  fresh config, then \<open>after_logout\<close>.
\<close>

definition session_expiration :: "'s client \<Rightarrow> 's world \<Rightarrow> 's world option" where
  "session_expiration call w = map_option after_logout (call (service_request Logout []) w)"

text \<open>
  The error handler of the interceptor (lines 46--98) for the rejected request \<open>rq\<close>
  whose answer was \<open>r\<close>, in world \<open>w\<close>; \<open>call\<close> is the client it calls again.
  The replay's rejection is not caught (\<open>return\<close> without \<open>await\<close> inside
  \<open>try\<close>), so its result is the result.
\<close>

definition on_rejected :: "'s client \<Rightarrow> bool \<Rightarrow> request \<Rightarrow> reply \<Rightarrow> 's world \<Rightarrow> ('s world \<times> result) option" where
  "on_rejected call br rq r w =
     (if token_rejection br r then
        (if req_retry rq then
           map_option (\<lambda>w'. (w', Inl (expired_error ''Session expired, please log in again'' r)))
             (session_expiration call w)
         else
           (case call (service_request RefreshToken []) w of
              None \<Rightarrow> None
            | Some (w', rr) \<Rightarrow>
                if refresh_accepted rr then call (rq\<lparr>req_retry := True\<rparr>) w'
                else map_option (\<lambda>w''. (w'', Inl (expired_error ''Your session has expired. Please log in again.'' r)))
                       (session_expiration call w')))
      else Some (w, Inl (generic_error r)))"

text \<open>
  \<open>send n srv in_browser rq w\<close> is \<open>axiosInstance(rq)\<close>: the request goes on the wire,
  a 2xx answer resolves with its body, and a
  rejection goes to the interceptor, whose own calls are calls of the client with one unit
  of fuel less. \<open>in_browser\<close> is \<open>typeof window !== 'undefined'\<close>.
\<close>

fun send :: "nat \<Rightarrow> 's server \<Rightarrow> bool \<Rightarrow> 's client" where
  "send 0 srv br rq w = None"
| "send (Suc n) srv br rq w =
     (let (w1, r) = transmit srv rq w
      in case resolved r of
           Some b \<Rightarrow> Some (w1, Inr b)
         | None \<Rightarrow> on_rejected (send n srv br) br rq r w1)"

section \<open>Hypotheses and scenario servers\<close>

text \<open>
  The servers under which the client is guaranteed to settle: the refresh and logout
  endpoints never answer with a token rejection.
\<close>

definition auth_endpoints_settle :: "'s server \<Rightarrow> bool \<Rightarrow> bool" where
  "auth_endpoints_settle srv br \<longleftrightarrow>
     (\<forall>s b. \<not> token_rejection br (snd (srv s RefreshToken b)) \<and> \<not> token_rejection br (snd (srv s Logout b)))"

text \<open>Scenario servers for the witnesses; their state counts the requests served.\<close>

definition tok_env :: "string \<Rightarrow> envelope" where
  "tok_env c = \<lparr>success = False, data = None, message = ''jwt expired'', errorCode = Some c\<rparr>"

definition ok_env :: envelope where
  "ok_env = \<lparr>success = True, data = Some (PToken ''fresh''), message = ''ok'', errorCode = None\<rparr>"

text \<open>The first request that is neither a refresh nor a logout meets an expired token.\<close>

definition expiring_session :: "nat server" where
  "expiring_session k e b =
     (Suc k, if k = 0 \<and> e \<noteq> RefreshToken \<and> e \<noteq> Logout then Reply 401 (Some (tok_env ''TOKEN_EXPIRED''))
             else Reply 200 (Some ok_env))"

text \<open>As \<open>expiring_session\<close>, but the refresh endpoint is down.\<close>

definition refresh_down :: "nat server" where
  "refresh_down k e b =
     (Suc k, if e = RefreshToken then Reply 500 None
             else if k = 0 \<and> e \<noteq> Logout then Reply 401 (Some (tok_env ''TOKEN_EXPIRED''))
             else Reply 200 (Some ok_env))"

text \<open>As \<open>expiring_session\<close>, but the logout endpoint is down.\<close>

definition logout_down :: "nat server" where
  "logout_down k e b =
     (Suc k, if e = Logout then Reply 503 None
             else if k = 0 then Reply 401 (Some (tok_env ''TOKEN_EXPIRED''))
             else Reply 200 (Some ok_env))"

text \<open>A server that rejects every token, the refresh endpoint's included.\<close>

definition token_loop :: "unit server" where
  "token_loop s e b = (s, Reply 401 (Some (tok_env ''INVALID_TOKEN'')))"

section \<open>Evaluation rules\<close>

lemma transmit_eq [http_simps]:
  "srv (server w) (req_endpoint rq) (req_body rq) = (s', r) \<Longrightarrow>
   transmit srv rq w = (w\<lparr>server := s', trace := trace w @ [Sent (req_endpoint rq) (req_retry rq)]\<rparr>, r)"
  by (simp add: transmit_def)

lemma transmit_reply:
  "transmit srv rq w = (w1, r) \<Longrightarrow> r = snd (srv (server w) (req_endpoint rq) (req_body rq))"
  by (simp add: transmit_def split: prod.splits)

lemma send_Suc_resolved [http_simps]:
  "transmit srv rq w = (w1, r) \<Longrightarrow> resolved r = Some b \<Longrightarrow> send (Suc n) srv br rq w = Some (w1, Inr b)"
  by simp

lemma send_Suc_rejected [http_simps]:
  "transmit srv rq w = (w1, r) \<Longrightarrow> resolved r = None \<Longrightarrow>
   send (Suc n) srv br rq w = on_rejected (send n srv br) br rq r w1"
  by simp

lemma error_status_pos: "0 < error_status r"
  by (cases r) (simp_all add: js_or_num_def)

lemma token_rejection_not_resolved: "token_rejection br r \<Longrightarrow> resolved r = None"
  by (cases r) (auto simp: token_rejection_def status_ok_def js_or_num_def split: if_splits)

lemma on_rejected_generic [http_simps]:
  "\<not> token_rejection br r \<Longrightarrow> on_rejected call br rq r w = Some (w, Inl (generic_error r))"
  by (simp add: on_rejected_def)

lemma on_rejected_retry [http_simps]:
  "token_rejection br r \<Longrightarrow> req_retry rq \<Longrightarrow>
   on_rejected call br rq r w =
     map_option (\<lambda>w'. (w', Inl (expired_error ''Session expired, please log in again'' r)))
       (session_expiration call w)"
  by (simp add: on_rejected_def)

lemma on_rejected_refresh [http_simps]:
  "token_rejection br r \<Longrightarrow> \<not> req_retry rq \<Longrightarrow>
   on_rejected call br rq r w =
     (case call (service_request RefreshToken []) w of
        None \<Rightarrow> None
      | Some (w', rr) \<Rightarrow>
          if refresh_accepted rr then call (rq\<lparr>req_retry := True\<rparr>) w'
          else map_option (\<lambda>w''. (w'', Inl (expired_error ''Your session has expired. Please log in again.'' r)))
                 (session_expiration call w'))"
  by (simp add: on_rejected_def)

lemma on_rejected_mono:
  assumes "on_rejected c br rq r w = Some x"
    and "\<And>rq w x. c rq w = Some x \<Longrightarrow> c' rq w = Some x"
  shows "on_rejected c' br rq r w = Some x"
  using assms
  by (cases x) (auto simp: on_rejected_def session_expiration_def split: if_splits option.splits prod.splits)

lemma send_Suc_mono: "send n srv br rq w = Some x \<Longrightarrow> send (Suc n) srv br rq w = Some x"
proof (induction n arbitrary: rq w x)
  case 0
  then show ?case by simp
next
  case (Suc n)
  obtain w1 r where t: "transmit srv rq w = (w1, r)" by fastforce
  show ?case
  proof (cases "resolved r")
    case None
    with Suc.prems t have "on_rejected (send n srv br) br rq r w1 = Some x" by simp
    then have "on_rejected (send (Suc n) srv br) br rq r w1 = Some x"
      by (rule on_rejected_mono) (rule Suc.IH)
    with None t show ?thesis by simp
  next
    case (Some b)
    with Suc.prems t show ?thesis by simp
  qed
qed

lemma send_mono: "send n srv br rq w = Some x \<Longrightarrow> n \<le> m \<Longrightarrow> send m srv br rq w = Some x"
  by (induction m) (auto simp: le_Suc_eq simp del: send.simps intro: send_Suc_mono)

lemma on_rejected_errors:
  assumes "on_rejected c br rq r w = Some (w', Inl e)"
    and "\<And>rq w w' e. c rq w = Some (w', Inl e) \<Longrightarrow> err_message e \<noteq> [] \<and> err_status e \<noteq> 0"
  shows "err_message e \<noteq> [] \<and> err_status e \<noteq> 0"
  using assms
  by (auto simp: on_rejected_def session_expiration_def generic_error_def expired_error_def
      error_status_pos js_or_opt_nonempty split: if_splits option.splits prod.splits)

text \<open>C8: every rejection the client produces has a non-empty message and a non-zero status.\<close>

theorem send_errors_normalised:
  "send n srv br rq w = Some (w', Inl e) \<Longrightarrow> err_message e \<noteq> [] \<and> err_status e \<noteq> 0"
proof (induction n arbitrary: rq w w' e)
  case 0
  then show ?case by simp
next
  case (Suc n)
  obtain w1 r where t: "transmit srv rq w = (w1, r)" by fastforce
  show ?case
  proof (cases "resolved r")
    case None
    with Suc.prems t have "on_rejected (send n srv br) br rq r w1 = Some (w', Inl e)" by simp
    then show ?thesis by (rule on_rejected_errors) (rule Suc.IH)
  next
    case (Some b)
    with Suc.prems t show ?thesis by simp
  qed
qed


lemmas send_steps = transmit_def service_request_def token_rejection_not_resolved

text \<open>C1: a request rejected with 401 and \<open>TOKEN_EXPIRED\<close> or \<open>INVALID_TOKEN\<close> whose \<open>_retry\<close> flag is unset triggers exactly one refresh call and, when the refresh succeeds, exactly one replay of the original request with \<open>_retry\<close> set, whose result is the result of the call.\<close>

theorem refresh_then_replay:
  assumes "srv sa e b = (sb, r)" and "token_rejection True r"
    and "srv sb RefreshToken [] = (sc, Reply sta (Some env))" and "status_ok sta"
    and "success env" and "data env \<noteq> None"
    and "srv sc e b = (sd, Reply stb body)" and "status_ok stb"
  shows "send (Suc (Suc n)) srv True \<lparr>req_endpoint = e, req_body = b, req_retry = False\<rparr>
           \<lparr>server = sa, trace = t\<rparr>
         = Some (\<lparr>server = sd, trace = t @ [Sent e False, Sent RefreshToken False, Sent e True]\<rparr>,
                 Inr body)"
  using assms by (simp add: send_steps on_rejected_refresh)

text \<open>C3: a token rejection of a request whose \<open>_retry\<close> flag is already set makes no refresh call: the session is terminated once (one logout call, then the hard navigation to \<open>/login\<close>) and the call rejects with status 401.\<close>

theorem retry_flag_gives_up:
  assumes "srv sa e b = (sb, r)" and "token_rejection True r"
    and "srv sb Logout [] = (sc, Reply sta lb)" and "status_ok sta"
  shows "send (Suc (Suc n)) srv True \<lparr>req_endpoint = e, req_body = b, req_retry = True\<rparr>
           \<lparr>server = sa, trace = t\<rparr>
         = Some (\<lparr>server = sc, trace = t @ [Sent e True, Sent Logout False, Navigate ''/login'']\<rparr>,
                 Inl (expired_error ''Session expired, please log in again'' r))"
  using assms by (simp add: send_steps on_rejected_retry session_expiration_def)

text \<open>C5: any other rejection is normalised to an \<open>ApiError\<close> carrying the response's status and message, after exactly one request and no refresh call.\<close>

theorem other_errors_pass_through:
  assumes "srv sa e b = (sb, Reply st body)" and "\<not> status_ok st" and "st \<noteq> 0"
    and "\<not> token_rejection br (Reply st body)"
  shows "send (Suc n) srv br \<lparr>req_endpoint = e, req_body = b, req_retry = rt\<rparr> \<lparr>server = sa, trace = t\<rparr>
         = Some (\<lparr>server = sb, trace = t @ [Sent e rt]\<rparr>,
                 Inl \<lparr>err_message = js_or_opt (map_option message body) ''Something went wrong'',
                      err_status = st, err_cause = body\<rparr>)"
  using assms by (simp add: send_steps on_rejected_generic generic_error_def)

text \<open>C4: when the refresh call fails, the session is terminated (one logout call, then navigation to \<open>/login\<close>) and the original call rejects with 401 and the session-expired message.\<close>

theorem refresh_failure_ends_session:
  assumes "srv sa e b = (sb, r)" and "token_rejection True r"
    and "srv sb RefreshToken [] = (sc, rf)" and "resolved rf = None" and "\<not> token_rejection True rf"
    and "srv sc Logout [] = (sd, Reply stb lb)" and "status_ok stb"
  shows "send (Suc (Suc n)) srv True \<lparr>req_endpoint = e, req_body = b, req_retry = False\<rparr>
           \<lparr>server = sa, trace = t\<rparr>
         = Some (\<lparr>server = sd, trace = t @ [Sent e False, Sent RefreshToken False, Sent Logout False,
                                          Navigate ''/login'']\<rparr>,
                 Inl (expired_error ''Your session has expired. Please log in again.'' r))"
  using assms by (simp add: send_steps on_rejected_refresh on_rejected_generic session_expiration_def)

text \<open>C7: when the logout call of \<open>handleSessionExpiration\<close> fails, the browser is not sent to \<open>/login\<close>: only the failure is logged (the spec promises the navigation regardless).\<close>

theorem failed_logout_skips_redirect:
  assumes "srv sa e b = (sb, r)" and "token_rejection True r"
    and "srv sb Logout [] = (sc, rf)" and "resolved rf = None" and "\<not> token_rejection True rf"
  shows "send (Suc (Suc n)) srv True \<lparr>req_endpoint = e, req_body = b, req_retry = True\<rparr>
           \<lparr>server = sa, trace = t\<rparr>
         = Some (\<lparr>server = sc, trace = t @ [Sent e True, Sent Logout False, LogoutFailed]\<rparr>,
                 Inl (expired_error ''Session expired, please log in again'' r))"
  using assms by (simp add: send_steps on_rejected_retry on_rejected_generic session_expiration_def)

lemma send_settles_plain:
  assumes "\<not> token_rejection br (snd (srv (server w) (req_endpoint rq) (req_body rq)))"
  shows "send (Suc n) srv br rq w \<noteq> None"
proof -
  obtain w1 r where t: "transmit srv rq w = (w1, r)" by fastforce
  then have "r = snd (srv (server w) (req_endpoint rq) (req_body rq))"
    by (simp add: transmit_def split: prod.splits)
  with assms t show ?thesis
    by (cases "resolved r") (simp_all add: on_rejected_generic)
qed

lemma settle_auth_calls:
  assumes "auth_endpoints_settle srv br" and "e = RefreshToken \<or> e = Logout"
  shows "send (Suc n) srv br (service_request e b) w \<noteq> None"
  using assms by (intro send_settles_plain) (auto simp: auth_endpoints_settle_def service_request_def)

lemma session_expiration_settles:
  "auth_endpoints_settle srv br \<Longrightarrow> session_expiration (send (Suc n) srv br) w \<noteq> None"
  using settle_auth_calls [of srv br Logout n "[]" w]
  by (simp add: session_expiration_def del: send.simps)

lemma settle_retried:
  assumes "auth_endpoints_settle srv br" and "req_retry rq"
  shows "send (Suc (Suc n)) srv br rq w \<noteq> None"
proof -
  obtain w1 r where t: "transmit srv rq w = (w1, r)" by fastforce
  show ?thesis
  proof (cases "resolved r")
    case None
    with t assms show ?thesis
      by (cases "token_rejection br r") (simp_all add: on_rejected_retry on_rejected_generic session_expiration_settles)
  next
    case (Some b)
    with t show ?thesis by simp
  qed
qed

text \<open>C6: when the refresh and logout endpoints never answer with a token rejection, every call settles within three nested calls of the client.\<close>

theorem send_enough_fuel:
  assumes "auth_endpoints_settle srv br" and "3 \<le> n"
  shows "\<exists>x. send n srv br rq w = Some x"
proof -
  obtain k where "n = 3 + k" using le_Suc_ex assms(2) by blast
  then have n: "n = Suc (Suc (Suc k))" by simp
  obtain w1 r where t: "transmit srv rq w = (w1, r)" by fastforce
  have "send (Suc (Suc (Suc k))) srv br rq w \<noteq> None"
  proof (cases "resolved r = None \<and> token_rejection br r \<and> \<not> req_retry rq")
    case True
    obtain w2 rr where rf: "send (Suc (Suc k)) srv br (service_request RefreshToken []) w1 = Some (w2, rr)"
      using settle_auth_calls [OF assms(1), of RefreshToken "Suc k" "[]" w1] by auto
    have "send (Suc (Suc k)) srv br (rq\<lparr>req_retry := True\<rparr>) w2 \<noteq> None"
      by (rule settle_retried [OF assms(1)]) simp
    moreover have "session_expiration (send (Suc (Suc k)) srv br) w2 \<noteq> None"
      using assms(1) by (rule session_expiration_settles)
    ultimately show ?thesis using True t rf
      by (simp add: send_Suc_rejected on_rejected_refresh del: send.simps)
  next
    case False
    show ?thesis
    proof (cases "req_retry rq")
      case True
      with assms(1) show ?thesis by (rule settle_retried)
    next
      case nr: False
      with False have "resolved r \<noteq> None \<or> \<not> token_rejection br r" by simp
      with t show ?thesis
        by (cases "resolved r")
           (auto simp: send_Suc_rejected send_Suc_resolved on_rejected_generic simp del: send.simps)
    qed
  qed
  with n show ?thesis by auto
qed

lemma refresh_never_settles:
  assumes "\<forall>s b. token_rejection True (snd (srv s RefreshToken b))"
  shows "send n srv True (service_request RefreshToken []) w = None"
proof (induction n arbitrary: w)
  case 0
  then show ?case by simp
next
  case (Suc n)
  obtain w1 r where t: "transmit srv (service_request RefreshToken []) w = (w1, r)" by fastforce
  from transmit_reply [OF t] assms have "token_rejection True r"
    by (simp add: service_request_def)
  with t Suc.IH show ?case
    by (simp add: token_rejection_not_resolved on_rejected_refresh service_request_def)
qed

text \<open>C2: the refresh request is itself sent through the intercepted client with a fresh config; when the refresh endpoint answers with a token rejection, a token-rejected request never settles, whatever the fuel: the refresh calls recurse without bound.\<close>

theorem token_rejected_refresh_diverges:
  assumes "\<forall>s b. token_rejection True (snd (srv s RefreshToken b))"
    and "token_rejection True (snd (srv (server w) (req_endpoint rq) (req_body rq)))"
    and "\<not> req_retry rq"
  shows "send n srv True rq w = None"
proof (cases n)
  case 0
  then show ?thesis by simp
next
  case (Suc m)
  have nr: "\<And>k w. send k srv True (service_request RefreshToken []) w = None"
    using assms(1) by (rule refresh_never_settles)
  obtain w1 r where t: "transmit srv rq w = (w1, r)" by fastforce
  from transmit_reply [OF t] assms(2) have "token_rejection True r"
    by simp
  with t Suc assms(3) nr show ?thesis
    by (simp add: token_rejection_not_resolved on_rejected_refresh)
qed


section \<open>Witnesses\<close>

lemmas scenario_defs = expiring_session_def refresh_down_def logout_down_def token_loop_def
  tok_env_def ok_env_def token_rejection_def error_code_def status_ok_def service_request_def

theorem refresh_then_replay_witness:
  "send 2 expiring_session True \<lparr>req_endpoint = UserMe, req_body = [], req_retry = False\<rparr>
     \<lparr>server = 0, trace = []\<rparr>
   = Some (\<lparr>server = 3, trace = [Sent UserMe False, Sent RefreshToken False, Sent UserMe True]\<rparr>,
           Inr (Some ok_env))"
  using refresh_then_replay [where srv = expiring_session and sa = 0 and e = UserMe and b = "[]"
      and sb = 1 and r = "Reply 401 (Some (tok_env ''TOKEN_EXPIRED''))" and sc = 2 and sta = 200
      and env = ok_env and sd = 3 and stb = 200 and body = "Some ok_env" and n = 0 and t = "[]"]
  by (simp add: scenario_defs numeral_2_eq_2 numeral_3_eq_3 del: send.simps)

theorem retry_flag_gives_up_witness:
  "send 2 expiring_session True \<lparr>req_endpoint = UserMe, req_body = [], req_retry = True\<rparr>
     \<lparr>server = 0, trace = []\<rparr>
   = Some (\<lparr>server = 2, trace = [Sent UserMe True, Sent Logout False, Navigate ''/login'']\<rparr>,
           Inl (expired_error ''Session expired, please log in again''
                  (Reply 401 (Some (tok_env ''TOKEN_EXPIRED'')))))"
  using retry_flag_gives_up [where srv = expiring_session and sa = 0 and e = UserMe and b = "[]"
      and sb = 1 and r = "Reply 401 (Some (tok_env ''TOKEN_EXPIRED''))" and sc = 2 and sta = 200
      and lb = "Some ok_env" and n = 0 and t = "[]"]
  by (simp add: scenario_defs numeral_2_eq_2 del: send.simps)

theorem other_errors_pass_through_witness:
  "send 1 refresh_down True \<lparr>req_endpoint = RefreshToken, req_body = [], req_retry = False\<rparr>
     \<lparr>server = 0, trace = []\<rparr>
   = Some (\<lparr>server = 1, trace = [Sent RefreshToken False]\<rparr>,
           Inl \<lparr>err_message = ''Something went wrong'', err_status = 500, err_cause = None\<rparr>)"
  using other_errors_pass_through [where srv = refresh_down and sa = 0 and e = RefreshToken and b = "[]"
      and sb = 1 and st = 500 and body = None and br = True and n = 0 and rt = False and t = "[]"]
  by (simp add: scenario_defs del: send.simps)

theorem refresh_failure_ends_session_witness:
  "send 2 refresh_down True \<lparr>req_endpoint = UserMe, req_body = [], req_retry = False\<rparr>
     \<lparr>server = 0, trace = []\<rparr>
   = Some (\<lparr>server = 3, trace = [Sent UserMe False, Sent RefreshToken False, Sent Logout False,
                                 Navigate ''/login'']\<rparr>,
           Inl (expired_error ''Your session has expired. Please log in again.''
                  (Reply 401 (Some (tok_env ''TOKEN_EXPIRED'')))))"
  using refresh_failure_ends_session [where srv = refresh_down and sa = 0 and e = UserMe and b = "[]"
      and sb = 1 and r = "Reply 401 (Some (tok_env ''TOKEN_EXPIRED''))" and sc = 2 and rf = "Reply 500 None"
      and sd = 3 and stb = 200 and lb = "Some ok_env" and n = 0 and t = "[]"]
  by (simp add: scenario_defs numeral_2_eq_2 numeral_3_eq_3 del: send.simps)

theorem failed_logout_skips_redirect_witness:
  "send 2 logout_down True \<lparr>req_endpoint = UserMe, req_body = [], req_retry = True\<rparr>
     \<lparr>server = 0, trace = []\<rparr>
   = Some (\<lparr>server = 2, trace = [Sent UserMe True, Sent Logout False, LogoutFailed]\<rparr>,
           Inl (expired_error ''Session expired, please log in again''
                  (Reply 401 (Some (tok_env ''TOKEN_EXPIRED'')))))"
  using failed_logout_skips_redirect [where srv = logout_down and sa = 0 and e = UserMe and b = "[]"
      and sb = 1 and r = "Reply 401 (Some (tok_env ''TOKEN_EXPIRED''))" and sc = 2 and rf = "Reply 503 None"
      and n = 0 and t = "[]"]
  by (simp add: scenario_defs numeral_2_eq_2 del: send.simps)

theorem send_enough_fuel_witness:
  "\<exists>x. send 3 expiring_session True (service_request UserMe []) \<lparr>server = 0, trace = []\<rparr> = Some x"
proof -
  have "auth_endpoints_settle expiring_session True"
    by (simp add: auth_endpoints_settle_def scenario_defs)
  then show ?thesis by (rule send_enough_fuel) simp
qed

theorem token_rejected_refresh_diverges_witness:
  "\<forall>n. send n token_loop True (service_request UserMe []) \<lparr>server = (), trace = []\<rparr> = None"
proof
  fix n
  have h: "\<forall>s b. token_rejection True (snd (token_loop s RefreshToken b))"
    by (simp add: scenario_defs)
  show "send n token_loop True (service_request UserMe []) \<lparr>server = (), trace = []\<rparr> = None"
    by (rule token_rejected_refresh_diverges [where srv = token_loop, OF h]) (simp_all add: scenario_defs)
qed

theorem send_errors_normalised_witness:
  "err_message (generic_error (Reply 500 None)) \<noteq> [] \<and> err_status (generic_error (Reply 500 None)) \<noteq> 0"
proof -
  have "send 1 refresh_down True (service_request RefreshToken []) \<lparr>server = 0, trace = []\<rparr>
        = Some (\<lparr>server = 1, trace = [Sent RefreshToken False]\<rparr>, Inl (generic_error (Reply 500 None)))"
    by (simp add: scenario_defs transmit_def on_rejected_generic)
  then show ?thesis by (rule send_errors_normalised)
qed

end
