(* ===== verification/Route_Guard.thy ===== *)
theory Route_Guard
  imports Prelude
begin

text \<open>
  The edge middleware of \<open>src/src/middleware.ts\<close>: a stateless classifier of each
  navigation. It parses the \<open>cookie\<close> header with the \<open>cookie\<close> package's
  \<open>parse\<close> (modelled here from that package's documented algorithm: pairs separated by
  \<open>;\<close>, key and value split at the first \<open>=\<close>, blanks and tabs trimmed, surrounding
  double quotes removed, the first occurrence of a key kept), tests the \<open>accessToken\<close>
  entry for truthiness, and allows the navigation or redirects it. The route \<open>matcher\<close>
  of the exported \<open>config\<close> decides which paths reach the middleware at all.
\<close>

section \<open>Cookie header parsing\<close>

text \<open>A value's surrounding double quotes are removed (after trimming).\<close>

definition unquote :: "string \<Rightarrow> string" where
  "unquote v =
     (if v \<noteq> [] \<and> hd v = CHR 0x22 \<and> last v = CHR 0x22 then butlast (tl v) else v)"

text \<open>The pairs of the segments that contain an \<open>=\<close>, in order.\<close>

fun cookie_pairs :: "string list \<Rightarrow> (string \<times> string) list" where
  "cookie_pairs [] = []"
| "cookie_pairs (seg # segs) =
     (case split_first CHR ''='' seg of
        None \<Rightarrow> cookie_pairs segs
      | Some (k, v) \<Rightarrow> (trim_ws k, unquote (trim_ws v)) # cookie_pairs segs)"

text \<open>
  \<open>parse(str)\<close>: a string shorter than two characters gives \<open>{}\<close>. The resulting
  object keeps the first occurrence of each key, which is what \<open>map_of\<close> reads from the
  list. Percent-decoding is not modelled: it maps a non-empty value to a non-empty one,
  and the middleware only tests the value for emptiness.
\<close>

definition parse_cookie :: "string \<Rightarrow> (string \<times> string) list" where
  "parse_cookie str = (if length str < 2 then [] else cookie_pairs (split_on CHR '';'' str))"

text \<open>\<open>hasValidAuthToken\<close>: \<open>request.headers.get('cookie') ?? ''\<close>, then \<open>!!token\<close>.\<close>

definition hasValidAuthToken :: "string option \<Rightarrow> bool" where
  "hasValidAuthToken hdr =
     js_truthy (map_of (parse_cookie (case hdr of None \<Rightarrow> [] | Some h \<Rightarrow> h)) ''accessToken'')"

section \<open>The middleware\<close>

definition publicRoutes :: "path list" where
  "publicRoutes = [''/'', ''/terms'', ''/privacy-policy'', ''/plan'']"

definition authRoutes :: "path list" where
  "authRoutes = [''/login'', ''/signup'', ''/forgot-password'', ''/reset-password'', ''/verify-email'']"

text \<open>\<open>NextResponse.next()\<close> or \<open>NextResponse.redirect(new URL(p, request.url))\<close>.\<close>

datatype decision = Next | Redirect path

definition middleware :: "path \<Rightarrow> string option \<Rightarrow> decision" where
  "middleware pathname cookie =
     (let isAuthenticated = hasValidAuthToken cookie;
          isPublic = list_ex (\<lambda>route. pathname = route) publicRoutes;
          isAuth = list_ex (\<lambda>route. starts_with pathname route) authRoutes
      in if isPublic then Next
         else if isAuth then (if isAuthenticated then Redirect ''/dashboard'' else Next)
         else if \<not> isAuthenticated then Redirect ''/login''
         else Next)"

text \<open>
  \<open>config.matcher\<close>: \<open>/((?!api|_next/static|_next/image|favicon.ico).*)\<close>. The
  pattern is a regular expression, so the \<open>.\<close> of \<open>favicon.ico\<close> matches any
  character.
\<close>

definition favicon_like :: "string \<Rightarrow> bool" where
  "favicon_like s \<longleftrightarrow> 11 \<le> length s \<and> take 7 s = ''favicon'' \<and> take 3 (drop 8 s) = ''ico''"

fun matcher_applies :: "path \<Rightarrow> bool" where
  "matcher_applies [] = False"
| "matcher_applies (c # rest) =
     (c = CHR ''/'' \<and>
      \<not> (starts_with rest ''api'' \<or> starts_with rest ''_next/static'' \<or>
         starts_with rest ''_next/image'' \<or> favicon_like rest))"

text \<open>A navigation as Next.js runs it: the middleware only where the matcher applies.\<close>

definition route_guard :: "path \<Rightarrow> string option \<Rightarrow> decision" where
  "route_guard p cookie = (if matcher_applies p then middleware p cookie else Next)"

section \<open>Cookie headers as a browser writes them\<close>

text \<open>
  \<open>document.cookie\<close>-style serialisation \<open>k1=v1; k2=v2\<close>, and the shape of keys and
  values that survive it: no separator, blank, tab or quote, and keys non-empty.
\<close>

fun serialize_cookies :: "(string \<times> string) list \<Rightarrow> string" where
  "serialize_cookies [] = []"
| "serialize_cookies [(k, v)] = k @ ''='' @ v"
| "serialize_cookies ((k, v) # kv # kvs) = k @ ''='' @ v @ ''; '' @ serialize_cookies (kv # kvs)"

definition cookie_octet :: "char \<Rightarrow> bool" where
  "cookie_octet c \<longleftrightarrow> c \<noteq> CHR '';'' \<and> c \<noteq> CHR ''='' \<and> \<not> is_ws c \<and> c \<noteq> CHR 0x22"

definition well_formed_cookie :: "string \<times> string \<Rightarrow> bool" where
  "well_formed_cookie kv \<longleftrightarrow>
     fst kv \<noteq> [] \<and> list_all cookie_octet (fst kv) \<and> list_all cookie_octet (snd kv)"

definition auth_prefixed :: "path \<Rightarrow> bool" where
  "auth_prefixed p \<longleftrightarrow> (\<exists>r \<in> set authRoutes. starts_with p r)"

section \<open>Lemmas\<close>

lemma route_lists [guard_simps]:
  "set publicRoutes = {''/'', ''/terms'', ''/privacy-policy'', ''/plan''}"
  "set authRoutes = {''/login'', ''/signup'', ''/forgot-password'', ''/reset-password'', ''/verify-email''}"
  by (simp_all add: publicRoutes_def authRoutes_def)

lemma list_ex_eq_member: "list_ex (\<lambda>route. p = route) rs \<longleftrightarrow> p \<in> set rs"
  by (induction rs) auto

lemma middleware_cases:
  "middleware p c =
     (if p \<in> set publicRoutes then Next
      else if auth_prefixed p then (if hasValidAuthToken c then Redirect ''/dashboard'' else Next)
      else if hasValidAuthToken c then Next else Redirect ''/login'')"
  by (simp add: middleware_def list_ex_eq_member auth_prefixed_def list_ex_iff Let_def)

text \<open>C9: a navigation to a public route is allowed whatever the cookie header holds.\<close>

theorem public_routes_always_allowed:
  "p \<in> set publicRoutes \<Longrightarrow> middleware p c = Next"
  by (simp add: middleware_cases)

lemma auth_routes_not_public: "r \<in> set authRoutes \<Longrightarrow> starts_with p r \<Longrightarrow> p \<notin> set publicRoutes"
  by (auto simp: route_lists starts_with_iff)

text \<open>C10: a navigation to a path that begins with an auth-only route is redirected to \<open>/dashboard\<close> when an access token is present and allowed otherwise (prefix match, so \<open>/login/help\<close> counts as well).\<close>

theorem auth_only_routes:
  "r \<in> set authRoutes \<Longrightarrow> starts_with p r \<Longrightarrow>
   middleware p c = (if hasValidAuthToken c then Redirect ''/dashboard'' else Next)"
  using auth_routes_not_public [of r p]
  by (auto simp: middleware_cases auth_prefixed_def)

text \<open>C11: a navigation to any other path is allowed when an access token is present and redirected to \<open>/login\<close> otherwise.\<close>

theorem protected_routes_need_token:
  "p \<notin> set publicRoutes \<Longrightarrow> \<not> auth_prefixed p \<Longrightarrow>
   middleware p c = (if hasValidAuthToken c then Next else Redirect ''/login'')"
  by (simp add: middleware_cases)

lemma dashboard_protected: "''/dashboard'' \<notin> set publicRoutes \<and> \<not> auth_prefixed ''/dashboard''"
  by (simp add: route_lists auth_prefixed_def)

lemma login_auth_route: "auth_prefixed ''/login'' \<and> ''/login'' \<notin> set publicRoutes"
  by (simp add: route_lists auth_prefixed_def)

lemma redirect_targets:
  "middleware p c = Redirect q \<Longrightarrow>
   (q = ''/dashboard'' \<and> hasValidAuthToken c) \<or> (q = ''/login'' \<and> \<not> hasValidAuthToken c)"
  by (auto simp: middleware_cases split: if_splits)

text \<open>C12: the guard never redirects into a redirect: the target of a redirect is allowed under the same cookie header.\<close>

theorem guard_no_redirect_loop:
  "route_guard p c = Redirect q \<Longrightarrow> route_guard q c = Next"
  using dashboard_protected login_auth_route
  by (auto simp: route_guard_def middleware_cases split: if_splits dest!: redirect_targets)

lemma cookie_octets_not: "list_all cookie_octet s \<Longrightarrow> CHR '';'' \<notin> set s \<and> CHR ''='' \<notin> set s \<and> (\<forall>c \<in> set s. \<not> is_ws c)"
  by (auto simp: cookie_octet_def list_all_iff)

lemma split_serialized:
  "list_all well_formed_cookie ((k, v) # kvs) \<Longrightarrow>
   split_on CHR '';'' (serialize_cookies ((k, v) # kvs)) = (k @ ''='' @ v) # map (\<lambda>(k, v). CHR '' '' # k @ ''='' @ v) kvs"
proof (induction kvs arbitrary: k v)
  case Nil
  then show ?case
    by (auto simp: well_formed_cookie_def dest!: cookie_octets_not intro!: split_on_no_sep)
next
  case (Cons kv kvs)
  obtain k' v' where kv: "kv = (k', v')" by fastforce
  from Cons.prems have ih: "split_on CHR '';'' (serialize_cookies ((k', v') # kvs)) = (k' @ ''='' @ v') # map (\<lambda>(k, v). CHR '' '' # k @ ''='' @ v) kvs"
    by (intro Cons.IH) (simp add: kv)
  from Cons.prems have "CHR '';'' \<notin> set (k @ ''='' @ v)"
    by (auto simp: well_formed_cookie_def dest!: cookie_octets_not)
  then have "split_on CHR '';'' (serialize_cookies ((k, v) # kv # kvs)) = (k @ ''='' @ v) # split_on CHR '';'' (CHR '' '' # serialize_cookies ((k', v') # kvs))"
    using split_on_append_sep [of "CHR '';''" "k @ ''='' @ v"] by (simp add: kv)
  with ih show ?case by (simp add: kv)
qed

lemma trim_ws_ws_prefix: "\<forall>c \<in> set pre. is_ws c \<Longrightarrow> trim_ws (pre @ s) = trim_ws s"
  by (induction pre) (simp_all add: trim_ws_Cons_ws)

lemma unquote_octets: "list_all cookie_octet v \<Longrightarrow> unquote v = v"
  by (cases v) (simp_all add: unquote_def cookie_octet_def)

lemma cookie_pairs_Cons_segment:
  assumes "well_formed_cookie (k, v)" and "\<forall>c \<in> set pre. is_ws c"
  shows "cookie_pairs ((pre @ k @ ''='' @ v) # segs) = (k, v) # cookie_pairs segs"
proof -
  have kv: "list_all cookie_octet k" "list_all cookie_octet v"
    using assms(1) by (simp_all add: well_formed_cookie_def)
  note ok = cookie_octets_not [OF kv(1)] cookie_octets_not [OF kv(2)]
  have eq: "CHR ''='' \<notin> set pre"
  proof
    assume "CHR ''='' \<in> set pre"
    with assms(2) have "is_ws (CHR ''='')" by blast
    then show False by (simp add: is_ws_def)
  qed
  have "split_first CHR ''='' ((pre @ k) @ CHR ''='' # v) = Some (pre @ k, v)"
    by (rule split_first_append) (use eq ok in simp)
  moreover have "trim_ws (pre @ k) = k"
    using assms(2) ok by (simp add: trim_ws_ws_prefix trim_ws_id)
  moreover have "unquote (trim_ws v) = v"
    using ok kv by (simp add: trim_ws_id unquote_octets)
  ultimately show ?thesis by simp
qed

lemma cookie_pairs_spaced:
  "list_all well_formed_cookie kvs \<Longrightarrow> cookie_pairs (map (\<lambda>(k, v). CHR '' '' # k @ ''='' @ v) kvs) = kvs"
proof (induction kvs)
  case Nil
  then show ?case by simp
next
  case (Cons kv kvs)
  obtain k v where kv: "kv = (k, v)" by fastforce
  with Cons show ?case
    using cookie_pairs_Cons_segment [of k v "[CHR '' '']"] by (simp add: is_ws_def)
qed

lemma serialize_cookies_length: "length k \<le> length (serialize_cookies ((k, v) # kvs))"
  by (cases kvs) auto

theorem parse_serialize_roundtrip:
  assumes "kvs \<noteq> []" and "list_all well_formed_cookie kvs"
  shows "parse_cookie (serialize_cookies kvs) = kvs"
proof -
  obtain k v rest where kvs: "kvs = (k, v) # rest"
    using assms(1) by (metis list.exhaust surj_pair)
  with assms(2) have wf: "well_formed_cookie (k, v)" "list_all well_formed_cookie rest" by simp_all
  from wf(1) have "2 \<le> length (serialize_cookies kvs)"
    using serialize_cookies_length [of k v rest] kvs
    by (cases rest; cases k) (auto simp: well_formed_cookie_def)
  moreover have "cookie_pairs (split_on CHR '';'' (serialize_cookies kvs)) = kvs"
    using assms(2) kvs cookie_pairs_Cons_segment [OF wf(1), of "[]"] cookie_pairs_spaced [OF wf(2)]
    by (simp add: split_serialized)
  ultimately show ?thesis by (simp add: parse_cookie_def)
qed

text \<open>C13: for a cookie header serialised from well-formed pairs, the guard counts the visitor as authenticated exactly when an \<open>accessToken\<close> entry with a non-empty value is present: a presence check, with no validation of the token.\<close>

theorem auth_cookie_presence:
  "kvs \<noteq> [] \<Longrightarrow> list_all well_formed_cookie kvs \<Longrightarrow>
   hasValidAuthToken (Some (serialize_cookies kvs)) = (\<exists>t. map_of kvs ''accessToken'' = Some t \<and> t \<noteq> [])"
  by (auto simp: hasValidAuthToken_def parse_serialize_roundtrip js_truthy_def split: option.splits)

text \<open>C14: every path that merely begins with \<open>/api\<close> (\<open>/apiary\<close> as well as \<open>/api/...\<close>) is served without the middleware, although the middleware would redirect an unauthenticated visitor to \<open>/login\<close>.\<close>

theorem api_prefix_bypasses_guard:
  "route_guard (''/api'' @ r) c = Next \<and>
   (\<not> hasValidAuthToken c \<longrightarrow> middleware (''/api'' @ r) c = Redirect ''/login'')"
proof -
  have "''/api'' @ r \<notin> set publicRoutes" by (auto simp: route_lists)
  moreover have "\<not> auth_prefixed (''/api'' @ r)" by (auto simp: auth_prefixed_def route_lists)
  ultimately show ?thesis by (simp add: route_guard_def middleware_cases)
qed


section \<open>Witnesses\<close>

theorem public_routes_always_allowed_witness:
  "middleware ''/terms'' None = Next"
  by (rule public_routes_always_allowed) (simp add: route_lists)

theorem auth_only_routes_witness:
  "middleware ''/login'' (Some ''accessToken=abc'') = Redirect ''/dashboard''"
proof -
  have "hasValidAuthToken (Some ''accessToken=abc'')"
    by (simp add: hasValidAuthToken_def parse_cookie_def unquote_def trim_ws_def is_ws_def)
  then show ?thesis
    using auth_only_routes [of "''/login''" "''/login''" "Some ''accessToken=abc''"]
    by (simp add: route_lists)
qed

theorem protected_routes_need_token_witness:
  "middleware ''/dashboard'' None = Redirect ''/login''"
  using protected_routes_need_token [of "''/dashboard''" None] dashboard_protected
  by (simp add: hasValidAuthToken_def parse_cookie_def)

theorem guard_no_redirect_loop_witness:
  "route_guard ''/settings'' None = Redirect ''/login'' \<and> route_guard ''/login'' None = Next"
proof -
  have r: "route_guard ''/settings'' None = Redirect ''/login''"
    by (simp add: route_guard_def middleware_cases route_lists auth_prefixed_def favicon_like_def
        hasValidAuthToken_def parse_cookie_def)
  then have "route_guard ''/login'' None = Next" by (rule guard_no_redirect_loop)
  with r show ?thesis by simp
qed

theorem auth_cookie_presence_witness:
  "hasValidAuthToken (Some (serialize_cookies [(''theme'', ''dark''), (''accessToken'', ''abc'')]))"
  using auth_cookie_presence [of "[(''theme'', ''dark''), (''accessToken'', ''abc'')]"]
  by (simp add: well_formed_cookie_def cookie_octet_def is_ws_def)

theorem api_prefix_bypasses_guard_witness:
  "route_guard ''/apiary'' None = Next \<and> middleware ''/apiary'' None = Redirect ''/login''"
  using api_prefix_bypasses_guard [of "''ary''" None]
  by (simp add: hasValidAuthToken_def parse_cookie_def)

end
