(* ===== verification/Session_Store.thy ===== *)
theory Session_Store
  imports Prelude
begin

text \<open>
  The two zustand stores of \<open>src/src/stores\<close>. \<open>useAuthStore\<close> (with the immer
  middleware) keeps the signed-in user object and an authentication flag and has four
  mutators; \<open>useLoaderStore\<close> keeps one global loading flag and message, raised and
  lowered by every mutation of the API layer. A user object is a JavaScript object with
  optional keys, so it is a map from its keys to values, where a key that is present with
  the value \<open>undefined\<close> is distinguished from an absent key: object spread copies the
  former and not the latter.
\<close>

section \<open>The auth store\<close>

datatype ufield = Id | Name | Email | Role | CompanyName | Picture | AccessToken | RefreshToken

datatype jsval = JStr string | JUndefined

type_synonym user_obj = "ufield \<rightharpoonup> jsval"

record auth_state =
  user :: "user_obj option"
  isAuthenticated :: bool

definition auth_init :: auth_state where
  "auth_init = \<lparr>user = None, isAuthenticated = False\<rparr>"

definition login :: "user_obj \<Rightarrow> auth_state \<Rightarrow> auth_state" where
  "login userData st = st\<lparr>user := Some userData, isAuthenticated := True\<rparr>"

definition logout :: "auth_state \<Rightarrow> auth_state" where
  "logout st = st\<lparr>user := None, isAuthenticated := False\<rparr>"

text \<open>\<open>{ ...state.user, ...userData }\<close>: spreading \<open>null\<close> contributes no key.\<close>

definition spread :: "user_obj option \<Rightarrow> user_obj" where
  "spread u = (case u of None \<Rightarrow> Map.empty | Some m \<Rightarrow> m)"

definition setUser :: "user_obj \<Rightarrow> auth_state \<Rightarrow> auth_state" where
  "setUser userData st = st\<lparr>user := Some (spread (user st) ++ userData)\<rparr>"

datatype role = BrandOwner | Admin

fun role_name :: "role \<Rightarrow> string" where
  "role_name BrandOwner = ''brand_owner''"
| "role_name Admin = ''admin''"

definition setRole :: "role \<Rightarrow> auth_state \<Rightarrow> auth_state" where
  "setRole r st =
     (case user st of None \<Rightarrow> st | Some u \<Rightarrow> st\<lparr>user := Some (u(Role \<mapsto> JStr (role_name r)))\<rparr>)"

text \<open>The store's operations as one step function, and the states reachable from the start.\<close>

datatype auth_op = OpLogin user_obj | OpSetUser user_obj | OpLogout | OpSetRole role

fun auth_step :: "auth_state \<Rightarrow> auth_op \<Rightarrow> auth_state" where
  "auth_step st (OpLogin u) = login u st"
| "auth_step st (OpSetUser u) = setUser u st"
| "auth_step st OpLogout = logout st"
| "auth_step st (OpSetRole r) = setRole r st"

inductive auth_reachable :: "auth_state \<Rightarrow> bool" where
  init: "auth_reachable auth_init"
| step: "auth_reachable st \<Longrightarrow> auth_reachable (auth_step st op)"

definition auth_inv :: "auth_state \<Rightarrow> bool" where
  "auth_inv st \<longleftrightarrow> (isAuthenticated st \<longrightarrow> user st \<noteq> None)"

section \<open>The loader store\<close>

record loader_state =
  isLoading :: bool
  loader_message :: js_string

definition loader_init :: loader_state where
  "loader_init = \<lparr>isLoading = False, loader_message = None\<rparr>"

definition showLoader :: "js_string \<Rightarrow> loader_state \<Rightarrow> loader_state" where
  "showLoader msg st = st\<lparr>isLoading := True, loader_message := msg\<rparr>"

definition hideLoader :: "loader_state \<Rightarrow> loader_state" where
  "hideLoader st = st\<lparr>isLoading := False, loader_message := None\<rparr>"

text \<open>
  Operations that use the loader (every \<open>mutationFn\<close> and the profile \<open>queryFn\<close>)
  call \<open>showLoader\<close> when they start and \<open>hideLoader\<close> in their \<open>finally\<close>. On
  the event loop their starts and ends interleave; a schedule is the sequence of these
  events, each tagged with the operation it belongs to.
\<close>

datatype loader_event = Begin nat js_string | Finish nat

fun loader_apply :: "loader_state \<Rightarrow> loader_event \<Rightarrow> loader_state" where
  "loader_apply st (Begin i msg) = showLoader msg st"
| "loader_apply st (Finish i) = hideLoader st"

fun loader_run :: "loader_state \<Rightarrow> loader_event list \<Rightarrow> loader_state" where
  "loader_run st [] = st"
| "loader_run st (e # es) = loader_run (loader_apply st e) es"

text \<open>The operations still in flight after a schedule.\<close>

fun in_flight :: "nat list \<Rightarrow> loader_event list \<Rightarrow> nat list" where
  "in_flight ps [] = ps"
| "in_flight ps (Begin i msg # es) = in_flight (i # ps) es"
| "in_flight ps (Finish i # es) = in_flight (removeAll i ps) es"

text \<open>
  A schedule in which no operation starts while another is in flight, and every
  operation finishes only after it started.
\<close>

fun sequential :: "nat list \<Rightarrow> loader_event list \<Rightarrow> bool" where
  "sequential ps [] = True"
| "sequential ps (Begin i msg # es) = (ps = [] \<and> sequential [i] es)"
| "sequential ps (Finish i # es) = (i \<in> set ps \<and> sequential (removeAll i ps) es)"

section \<open>Lemmas\<close>

lemma auth_step_inv: "auth_inv st \<Longrightarrow> auth_inv (auth_step st op)"
  by (cases op) (auto simp: auth_inv_def login_def logout_def setUser_def setRole_def split: option.splits)

text \<open>C15: in every state the auth store can reach, a session flagged as authenticated has a user object.\<close>

theorem auth_reachable_inv:
  "auth_reachable st \<Longrightarrow> isAuthenticated st \<longrightarrow> user st \<noteq> None"
proof -
  assume "auth_reachable st"
  then have "auth_inv st"
  proof (induction rule: auth_reachable.induct)
    case init
    show ?case by (simp add: auth_inv_def auth_init_def)
  next
    case (step st op)
    from step.IH show ?case by (rule auth_step_inv)
  qed
  then show ?thesis by (simp add: auth_inv_def)
qed

text \<open>\<open>logout\<close> returns the store to its initial empty state, so calling it twice gives the same state as once.\<close>

theorem logout_resets:
  "logout (logout st) = logout st \<and> logout st = auth_init"
  by (simp add: logout_def auth_init_def)

text \<open>C17: merging a profile that carries no token keys into a logged-in session keeps the session authenticated and keeps the access and refresh tokens stored at login, while the profile's keys override.\<close>

theorem profile_merge_keeps_tokens:
  assumes "AccessToken \<notin> dom p" and "RefreshToken \<notin> dom p"
  shows "user (setUser p (login u st)) = Some (u ++ p)
       \<and> isAuthenticated (setUser p (login u st))
       \<and> (u ++ p) AccessToken = u AccessToken \<and> (u ++ p) RefreshToken = u RefreshToken"
  using assms by (simp add: setUser_def login_def spread_def map_add_dom_app_simps)

lemma loader_run_append: "loader_run st (xs @ ys) = loader_run (loader_run st xs) ys"
  by (induction xs arbitrary: st) auto

text \<open>C18: when loader operations never overlap, the global loading flag is raised exactly while an operation is in flight.\<close>

theorem loader_tracks_sequential:
  "sequential ps es \<Longrightarrow> length ps \<le> 1 \<Longrightarrow> isLoading st = (ps \<noteq> []) \<Longrightarrow>
   isLoading (loader_run st es) = (in_flight ps es \<noteq> [])"
proof (induction ps es arbitrary: st rule: sequential.induct)
  case (1 ps)
  then show ?case by simp
next
  case (2 ps i msg es)
  then show ?case by (simp add: showLoader_def)
next
  case (3 ps i es)
  from "3.prems" have "ps = [i]" by (cases ps) auto
  with "3" show ?case by (simp add: hideLoader_def)
qed

text \<open>C19: when two loader operations overlap, the first to finish lowers the global loading flag although the second is still in flight (the loader is a flag, not a counter).\<close>

theorem loader_overlap_hides:
  "i \<noteq> j \<Longrightarrow>
   in_flight [] [Begin i a, Begin j b, Finish i] = [j] \<and>
   \<not> isLoading (loader_run st [Begin i a, Begin j b, Finish i])"
  by (simp add: hideLoader_def)


section \<open>Witnesses\<close>

theorem auth_reachable_inv_witness:
  "user (auth_step auth_init (OpLogin [Id \<mapsto> JStr ''u1''])) \<noteq> None"
proof -
  have r: "auth_reachable (auth_step auth_init (OpLogin [Id \<mapsto> JStr ''u1'']))"
    by (rule auth_reachable.step [OF auth_reachable.init])
  have "isAuthenticated (auth_step auth_init (OpLogin [Id \<mapsto> JStr ''u1'']))"
    by (simp add: login_def)
  with auth_reachable_inv [OF r] show ?thesis by simp
qed

theorem profile_merge_keeps_tokens_witness:
  "user (setUser [Name \<mapsto> JStr ''Ann''] (login [Id \<mapsto> JStr ''u1'', AccessToken \<mapsto> JStr ''at''] auth_init))
     = Some ([Id \<mapsto> JStr ''u1'', AccessToken \<mapsto> JStr ''at''] ++ [Name \<mapsto> JStr ''Ann''])
   \<and> ([Id \<mapsto> JStr ''u1'', AccessToken \<mapsto> JStr ''at''] ++ [Name \<mapsto> JStr ''Ann'']) AccessToken = Some (JStr ''at'')"
  using profile_merge_keeps_tokens [of "[Name \<mapsto> JStr ''Ann'']" "[Id \<mapsto> JStr ''u1'', AccessToken \<mapsto> JStr ''at'']" auth_init]
  by simp

theorem loader_tracks_sequential_witness:
  "isLoading (loader_run loader_init [Begin 1 (Some ''Signing in...'')]) \<and>
   \<not> isLoading (loader_run loader_init [Begin 1 (Some ''Signing in...''), Finish 1])"
proof -
  have a: "isLoading (loader_run loader_init [Begin 1 (Some ''Signing in...'')])
           = (in_flight [] [Begin 1 (Some ''Signing in...'')] \<noteq> [])"
    by (rule loader_tracks_sequential) (simp_all add: loader_init_def)
  have b: "isLoading (loader_run loader_init [Begin 1 (Some ''Signing in...''), Finish 1])
           = (in_flight [] [Begin 1 (Some ''Signing in...''), Finish 1] \<noteq> [])"
    by (rule loader_tracks_sequential) (simp_all add: loader_init_def)
  from a b show ?thesis by simp
qed

theorem loader_overlap_hides_witness:
  "in_flight [] [Begin 1 (Some ''Signing in...''), Begin 2 (Some ''Loading your profile...''), Finish 1] = [2] \<and>
   \<not> isLoading (loader_run loader_init
        [Begin 1 (Some ''Signing in...''), Begin 2 (Some ''Loading your profile...''), Finish 1])"
  by (rule loader_overlap_hides) simp

end
