(* ===== verification/Validation.thy ===== *)
theory Validation
  imports Prelude
begin

text \<open>
  The client-side validators of the forms: the Yup schemas of
  \<open>src/src/lib/validations/schemas.ts\<close> and \<open>authSchema.ts\<close>, the zod schema of the
  reset-password page (\<open>src/src/app/(auth)/reset-password/page.tsx\<close>) and the hand-written
  checks of the account-settings page. Regular expressions are written out as executable
  predicates on the characters of the string. Characters are bytes here, while JavaScript
  strings count UTF-16 code units: for ASCII input the two agree.
\<close>

section \<open>Character classes\<close>

definition in_range :: "nat \<Rightarrow> nat \<Rightarrow> char \<Rightarrow> bool" where
  "in_range lo hi c \<longleftrightarrow> lo \<le> of_char c \<and> of_char c \<le> hi"

definition is_lower :: "char \<Rightarrow> bool" where
  "is_lower c \<longleftrightarrow> in_range 97 122 c"

definition is_upper :: "char \<Rightarrow> bool" where
  "is_upper c \<longleftrightarrow> in_range 65 90 c"

definition is_digit :: "char \<Rightarrow> bool" where
  "is_digit c \<longleftrightarrow> in_range 48 57 c"

definition is_alnum :: "char \<Rightarrow> bool" where
  "is_alnum c \<longleftrightarrow> is_lower c \<or> is_upper c \<or> is_digit c"

text \<open>\<open>[@$!%*?&]\<close>, the special characters of \<open>passwordSchema\<close>.\<close>

definition is_schema_special :: "char \<Rightarrow> bool" where
  "is_schema_special c \<longleftrightarrow> c \<in> set ''@$!%*?&''"

text \<open>\<open>[\W_]\<close>: anything but an ASCII letter or digit.\<close>

definition is_non_alnum :: "char \<Rightarrow> bool" where
  "is_non_alnum c \<longleftrightarrow> \<not> is_alnum c"

text \<open>What \<open>.\<close> does not match: the line terminators \<open>\n\<close> and \<open>\r\<close>.\<close>

definition is_line_terminator :: "char \<Rightarrow> bool" where
  "is_line_terminator c \<longleftrightarrow> c = CHR 0x0A \<or> c = CHR 0x0D"

section \<open>The Yup schemas\<close>

text \<open>
  \<open>passwordSchema\<close>: \<open>required\<close>, \<open>min(8)\<close> and
  \<open>^(?=.*[a-z])(?=.*[A-Z])(?=.*\d)(?=.*[@$!%*?&])[A-Za-z\d@$!%*?&]{8,}$\<close>.
\<close>

definition password_schema_ok :: "string \<Rightarrow> bool" where
  "password_schema_ok s \<longleftrightarrow>
     s \<noteq> [] \<and> 8 \<le> length s \<and>
     list_ex is_lower s \<and> list_ex is_upper s \<and> list_ex is_digit s \<and> list_ex is_schema_special s \<and>
     list_all (\<lambda>c. is_alnum c \<or> is_schema_special c) s"

text \<open>
  \<open>string().email()\<close> of Yup (its regular expression
  \<open>^[a-zA-Z0-9.!#$%&'*+/=?^_`{|}~-]+@[a-zA-Z0-9](?:[a-zA-Z0-9-]{0,61}[a-zA-Z0-9])?(?:\.[a-zA-Z0-9](?:[a-zA-Z0-9-]{0,61}[a-zA-Z0-9])?)*$\<close>),
  which lets the empty string through for \<open>required\<close> to reject.
\<close>

definition email_local_char :: "char \<Rightarrow> bool" where
  "email_local_char c \<longleftrightarrow> is_alnum c \<or> c \<in> set ''.!#$%&'*+/=?^_`{|}~-''"

definition domain_label_ok :: "string \<Rightarrow> bool" where
  "domain_label_ok l \<longleftrightarrow>
     l \<noteq> [] \<and> length l \<le> 63 \<and> is_alnum (hd l) \<and> is_alnum (last l) \<and>
     list_all (\<lambda>c. is_alnum c \<or> c = CHR ''-'') l"

definition yup_email :: "string \<Rightarrow> bool" where
  "yup_email s \<longleftrightarrow>
     s = [] \<or>
     (case split_first CHR ''@'' s of
        None \<Rightarrow> False
      | Some (l, d) \<Rightarrow> l \<noteq> [] \<and> list_all email_local_char l \<and> list_all domain_label_ok (split_on CHR ''.'' d))"

definition email_schema_ok :: "string \<Rightarrow> bool" where
  "email_schema_ok s \<longleftrightarrow> s \<noteq> [] \<and> yup_email s"

record signup_values =
  su_email :: string
  su_password :: string
  su_confirmPassword :: string
  su_name :: string
  su_companyName :: string
  su_acceptTerms :: bool

definition signup_schema_ok :: "signup_values \<Rightarrow> bool" where
  "signup_schema_ok v \<longleftrightarrow>
     email_schema_ok (su_email v) \<and> password_schema_ok (su_password v) \<and>
     su_confirmPassword v = su_password v \<and> su_confirmPassword v \<noteq> [] \<and>
     2 \<le> length (su_name v) \<and> length (su_name v) \<le> 50 \<and> su_name v \<noteq> [] \<and>
     su_companyName v \<noteq> [] \<and> su_acceptTerms v"

definition login_schema_ok :: "string \<Rightarrow> string \<Rightarrow> bool" where
  "login_schema_ok email pwd \<longleftrightarrow> email_schema_ok email \<and> password_schema_ok pwd"

definition forgot_password_schema_ok :: "string \<Rightarrow> bool" where
  "forgot_password_schema_ok email \<longleftrightarrow> email_schema_ok email"

text \<open>\<open>resetPasswordSchema\<close> (Yup): the new password and a matching confirmation.\<close>

definition reset_schema_ok :: "string \<Rightarrow> string \<Rightarrow> bool" where
  "reset_schema_ok newPassword confirmPassword \<longleftrightarrow>
     password_schema_ok newPassword \<and> confirmPassword = newPassword \<and> confirmPassword \<noteq> []"

section \<open>The zod schema of the reset-password page\<close>

text \<open>
  \<open>z.string().min(8).regex(/^(?=.*[a-z])(?=.*[A-Z])(?=.*\d)(?=.*[\W_]).{8,}$/)\<close> for
  \<open>password\<close>, and the refinement that \<open>confirmPassword\<close> equals it.
\<close>

definition zod_password_ok :: "string \<Rightarrow> bool" where
  "zod_password_ok s \<longleftrightarrow>
     8 \<le> length s \<and> \<not> list_ex is_line_terminator s \<and>
     list_ex is_lower s \<and> list_ex is_upper s \<and> list_ex is_digit s \<and> list_ex is_non_alnum s"

definition zod_reset_ok :: "string \<Rightarrow> string \<Rightarrow> bool" where
  "zod_reset_ok password confirmPassword \<longleftrightarrow>
     zod_password_ok password \<and> password = confirmPassword"

section \<open>The account-settings page's password check\<close>

text \<open>
  \<open>handlePasswordSubmit\<close>: the error toast it shows, or \<open>None\<close> when it calls the
  change-password mutation.
\<close>

definition settings_password_error :: "string \<Rightarrow> string \<Rightarrow> string option" where
  "settings_password_error newPassword confirmPassword =
     (if newPassword \<noteq> confirmPassword then Some ''Passwords don't match. Please try again.''
      else if length newPassword < 8 then Some ''Password must be at least 8 characters long.''
      else None)"

section \<open>Lemmas\<close>

lemma schema_special_cases:
  "is_schema_special c \<longleftrightarrow> c = CHR ''@'' \<or> c = CHR ''$'' \<or> c = CHR ''!'' \<or> c = CHR ''%'' \<or>
     c = CHR ''*'' \<or> c = CHR ''?'' \<or> c = CHR ''&''"
  by (auto simp: is_schema_special_def)

lemma schema_special_non_alnum: "is_schema_special c \<Longrightarrow> is_non_alnum c"
  by (auto simp: schema_special_cases is_non_alnum_def is_alnum_def is_lower_def is_upper_def
      is_digit_def in_range_def)

lemma password_class_no_terminator:
  "is_alnum c \<or> is_schema_special c \<Longrightarrow> \<not> is_line_terminator c"
  by (auto simp: schema_special_cases is_line_terminator_def is_alnum_def is_lower_def is_upper_def
      is_digit_def in_range_def)

text \<open>C20: every password accepted by the Yup \<open>passwordSchema\<close> is accepted by the zod schema of the reset-password page.\<close>

theorem schema_password_implies_zod:
  "password_schema_ok s \<Longrightarrow> zod_password_ok s"
proof -
  assume ok: "password_schema_ok s"
  then have "list_ex is_schema_special s" by (simp add: password_schema_ok_def)
  then have "list_ex is_non_alnum s"
    by (auto simp: list_ex_iff intro: schema_special_non_alnum)
  moreover from ok have "\<not> list_ex is_line_terminator s"
    using password_class_no_terminator by (fastforce simp: password_schema_ok_def list_ex_iff list_all_iff)
  ultimately show ?thesis using ok by (simp add: password_schema_ok_def zod_password_ok_def)
qed

text \<open>The two reset-password forms enforce different policies: the page's zod schema accepts a password whose only special character is outside \<open>[@$!%*?&]\<close>, which the Yup \<open>resetPasswordSchema\<close> rejects.\<close>

theorem reset_page_accepts_unlisted_special:
  "zod_reset_ok ''Passw0rd#'' ''Passw0rd#'' \<and> \<not> reset_schema_ok ''Passw0rd#'' ''Passw0rd#''"
  by (simp add: zod_reset_ok_def zod_password_ok_def reset_schema_ok_def password_schema_ok_def
      is_lower_def is_upper_def is_digit_def is_non_alnum_def is_alnum_def is_line_terminator_def
      is_schema_special_def in_range_def)

text \<open>C21: the account-settings page submits every password the schema accepts, and also passwords without any upper-case letter, digit or special character, such as eight lower-case letters.\<close>

theorem settings_check_weaker_than_schema:
  "(\<forall>p. password_schema_ok p \<longrightarrow> settings_password_error p p = None) \<and>
   settings_password_error ''aaaaaaaa'' ''aaaaaaaa'' = None \<and> \<not> password_schema_ok ''aaaaaaaa''"
  by (auto simp: settings_password_error_def password_schema_ok_def is_upper_def in_range_def)


section \<open>Witnesses\<close>

lemmas char_class_defs = is_lower_def is_upper_def is_digit_def is_non_alnum_def is_alnum_def
  is_line_terminator_def is_schema_special_def in_range_def

theorem schema_password_implies_zod_witness:
  "zod_password_ok ''Passw0rd!''"
  by (rule schema_password_implies_zod) (simp add: password_schema_ok_def char_class_defs)

theorem settings_check_weaker_than_schema_witness:
  "settings_password_error ''Passw0rd!'' ''Passw0rd!'' = None"
proof -
  have "password_schema_ok ''Passw0rd!''" by (simp add: password_schema_ok_def char_class_defs)
  with settings_check_weaker_than_schema show ?thesis by blast
qed

end
