(* ===== verification/Auth_Flows.thy ===== *)
theory Auth_Flows
  imports Http_Client Session_Store
begin

text \<open>
  The API layer the pages use: the React Query mutations of
  \<open>src/src/lib/api/mutations/auth.ts\<close> and \<open>mutations/user.ts\<close>, the profile query of
  \<open>queries/user.ts\<close> and the effect of \<open>AuthProvider\<close> in
  \<open>src/src/context/AuthContext.tsx\<close>. They compose the HTTP client (\<open>Http_Client\<close>)
  with the two stores (\<open>Session_Store\<close>), the toasts and the router. A mutation runs
  its \<open>mutationFn\<close> (loader up, service call, loader down in \<open>finally\<close>), then the
  hook's \<open>onSuccess\<close> or \<open>onError\<close>; as in React Query, an exception thrown by
  \<open>onSuccess\<close> turns the outcome into an error and runs \<open>onError\<close>. The outcome is
  returned so that a page can run its own per-call callbacks after the hook's. A hard
  navigation by the HTTP client's session expiry reloads the page: the in-memory stores
  start again from their initial states at \<open>/login\<close>.
\<close>

section \<open>The application state\<close>

text \<open>
  The thrown values the callbacks receive: the client's \<open>ApiError\<close>, a plain
  \<open>Error(message)\<close>, or the \<open>TypeError\<close> raised when a property of \<open>undefined\<close> is
  read (\<open>data.user._id\<close> on a payload without \<open>user\<close>).
\<close>

datatype js_error = ApiErr api_error | PlainErr string | TypeErr string

text \<open>A property read \<open>err.p\<close> on a thrown value: only the fields the objects have.\<close>

fun js_error_field :: "js_error \<Rightarrow> string \<Rightarrow> js_string" where
  "js_error_field (ApiErr e) p =
     (if p = ''message'' then Some (err_message e) else if p = ''name'' then Some ''ApiError'' else None)"
| "js_error_field (PlainErr m) p =
     (if p = ''message'' then Some m else if p = ''name'' then Some ''Error'' else None)"
| "js_error_field (TypeErr m) p =
     (if p = ''message'' then Some m else if p = ''name'' then Some ''TypeError'' else None)"

definition js_error_message :: "js_error \<Rightarrow> string" where
  "js_error_message err = (case js_error_field err ''message'' of None \<Rightarrow> [] | Some m \<Rightarrow> m)"

text \<open>\<open>react-hot-toast\<close>'s \<open>toast.success\<close>/\<open>toast.error\<close> and the UI kit's \<open>toast({...})\<close>.\<close>

datatype toast = ToastSuccess string | ToastError string | UiToast string string bool

record 's app =
  net :: "'s world"
  auth :: auth_state
  loader :: loader_state
  toasts :: "toast list"
  location :: path
  history :: "path list"
  profile_stale :: bool

definition add_toast :: "toast \<Rightarrow> 's app \<Rightarrow> 's app" where
  "add_toast t a = a\<lparr>toasts := toasts a @ [t]\<rparr>"

text \<open>\<open>router.push(p)\<close>: a client-side transition, the stores are kept.\<close>

definition router_push :: "path \<Rightarrow> 's app \<Rightarrow> 's app" where
  "router_push p a = a\<lparr>location := p, history := history a @ [p]\<rparr>"

text \<open>
  After a call of the client: if it assigned \<open>window.location.href\<close>, the page is
  reloaded there and every in-memory store starts again.
\<close>

definition hard_navigation :: "event list \<Rightarrow> path option" where
  "hard_navigation evs = (case [p. Navigate p \<leftarrow> evs] of [] \<Rightarrow> None | ps \<Rightarrow> Some (last ps))"

definition reload_if_navigated :: "nat \<Rightarrow> 's app \<Rightarrow> 's app" where
  "reload_if_navigated k a =
     (case hard_navigation (drop k (trace (net a))) of
        None \<Rightarrow> a
      | Some p \<Rightarrow> a\<lparr>auth := auth_init, loader := loader_init, toasts := [], location := p\<rparr>)"

section \<open>Running a mutation\<close>

text \<open>
  \<open>mutate(vars)\<close> for a \<open>mutationFn\<close> that shows the loader with \<open>msg\<close>, calls the
  service \<open>rq\<close> and hides the loader in \<open>finally\<close>; \<open>check\<close> is what the
  \<open>mutationFn\<close> does with the response body, \<open>on_ok\<close> and \<open>on_err\<close> the hook's
  callbacks (\<open>on_ok\<close> may throw).
\<close>

definition run_mutation ::
  "string \<Rightarrow> request \<Rightarrow> (envelope option \<Rightarrow> js_error + 'a) \<Rightarrow>
   ('a \<Rightarrow> 's app \<Rightarrow> js_error + 's app) \<Rightarrow> (js_error \<Rightarrow> 's app \<Rightarrow> 's app) \<Rightarrow>
   nat \<Rightarrow> 's server \<Rightarrow> 's app \<Rightarrow> ('s app \<times> (js_error + 'a)) option" where
  "run_mutation msg rq check on_ok on_err n srv a =
     (let a1 = a\<lparr>loader := showLoader (Some msg) (loader a)\<rparr>
      in case send n srv True rq (net a1) of
           None \<Rightarrow> None
         | Some (w, r) \<Rightarrow>
             (let a2 = a1\<lparr>net := w, loader := hideLoader (loader a1)\<rparr>;
                  out = (case r of Inl e \<Rightarrow> Inl (ApiErr e) | Inr res \<Rightarrow> check res);
                  (a3, out') = (case out of
                      Inl err \<Rightarrow> (on_err err a2, Inl err)
                    | Inr d \<Rightarrow> (case on_ok d a2 of
                                  Inl err \<Rightarrow> (on_err err a2, Inl err)
                                | Inr a' \<Rightarrow> (a', Inr d)))
              in Some (reload_if_navigated (length (trace (net a))) a3, out')))"

text \<open>
  Reading a property of \<open>undefined\<close> throws. A reply with an empty body (\<open>None\<close>) is
  not \<open>undefined\<close>: axios resolves it with \<open>data = ''\<close>, a string every property of
  which reads \<open>undefined\<close>, so the checks below read \<open>res.message\<close> of it without
  throwing, and \<open>new Error(undefined)\<close> has the empty message.
\<close>

definition missing_body :: "string \<Rightarrow> js_error" where
  "missing_body p = TypeErr (''Cannot read properties of undefined (reading '' @ [CHR 0x27] @ p @ [CHR 0x27] @ '')'')"

section \<open>The auth mutations\<close>

subsection \<open>useLoginMutation\<close>

record login_values =
  lv_email :: string
  lv_password :: string
  lv_rememberMe :: "bool option"

definition login_body :: "login_values \<Rightarrow> json_obj" where
  "login_body v =
     [(''email'', lv_email v), (''password'', lv_password v),
      (''rememberMe'', if lv_rememberMe v = Some True then ''true'' else ''false'')]"

text \<open>\<open>if (res?.success && res.data) return res.data; throw new Error(res.message)\<close>\<close>

fun login_check :: "envelope option \<Rightarrow> js_error + payload" where
  "login_check None = Inl (PlainErr [])"
| "login_check (Some res) =
     (if success res then (case data res of Some d \<Rightarrow> Inr d | None \<Rightarrow> Inl (PlainErr (message res)))
      else Inl (PlainErr (message res)))"

text \<open>The user object \<open>onSuccess\<close> hands to the store.\<close>

definition login_user_obj :: "iuser \<Rightarrow> string \<Rightarrow> string \<Rightarrow> user_obj" where
  "login_user_obj u at rt =
     [Id \<mapsto> JStr (user_id u), Email \<mapsto> JStr (user_email u), Role \<mapsto> JStr (user_role u),
      Name \<mapsto> JStr (user_name u), AccessToken \<mapsto> JStr at, RefreshToken \<mapsto> JStr rt]"

text \<open>\<open>onSuccess\<close>: \<open>data.user._id\<close> throws unless the data is a \<open>LoginResponse\<close>.\<close>

fun login_on_success :: "payload \<Rightarrow> 's app \<Rightarrow> js_error + 's app" where
  "login_on_success (PLogin u at rt) a =
     Inr (router_push ''/dashboard''
           (add_toast (ToastSuccess ''Login successful!'') (a\<lparr>auth := login (login_user_obj u at rt) (auth a)\<rparr>)))"
| "login_on_success _ a = Inl (missing_body ''_id'')"

definition login_on_error :: "js_error \<Rightarrow> 's app \<Rightarrow> 's app" where
  "login_on_error err a = add_toast (ToastError (js_or (js_error_message err) ''Login failed. Please try again.'')) a"

definition login_mutation :: "login_values \<Rightarrow> nat \<Rightarrow> 's server \<Rightarrow> 's app \<Rightarrow> ('s app \<times> (js_error + payload)) option" where
  "login_mutation v =
     run_mutation ''Signing in...'' (service_request Login (login_body v)) login_check login_on_success login_on_error"

subsection \<open>useSignupMutation, useForgotPasswordMutation, useResetPasswordMutation\<close>

text \<open>\<open>if (res?.success) return res; throw new Error(res.message)\<close>\<close>

fun success_check :: "envelope option \<Rightarrow> js_error + envelope" where
  "success_check None = Inl (PlainErr [])"
| "success_check (Some res) = (if success res then Inr res else Inl (PlainErr (message res)))"

definition toast_message_on_success :: "envelope \<Rightarrow> 's app \<Rightarrow> js_error + 's app" where
  "toast_message_on_success res a = Inr (add_toast (ToastSuccess (message res)) a)"

definition toast_error_or :: "string \<Rightarrow> js_error \<Rightarrow> 's app \<Rightarrow> 's app" where
  "toast_error_or dflt err a = add_toast (ToastError (js_or (js_error_message err) dflt)) a"

record signup_request =
  sr_name :: string
  sr_email :: string
  sr_password :: string
  sr_companyName :: string

definition signup_body :: "signup_request \<Rightarrow> json_obj" where
  "signup_body v =
     [(''name'', sr_name v), (''email'', sr_email v), (''password'', sr_password v),
      (''companyName'', sr_companyName v)]"

definition signup_mutation :: "signup_request \<Rightarrow> nat \<Rightarrow> 's server \<Rightarrow> 's app \<Rightarrow> ('s app \<times> (js_error + envelope)) option" where
  "signup_mutation v =
     run_mutation ''Signing up...'' (service_request Signup (signup_body v)) success_check
       toast_message_on_success (toast_error_or ''Signup failed. Please try again.'')"

definition forgot_password_mutation :: "string \<Rightarrow> nat \<Rightarrow> 's server \<Rightarrow> 's app \<Rightarrow> ('s app \<times> (js_error + envelope)) option" where
  "forgot_password_mutation email =
     run_mutation ''Sending Email...'' (service_request ForgotPassword [(''email'', email)]) success_check
       toast_message_on_success (toast_error_or ''Failed. Please try again.'')"

definition reset_password_mutation :: "string \<Rightarrow> string \<Rightarrow> nat \<Rightarrow> 's server \<Rightarrow> 's app \<Rightarrow> ('s app \<times> (js_error + envelope)) option" where
  "reset_password_mutation token newPassword =
     run_mutation ''Resetting...'' (service_request ResetPassword [(''token'', token), (''newPassword'', newPassword)])
       success_check toast_message_on_success (toast_error_or ''Failed. Please try again.'')"

subsection \<open>useLogout\<close>

text \<open>\<open>if (!res?.success) throw new Error(res.message || 'Logout failed'); return res\<close>\<close>

fun logout_check :: "envelope option \<Rightarrow> js_error + envelope" where
  "logout_check None = Inl (PlainErr ''Logout failed'')"
| "logout_check (Some res) = (if success res then Inr res else Inl (PlainErr (js_or (message res) ''Logout failed'')))"

definition logout_on_success :: "envelope \<Rightarrow> 's app \<Rightarrow> js_error + 's app" where
  "logout_on_success res a =
     Inr (router_push ''/login'' (add_toast (ToastSuccess ''Logged out successfully'') (a\<lparr>auth := logout (auth a)\<rparr>)))"

definition logout_mutation :: "nat \<Rightarrow> 's server \<Rightarrow> 's app \<Rightarrow> ('s app \<times> (js_error + envelope)) option" where
  "logout_mutation =
     run_mutation ''Signing out...'' (service_request Logout []) logout_check logout_on_success
       (toast_error_or ''Logout failed. Please try again.'')"

subsection \<open>useVerifyEmailMutation\<close>

fun verify_check :: "envelope option \<Rightarrow> js_error + envelope" where
  "verify_check None = Inl (PlainErr ''Email verification failed'')"
| "verify_check (Some res) =
     (if success res then Inr res else Inl (PlainErr (js_or (message res) ''Email verification failed'')))"

definition verify_on_success :: "envelope \<Rightarrow> 's app \<Rightarrow> js_error + 's app" where
  "verify_on_success res a = Inr (add_toast (ToastSuccess (js_or (message res) ''Email verified successfully'')) a)"

definition verify_email_mutation :: "string \<Rightarrow> nat \<Rightarrow> 's server \<Rightarrow> 's app \<Rightarrow> ('s app \<times> (js_error + envelope)) option" where
  "verify_email_mutation token =
     run_mutation ''Verifying email...'' (service_request VerifyEmail [(''token'', token)]) verify_check
       verify_on_success (toast_error_or ''Verification failed. Please try again.'')"


section \<open>The user mutations\<close>

text \<open>
  Both \<open>mutationFn\<close>s return the service's body as it is, without looking at
  \<open>success\<close>.
\<close>

definition pass_body :: "envelope option \<Rightarrow> js_error + envelope option" where
  "pass_body res = Inr res"

record update_profile_request =
  upr_name :: string
  upr_email :: js_string
  upr_companyName :: js_string

definition update_profile_body :: "update_profile_request \<Rightarrow> json_obj" where
  "update_profile_body v =
     [(''name'', upr_name v)] @
     (case upr_email v of None \<Rightarrow> [] | Some e \<Rightarrow> [(''email'', e)]) @
     (case upr_companyName v of None \<Rightarrow> [] | Some c \<Rightarrow> [(''companyName'', c)])"

text \<open>
  \<open>onSuccess\<close>: a toast with \<open>data.message || 'Profile updated successfully.'\<close> (an empty
  body is \<open>''\<close>, whose \<open>message\<close> is \<open>undefined\<close>: the default text), then
  \<open>invalidateQueries(['profile'])\<close>, which marks the profile query stale.
\<close>

fun update_profile_on_success :: "envelope option \<Rightarrow> 's app \<Rightarrow> js_error + 's app" where
  "update_profile_on_success None a =
     Inr ((add_toast (UiToast ''Success'' ''Profile updated successfully.'' False) a)\<lparr>profile_stale := True\<rparr>)"
| "update_profile_on_success (Some res) a =
     Inr ((add_toast (UiToast ''Success'' (js_or (message res) ''Profile updated successfully.'') False) a)
            \<lparr>profile_stale := True\<rparr>)"

definition update_profile_on_error :: "js_error \<Rightarrow> 's app \<Rightarrow> 's app" where
  "update_profile_on_error err a =
     add_toast (UiToast ''Error'' (js_or (js_error_message err) ''Failed to update profile. Please try again.'') True) a"

definition update_profile_mutation ::
  "update_profile_request \<Rightarrow> nat \<Rightarrow> 's server \<Rightarrow> 's app \<Rightarrow> ('s app \<times> (js_error + envelope option)) option" where
  "update_profile_mutation v =
     run_mutation ''Updating your profile...'' (service_request UpdateProfile (update_profile_body v)) pass_body
       update_profile_on_success update_profile_on_error"

record change_password_request =
  cpr_currentPassword :: string
  cpr_newPassword :: string
  cpr_confirmPassword :: string

definition change_password_body :: "change_password_request \<Rightarrow> json_obj" where
  "change_password_body v =
     [(''currentPassword'', cpr_currentPassword v), (''newPassword'', cpr_newPassword v),
      (''confirmPassword'', cpr_confirmPassword v)]"

text \<open>\<open>onSuccess\<close> reads \<open>data?.message\<close>, which does not throw.\<close>

definition change_password_on_success :: "envelope option \<Rightarrow> 's app \<Rightarrow> js_error + 's app" where
  "change_password_on_success res a =
     Inr (add_toast (UiToast ''Success''
            (js_or_opt (map_option message res) ''Password changed successfully.'') False) a)"

definition change_password_on_error :: "js_error \<Rightarrow> 's app \<Rightarrow> 's app" where
  "change_password_on_error err a =
     add_toast (UiToast ''Error'' (js_or (js_error_message err) ''Failed to change password. Please try again.'') True) a"

definition change_password_mutation ::
  "change_password_request \<Rightarrow> nat \<Rightarrow> 's server \<Rightarrow> 's app \<Rightarrow> ('s app \<times> (js_error + envelope option)) option" where
  "change_password_mutation v =
     run_mutation ''Updating your password...'' (service_request ChangePassword (change_password_body v)) pass_body
       change_password_on_success change_password_on_error"

section \<open>The profile query and AuthProvider\<close>

text \<open>
  One run of \<open>queryFn\<close>: loader up, \<open>UserService.me()\<close>, loader down in
  \<open>finally\<close>.
\<close>

definition profile_attempt :: "nat \<Rightarrow> 's server \<Rightarrow> 's app \<Rightarrow> ('s app \<times> (api_error + envelope option)) option" where
  "profile_attempt n srv a =
     (let a1 = a\<lparr>loader := showLoader (Some ''Loading your profile...'') (loader a)\<rparr>
      in case send n srv True (service_request UserMe []) (net a1) of
           None \<Rightarrow> None
         | Some (w, r) \<Rightarrow> Some (a1\<lparr>net := w, loader := hideLoader (loader a1)\<rparr>, r))"

text \<open>\<open>useProfileQuery\<close> with \<open>retry: 1\<close>: a failed attempt is tried once more.\<close>

definition profile_query :: "nat \<Rightarrow> 's server \<Rightarrow> 's app \<Rightarrow> ('s app \<times> (api_error + envelope option)) option" where
  "profile_query n srv a =
     (case profile_attempt n srv a of
        None \<Rightarrow> None
      | Some (a1, Inl e) \<Rightarrow> profile_attempt n srv a1
      | Some (a1, Inr r) \<Rightarrow> Some (a1, Inr r))"

text \<open>
  The object the effect of \<open>AuthProvider\<close> passes to \<open>setUser\<close>: all six keys
  are present, \<open>picture\<close> and \<open>companyName\<close> possibly \<open>undefined\<close>; on a value
  that is not an \<open>IUser\<close> every read gives \<open>undefined\<close>.
\<close>

definition opt_val :: "js_string \<Rightarrow> jsval" where
  "opt_val v = (case v of None \<Rightarrow> JUndefined | Some s \<Rightarrow> JStr s)"

fun profile_patch :: "payload \<Rightarrow> user_obj" where
  "profile_patch (PUser u) =
     [Id \<mapsto> JStr (user_id u), Name \<mapsto> JStr (user_name u), Email \<mapsto> JStr (user_email u),
      Role \<mapsto> JStr (user_role u), Picture \<mapsto> opt_val (user_picture u), CompanyName \<mapsto> opt_val (user_company u)]"
| "profile_patch _ =
     [Id \<mapsto> JUndefined, Name \<mapsto> JUndefined, Email \<mapsto> JUndefined, Role \<mapsto> JUndefined,
      Picture \<mapsto> JUndefined, CompanyName \<mapsto> JUndefined]"

text \<open>\<open>useEffect\<close>: \<open>if (isSuccess && user) setUser({...})\<close> with \<open>user = data?.data\<close>.\<close>

fun auth_provider_effect :: "api_error + envelope option \<Rightarrow> 's app \<Rightarrow> 's app" where
  "auth_provider_effect (Inr (Some env)) a =
     (case data env of None \<Rightarrow> a | Some p \<Rightarrow> a\<lparr>auth := setUser (profile_patch p) (auth a)\<rparr>)"
| "auth_provider_effect _ a = a"

text \<open>Mounting \<open>AuthProvider\<close>: the query runs, then its effect.\<close>

definition auth_provider_mount :: "nat \<Rightarrow> 's server \<Rightarrow> 's app \<Rightarrow> 's app option" where
  "auth_provider_mount n srv a =
     (case profile_query n srv a of
        None \<Rightarrow> None
      | Some (a1, r) \<Rightarrow> Some (reload_if_navigated (length (trace (net a))) (auth_provider_effect r a1)))"


section \<open>Scenario data\<close>

text \<open>
  A server that answers every request with the same reply, a freshly loaded page on
  \<open>/login\<close>, and the data of the concrete runs below.
\<close>

definition fixed_reply :: "reply \<Rightarrow> unit server" where
  "fixed_reply r s e b = (s, r)"

definition blank_app :: "'s \<Rightarrow> 's app" where
  "blank_app s = \<lparr>net = \<lparr>server = s, trace = []\<rparr>, auth = auth_init, loader = loader_init, toasts = [],
                  location = ''/login'', history = [], profile_stale = False\<rparr>"

definition demo_user :: iuser where
  "demo_user = \<lparr>user_id = ''u1'', user_name = ''Ann'', user_email = ''ann@example.com'',
                user_role = ''brand_owner'', user_company = Some ''Acme'', user_picture = None\<rparr>"

definition demo_login :: login_values where
  "demo_login = \<lparr>lv_email = ''ann@example.com'', lv_password = ''Passw0rd!'', lv_rememberMe = None\<rparr>"

definition reply_env :: "bool \<Rightarrow> payload option \<Rightarrow> string \<Rightarrow> envelope" where
  "reply_env ok d msg = \<lparr>success = ok, data = d, message = msg, errorCode = None\<rparr>"

definition profile_env :: envelope where
  "profile_env = reply_env True (Some (PUser demo_user)) ''Profile fetched''"

section \<open>Lemmas\<close>

lemma run_mutation_settled:
  assumes "send n srv True rq (net a) = Some (w, r)"
  shows "run_mutation msg rq check on_ok on_err n srv a =
    (let a2 = a\<lparr>net := w, loader := hideLoader (showLoader (Some msg) (loader a))\<rparr>;
         out = (case r of Inl e \<Rightarrow> Inl (ApiErr e) | Inr res \<Rightarrow> check res);
         (a3, out') = (case out of
             Inl err \<Rightarrow> (on_err err a2, Inl err)
           | Inr d \<Rightarrow> (case on_ok d a2 of Inl err \<Rightarrow> (on_err err a2, Inl err) | Inr a' \<Rightarrow> (a', Inr d)))
     in Some (reload_if_navigated (length (trace (net a))) a3, out'))"
  using assms by (simp add: run_mutation_def Let_def)

lemma run_mutation_loader_down:
  assumes "run_mutation msg rq check on_ok on_err n srv a = Some (a', out)"
    and "\<And>d x y. on_ok d x = Inr y \<Longrightarrow> loader y = loader x"
    and "\<And>e x. loader (on_err e x) = loader x"
  shows "\<not> isLoading (loader a')"
  using assms
  by (auto simp: run_mutation_def Let_def reload_if_navigated_def hideLoader_def loader_init_def
      split: option.splits prod.splits sum.splits)

lemmas mutation_defs = login_mutation_def signup_mutation_def forgot_password_mutation_def
  reset_password_mutation_def logout_mutation_def verify_email_mutation_def update_profile_mutation_def
  change_password_mutation_def

lemmas callback_defs = add_toast_def router_push_def toast_message_on_success_def toast_error_or_def
  login_on_error_def logout_on_success_def verify_on_success_def update_profile_on_error_def
  change_password_on_success_def change_password_on_error_def

lemmas demo_defs = fixed_reply_def blank_app_def demo_user_def demo_login_def reply_env_def

text \<open>C22: when the server accepts the credentials with a \<open>LoginResponse\<close>, \<open>useLoginMutation\<close> sends exactly one login request, stores the user with both tokens and the authenticated flag, shows the success toast, moves to \<open>/dashboard\<close> and leaves the loader lowered.\<close>

theorem login_success_flow:
  assumes "srv (server (net a)) Login (login_body v) = (s', Reply st (Some env))"
    and "status_ok st" and "success env" and "data env = Some (PLogin u at rt)"
  shows "\<exists>a'. login_mutation v (Suc n) srv a = Some (a', Inr (PLogin u at rt)) \<and>
           auth a' = login (login_user_obj u at rt) (auth a) \<and>
           toasts a' = toasts a @ [ToastSuccess ''Login successful!''] \<and>
           location a' = ''/dashboard'' \<and> \<not> isLoading (loader a') \<and>
           trace (net a') = trace (net a) @ [Sent Login False]"
proof -
  have s: "send (Suc n) srv True (service_request Login (login_body v)) (net a) =
           Some ((net a)\<lparr>server := s', trace := trace (net a) @ [Sent Login False]\<rparr>, Inr (Some env))"
    using assms by (simp add: transmit_def service_request_def)
  show ?thesis
    using assms
    by (simp add: login_mutation_def run_mutation_settled [OF s] reload_if_navigated_def
        hard_navigation_def add_toast_def router_push_def hideLoader_def)
qed

text \<open>C23: when the server rejects the credentials with an error other than a token rejection, the login mutation fails with the normalised \<open>ApiError\<close>, shows the server's message (or the generic one) as an error toast, and changes nothing else but the loader, which ends lowered: the auth store and the location are untouched.\<close>

theorem login_rejected_flow:
  assumes "srv (server (net a)) Login (login_body v) = (s', Reply st body)"
    and "\<not> status_ok st" and "st \<noteq> 0" and "\<not> token_rejection True (Reply st body)"
  shows "login_mutation v (Suc n) srv a =
           Some (a\<lparr>net := (net a)\<lparr>server := s', trace := trace (net a) @ [Sent Login False]\<rparr>,
                   loader := hideLoader (showLoader (Some ''Signing in...'') (loader a)),
                   toasts := toasts a @ [ToastError (js_or_opt (map_option message body) ''Something went wrong'')]\<rparr>,
                 Inl (ApiErr (generic_error (Reply st body))))"
proof -
  have s: "send (Suc n) srv True (service_request Login (login_body v)) (net a) =
           Some ((net a)\<lparr>server := s', trace := trace (net a) @ [Sent Login False]\<rparr>, Inl (generic_error (Reply st body)))"
    using assms by (simp add: transmit_def service_request_def on_rejected_generic)
  have m: "js_or_opt (map_option message body) ''Something went wrong'' \<noteq> []"
    by (rule js_or_opt_nonempty) simp
  show ?thesis
    using m by (simp add: login_mutation_def run_mutation_settled [OF s] reload_if_navigated_def
        hard_navigation_def login_on_error_def add_toast_def js_error_message_def generic_error_def
        js_or_def)
qed

text \<open>C24: after a page load, a successful profile query fills the auth store with the user but leaves \<open>isAuthenticated\<close> false: \<open>AuthProvider\<close> only calls \<open>setUser\<close>.\<close>

theorem profile_load_leaves_unauthenticated:
  assumes "auth a = auth_init"
    and "srv (server (net a)) UserMe [] = (s', Reply st (Some env))" and "status_ok st"
    and "data env = Some (PUser u)"
  shows "\<exists>a'. auth_provider_mount (Suc n) srv a = Some a' \<and>
           user (auth a') = Some (profile_patch (PUser u)) \<and> \<not> isAuthenticated (auth a') \<and>
           \<not> isLoading (loader a')"
  using assms
  by (simp add: auth_provider_mount_def profile_query_def profile_attempt_def transmit_def
      service_request_def reload_if_navigated_def hard_navigation_def setUser_def spread_def
      auth_init_def hideLoader_def)

text \<open>C25: \<open>useUpdateProfileMutation\<close> treats a 2xx answer whose body says \<open>success: false\<close> as a success: it shows the success toast with the server's message and invalidates the profile query.\<close>

theorem update_profile_ignores_success:
  assumes "srv (server (net a)) UpdateProfile (update_profile_body v) = (s', Reply st (Some env))"
    and "status_ok st" and "\<not> success env"
  shows "\<exists>a'. update_profile_mutation v (Suc n) srv a = Some (a', Inr (Some env)) \<and>
           toasts a' = toasts a @ [UiToast ''Success'' (js_or (message env) ''Profile updated successfully.'') False] \<and>
           profile_stale a'"
  using assms
  by (simp add: update_profile_mutation_def run_mutation_def transmit_def service_request_def
      reload_if_navigated_def hard_navigation_def pass_body_def add_toast_def)

text \<open>C26: when the server answers with a 2xx status and an empty body, which axios resolves as \<open>''\<close>, no hook throws a \<open>TypeError\<close>: the login hook rejects with an \<open>Error\<close> whose message is empty, so its toast shows the fallback text and the store is untouched; the logout hook rejects with \<open>'Logout failed'\<close> and keeps the session; the update-profile hook succeeds with its default success toast and marks the profile stale.\<close>

theorem empty_body_replies:
  assumes "\<And>e b. srv (server (net a)) e b = (s', Reply st None)" and "status_ok st"
  shows "(\<exists>a'. login_mutation v (Suc n) srv a = Some (a', Inl (PlainErr [])) \<and>
              toasts a' = toasts a @ [ToastError ''Login failed. Please try again.''] \<and> auth a' = auth a) \<and>
         (\<exists>a'. logout_mutation (Suc n) srv a = Some (a', Inl (PlainErr ''Logout failed'')) \<and>
              toasts a' = toasts a @ [ToastError ''Logout failed''] \<and> auth a' = auth a \<and> location a' = location a) \<and>
         (\<exists>a'. update_profile_mutation u (Suc n) srv a = Some (a', Inr None) \<and>
              toasts a' = toasts a @ [UiToast ''Success'' ''Profile updated successfully.'' False] \<and> profile_stale a')"
proof (intro conjI)
  show "\<exists>a'. login_mutation v (Suc n) srv a = Some (a', Inl (PlainErr [])) \<and>
          toasts a' = toasts a @ [ToastError ''Login failed. Please try again.''] \<and> auth a' = auth a"
    using assms by (simp add: login_mutation_def run_mutation_def transmit_def service_request_def
        reload_if_navigated_def hard_navigation_def login_on_error_def add_toast_def js_error_message_def)
  show "\<exists>a'. logout_mutation (Suc n) srv a = Some (a', Inl (PlainErr ''Logout failed'')) \<and>
          toasts a' = toasts a @ [ToastError ''Logout failed''] \<and> auth a' = auth a \<and> location a' = location a"
    using assms by (simp add: logout_mutation_def run_mutation_def transmit_def service_request_def
        reload_if_navigated_def hard_navigation_def toast_error_or_def add_toast_def js_error_message_def)
  show "\<exists>a'. update_profile_mutation u (Suc n) srv a = Some (a', Inr None) \<and>
          toasts a' = toasts a @ [UiToast ''Success'' ''Profile updated successfully.'' False] \<and> profile_stale a'"
    using assms by (simp add: update_profile_mutation_def run_mutation_def transmit_def service_request_def
        reload_if_navigated_def hard_navigation_def pass_body_def add_toast_def)
qed

text \<open>C27: when the logout request fails with an ordinary error, \<open>useLogout\<close> keeps the local session: the auth store and the location are unchanged and only an error toast is shown.\<close>

theorem logout_failure_keeps_session:
  assumes "srv (server (net a)) Logout [] = (s', r)" and "resolved r = None"
    and "\<not> token_rejection True r"
  shows "\<exists>a'. logout_mutation (Suc n) srv a = Some (a', Inl (ApiErr (generic_error r))) \<and>
           auth a' = auth a \<and> location a' = location a \<and>
           toasts a' = toasts a @ [ToastError (err_message (generic_error r))]"
proof -
  have m: "err_message (generic_error r) \<noteq> []"
    by (simp add: generic_error_def js_or_opt_nonempty)
  show ?thesis
    using assms m
    by (simp add: logout_mutation_def run_mutation_def transmit_def service_request_def on_rejected_generic
        reload_if_navigated_def hard_navigation_def toast_error_or_def add_toast_def js_error_message_def
        js_or_def)
qed

text \<open>C28: every mutation of the API layer that settles leaves the global loader lowered, whatever the server answered and whether its callbacks threw.\<close>

theorem mutations_lower_loader:
  "(login_mutation v n srv a = Some (a', o1) \<longrightarrow> \<not> isLoading (loader a')) \<and>
   (signup_mutation sv n srv a = Some (a', o2) \<longrightarrow> \<not> isLoading (loader a')) \<and>
   (forgot_password_mutation email n srv a = Some (a', o2) \<longrightarrow> \<not> isLoading (loader a')) \<and>
   (reset_password_mutation tok pw n srv a = Some (a', o2) \<longrightarrow> \<not> isLoading (loader a')) \<and>
   (logout_mutation n srv a = Some (a', o2) \<longrightarrow> \<not> isLoading (loader a')) \<and>
   (verify_email_mutation tok n srv a = Some (a', o2) \<longrightarrow> \<not> isLoading (loader a')) \<and>
   (update_profile_mutation uv n srv a = Some (a', o3) \<longrightarrow> \<not> isLoading (loader a')) \<and>
   (change_password_mutation cv n srv a = Some (a', o3) \<longrightarrow> \<not> isLoading (loader a'))"
  unfolding mutation_defs
  by (intro conjI impI; erule run_mutation_loader_down)
     (auto simp: callback_defs elim: login_on_success.elims update_profile_on_success.elims)

section \<open>Witnesses\<close>

theorem login_success_flow_witness:
  "\<exists>a'. login_mutation demo_login 1 (fixed_reply (Reply 200 (Some (reply_env True (Some (PLogin demo_user ''at'' ''rt'')) ''ok''))))
           (blank_app ()) = Some (a', Inr (PLogin demo_user ''at'' ''rt'')) \<and>
         location a' = ''/dashboard'' \<and> isAuthenticated (auth a')"
proof -
  from login_success_flow [of "fixed_reply (Reply 200 (Some (reply_env True (Some (PLogin demo_user ''at'' ''rt'')) ''ok'')))"
      "blank_app ()" demo_login "()" 200 "reply_env True (Some (PLogin demo_user ''at'' ''rt'')) ''ok''" demo_user "''at''" "''rt''" 0]
  show ?thesis by (auto simp: demo_defs status_ok_def login_def)
qed

theorem login_rejected_flow_witness:
  "login_mutation demo_login 1 (fixed_reply (Reply 401 (Some (reply_env False None ''Invalid credentials'')))) (blank_app ()) =
     Some ((blank_app ())\<lparr>net := \<lparr>server = (), trace = [Sent Login False]\<rparr>,
             loader := hideLoader (showLoader (Some ''Signing in...'') loader_init),
             toasts := [ToastError ''Invalid credentials'']\<rparr>,
           Inl (ApiErr (generic_error (Reply 401 (Some (reply_env False None ''Invalid credentials''))))))"
proof -
  have "\<not> token_rejection True (Reply 401 (Some (reply_env False None ''Invalid credentials'')))"
    by (simp add: token_rejection_def error_code_def reply_env_def)
  from login_rejected_flow [OF _ _ _ this, of "fixed_reply (Reply 401 (Some (reply_env False None ''Invalid credentials'')))"
      "blank_app ()" demo_login "()" 0]
  show ?thesis by (simp add: demo_defs status_ok_def)
qed

theorem profile_load_leaves_unauthenticated_witness:
  "\<exists>a'. auth_provider_mount 1 (fixed_reply (Reply 200 (Some profile_env))) (blank_app ()) = Some a' \<and>
         user (auth a') \<noteq> None \<and> \<not> isAuthenticated (auth a')"
  using profile_load_leaves_unauthenticated [of "blank_app ()" "fixed_reply (Reply 200 (Some profile_env))"
      "()" 200 profile_env demo_user 0]
  by (auto simp: demo_defs profile_env_def status_ok_def)

theorem update_profile_ignores_success_witness:
  "\<exists>a'. update_profile_mutation \<lparr>upr_name = ''Ann'', upr_email = None, upr_companyName = None\<rparr> 1
           (fixed_reply (Reply 200 (Some (reply_env False None ''Email already taken'')))) (blank_app ()) =
         Some (a', Inr (Some (reply_env False None ''Email already taken''))) \<and>
         toasts a' = [UiToast ''Success'' ''Email already taken'' False]"
  using update_profile_ignores_success [of "fixed_reply (Reply 200 (Some (reply_env False None ''Email already taken'')))"
      "blank_app ()" "\<lparr>upr_name = ''Ann'', upr_email = None, upr_companyName = None\<rparr>" "()" 200
      "reply_env False None ''Email already taken''" 0]
  by (auto simp: demo_defs status_ok_def)

theorem empty_body_replies_witness:
  "\<exists>a'. update_profile_mutation \<lparr>upr_name = ''Ann'', upr_email = None, upr_companyName = None\<rparr> 1
           (fixed_reply (Reply 204 None)) (blank_app ()) = Some (a', Inr None) \<and> profile_stale a'"
  using empty_body_replies [of "fixed_reply (Reply 204 None)" "blank_app ()" "()" 204 demo_login 0 "\<lparr>upr_name = ''Ann'', upr_email = None, upr_companyName = None\<rparr>"]
  by (auto simp: demo_defs status_ok_def)

theorem logout_failure_keeps_session_witness:
  "\<exists>a'. logout_mutation 1 (fixed_reply (Reply 500 None)) (blank_app ()) =
           Some (a', Inl (ApiErr (generic_error (Reply 500 None)))) \<and>
         location a' = ''/login'' \<and> toasts a' = [ToastError ''Something went wrong'']"
  using logout_failure_keeps_session [of "fixed_reply (Reply 500 None)" "blank_app ()" "()" "Reply 500 None" 0]
  by (auto simp: demo_defs status_ok_def token_rejection_def error_code_def generic_error_def)

theorem mutations_lower_loader_witness:
  "\<exists>a' out. login_mutation demo_login 1 (fixed_reply NoReply) (blank_app ()) = Some (a', out) \<and>
     \<not> isLoading (loader a')"
proof -
  obtain a' out where r: "login_mutation demo_login 1 (fixed_reply NoReply) (blank_app ()) = Some (a', out)"
    by (simp add: login_mutation_def run_mutation_def demo_defs transmit_def service_request_def
        on_rejected_generic token_rejection_def split: prod.splits)
  from mutations_lower_loader [of demo_login 1 "fixed_reply NoReply" "blank_app ()" a' out] r
  show ?thesis by blast
qed

end
