(* ===== verification/Login_Form.thy ===== *)
theory Login_Form
  imports Auth_Flows Validation
begin

text \<open>
  The sign-in page \<open>LoginPage\<close> of \<open>src/src/components/screens/auth/LoginForm.tsx\<close>:
  its local state, the two \<open>localStorage\<close> entries it keeps (the failed-attempt counter
  and the lockout end), its mount effect with the countdown interval, and
  \<open>handleSubmit\<close> with the per-call callbacks it passes to the login mutation of
  \<open>Auth_Flows\<close>. The counter goes through \<open>toString\<close> and \<open>parseInt\<close>, which are
  modelled on integers with \<open>NaN\<close> as \<open>None\<close>. Times are milliseconds since the epoch.
\<close>

section \<open>Decimal numbers\<close>

definition digit_char :: "nat \<Rightarrow> char" where
  "digit_char d = char_of (48 + d)"

definition digit_val :: "char \<Rightarrow> nat" where
  "digit_val c = of_char c - 48"

text \<open>\<open>n.toString()\<close> for a natural number.\<close>

function show_nat :: "nat \<Rightarrow> string" where
  "show_nat n = (if n < 10 then [digit_char n] else show_nat (n div 10) @ [digit_char (n mod 10)])"
  by auto
termination
  by (relation "measure id") auto

declare show_nat.simps [simp del]

text \<open>\<open>i.toString()\<close>; \<open>NaN\<close> prints as \<open>''NaN''\<close>.\<close>

definition show_int :: "int \<Rightarrow> string" where
  "show_int i = (if i < 0 then CHR ''-'' # show_nat (nat (- i)) else show_nat (nat i))"

definition show_num :: "int option \<Rightarrow> string" where
  "show_num x = (case x of None \<Rightarrow> ''NaN'' | Some i \<Rightarrow> show_int i)"

definition digits_val :: "string \<Rightarrow> nat" where
  "digits_val ds = foldl (\<lambda>acc c. 10 * acc + digit_val c) 0 ds"

text \<open>
  \<open>parseInt(s, 10)\<close>: leading white space, an optional sign, then the longest run of
  decimal digits; no digit is \<open>NaN\<close>.
\<close>

definition parse_unsigned :: "string \<Rightarrow> int option" where
  "parse_unsigned s = (let ds = takeWhile is_digit s in if ds = [] then None else Some (int (digits_val ds)))"

definition parse_int :: "string \<Rightarrow> int option" where
  "parse_int s =
     (case dropWhile is_ws s of
        [] \<Rightarrow> None
      | c # r \<Rightarrow>
          if c = CHR ''-'' then map_option uminus (parse_unsigned r)
          else if c = CHR ''+'' then parse_unsigned r
          else parse_unsigned (c # r))"

section \<open>The page state\<close>

record login_page =
  lp_email :: string
  lp_password :: string
  lp_rememberMe :: bool
  lp_localError :: js_string
  lp_failedAttempts :: "int option"  \<comment> \<open>a JavaScript number; \<open>None\<close> is \<open>NaN\<close>\<close>
  lp_isLocked :: bool
  lp_lockoutEndTime :: "int option"
  lp_interval :: "int option"        \<comment> \<open>the lockout end captured by the running interval\<close>

text \<open>
  The two entries of \<open>localStorage\<close>: \<open>failed_login_attempts\<close> as stored text and
  \<open>account_lockout\<close> as the time its JSON holds.
\<close>

record login_storage =
  failed_login_attempts :: js_string
  account_lockout :: "int option"

definition login_page_init :: login_page where
  "login_page_init =
     \<lparr>lp_email = [], lp_password = [], lp_rememberMe = False, lp_localError = None,
      lp_failedAttempts = Some 0, lp_isLocked = False, lp_lockoutEndTime = None, lp_interval = None\<rparr>"

definition lockout_ms :: int where
  "lockout_ms = 15 * 60 * 1000"

definition too_many_attempts :: string where
  "too_many_attempts = ''Too many login attempts. Please try again later.''"

section \<open>The mount effect and the countdown\<close>

text \<open>
  The effect of the first render (lines 33--65): an unexpired lockout locks the form and
  starts the interval, an expired one is removed; a stored counter is read with
  \<open>parseInt\<close>.
\<close>

definition login_mount :: "int \<Rightarrow> login_storage \<Rightarrow> login_page \<times> login_storage" where
  "login_mount now st =
     (let (p, st1) =
        (case account_lockout st of
           None \<Rightarrow> (login_page_init, st)
         | Some e \<Rightarrow>
             if now < e then (login_page_init\<lparr>lp_isLocked := True, lp_lockoutEndTime := Some e, lp_interval := Some e\<rparr>, st)
             else (login_page_init, st\<lparr>account_lockout := None\<rparr>))
      in (case failed_login_attempts st1 of
            Some s \<Rightarrow> if s \<noteq> [] then (p\<lparr>lp_failedAttempts := parse_int s\<rparr>, st1) else (p, st1)
          | None \<Rightarrow> (p, st1)))"

text \<open>One firing of the interval (lines 44--51), at time \<open>now\<close>.\<close>

definition login_tick :: "int \<Rightarrow> login_page \<times> login_storage \<Rightarrow> login_page \<times> login_storage" where
  "login_tick now ps =
     (case ps of (p, st) \<Rightarrow>
        (case lp_interval p of
           Some e \<Rightarrow>
             if e \<le> now then (p\<lparr>lp_isLocked := False, lp_lockoutEndTime := None, lp_interval := None\<rparr>,
                              st\<lparr>account_lockout := None\<rparr>)
             else (p, st)
         | None \<Rightarrow> (p, st)))"

section \<open>Submitting the form\<close>

text \<open>The per-call \<open>onError\<close> (lines 90--123); \<open>err.code\<close> is read from the thrown value.\<close>

definition login_form_on_error :: "int \<Rightarrow> js_error \<Rightarrow> login_page \<times> login_storage \<Rightarrow> login_page \<times> login_storage" where
  "login_form_on_error now err ps =
     (case ps of (p, st) \<Rightarrow>
        (let code = js_error_field err ''code'' in
         if code = Some ''EMAIL_NOT_VERIFIED'' then
           (p\<lparr>lp_localError := Some ''Your email is not verified. Please check your inbox.''\<rparr>, st)
         else if code = Some ''ACCOUNT_INACTIVE'' then
           (p\<lparr>lp_localError := Some ''Your account is inactive. Please contact support.''\<rparr>, st)
         else if code = Some ''INVALID_EMAIL_PASSWORD'' then
           (let k = map_option (\<lambda>i. i + 1) (lp_failedAttempts p);
                p1 = p\<lparr>lp_failedAttempts := k\<rparr>;
                st1 = st\<lparr>failed_login_attempts := Some (show_num k)\<rparr>
            in if (case k of Some i \<Rightarrow> 5 \<le> i | None \<Rightarrow> False) then
                 (p1\<lparr>lp_isLocked := True, lp_lockoutEndTime := Some (now + lockout_ms),
                     lp_localError := Some too_many_attempts\<rparr>,
                  st1\<lparr>account_lockout := Some (now + lockout_ms)\<rparr>)
               else (p1\<lparr>lp_localError := Some ''Invalid email or password.''\<rparr>, st1))
         else
           (p\<lparr>lp_localError := Some (js_or (js_error_message err) ''Login failed. Please try again.'')\<rparr>, st)))"

text \<open>The per-call \<open>onSuccess\<close> (lines 85--89).\<close>

definition login_form_on_success :: "login_page \<times> login_storage \<Rightarrow> login_page \<times> login_storage" where
  "login_form_on_success ps =
     (case ps of (p, st) \<Rightarrow> (p\<lparr>lp_failedAttempts := Some 0\<rparr>, st\<lparr>failed_login_attempts := None\<rparr>))"

text \<open>
  The per-call callbacks run once the mutation has settled, unless the HTTP client
  navigated away: the reload then discards the page with its callbacks.
\<close>

definition navigated_away :: "nat \<Rightarrow> 's app \<Rightarrow> bool" where
  "navigated_away k a \<longleftrightarrow> hard_navigation (drop k (trace (net a))) \<noteq> None"

text \<open>\<open>handleSubmit\<close> (lines 67--126) at time \<open>now\<close>.\<close>

definition login_submit ::
  "int \<Rightarrow> nat \<Rightarrow> 's server \<Rightarrow> login_page \<times> login_storage \<times> 's app \<Rightarrow>
   (login_page \<times> login_storage \<times> 's app) option" where
  "login_submit now n srv pa =
     (case pa of (p, st, a) \<Rightarrow>
        (let p1 = p\<lparr>lp_localError := None\<rparr> in
         if lp_isLocked p1 then Some (p1\<lparr>lp_localError := Some too_many_attempts\<rparr>, st, a)
         else if lp_email p1 = [] \<or> lp_password p1 = [] then
           Some (p1\<lparr>lp_localError := Some ''Please enter both email and password''\<rparr>, st, a)
         else
           (case login_mutation \<lparr>lv_email = lp_email p1, lv_password = lp_password p1,
                                 lv_rememberMe = Some (lp_rememberMe p1)\<rparr> n srv a of
              None \<Rightarrow> None
            | Some (a', out) \<Rightarrow>
                if navigated_away (length (trace (net a))) a' then Some (p1, st, a')
                else
                  (let (p2, st2) = (case out of
                                      Inr _ \<Rightarrow> login_form_on_success (p1, st)
                                    | Inl err \<Rightarrow> login_form_on_error now err (p1, st))
                   in Some (p2, st2, a')))))"

text \<open>\<open>getRemainingLockoutTime\<close> (lines 133--144): \<open>m:ss\<close>.\<close>

definition remaining_lockout_time :: "int option \<Rightarrow> int \<Rightarrow> string" where
  "remaining_lockout_time endt now =
     (case endt of
        None \<Rightarrow> []
      | Some e \<Rightarrow>
          (let d = e - now in
           if d \<le> 0 then []
           else show_int (d div 60000) @ '':'' @ (if (d mod 60000) div 1000 < 10 then ''0'' else [])
                @ show_int ((d mod 60000) div 1000)))"

section \<open>The page as a state machine\<close>

text \<open>
  What the user and the browser can do on the page: edit the fields, submit at some time
  against some server, and let the interval fire.
\<close>

datatype login_event =
    SetEmail string | SetPassword string | SetRememberMe bool
  | Submit int nat "unit server" | Tick int

fun login_page_step ::
  "login_page \<times> login_storage \<times> unit app \<Rightarrow> login_event \<Rightarrow> (login_page \<times> login_storage \<times> unit app) option" where
  "login_page_step (p, st, a) (SetEmail s) = Some (p\<lparr>lp_email := s\<rparr>, st, a)"
| "login_page_step (p, st, a) (SetPassword s) = Some (p\<lparr>lp_password := s\<rparr>, st, a)"
| "login_page_step (p, st, a) (SetRememberMe b) = Some (p\<lparr>lp_rememberMe := b\<rparr>, st, a)"
| "login_page_step (p, st, a) (Submit now n srv) = login_submit now n srv (p, st, a)"
| "login_page_step (p, st, a) (Tick now) = (case login_tick now (p, st) of (p', st') \<Rightarrow> Some (p', st', a))"

inductive login_reach :: "login_page \<times> login_storage \<times> unit app \<Rightarrow> bool" where
  mount: "account_lockout st = None \<Longrightarrow> login_mount now st = (p, st') \<Longrightarrow> login_reach (p, st', a)"
| step: "login_reach s \<Longrightarrow> login_page_step s ev = Some s' \<Longrightarrow> login_reach s'"

text \<open>The invariant of the page: not locked, no interval, no stored lockout.\<close>

definition login_unlocked :: "login_page \<times> login_storage \<times> 's app \<Rightarrow> bool" where
  "login_unlocked s \<longleftrightarrow> (case s of (p, st, a) \<Rightarrow> \<not> lp_isLocked p \<and> lp_interval p = None \<and> account_lockout st = None)"

section \<open>Lemmas\<close>

lemma digit_char_digit: "d < 10 \<Longrightarrow> is_digit (digit_char d) \<and> digit_val (digit_char d) = d"
  by (simp add: digit_char_def digit_val_def is_digit_def in_range_def of_char_of)

lemma show_nat_digits: "\<forall>c \<in> set (show_nat n). is_digit c"
proof (induction n rule: show_nat.induct)
  case (1 n)
  then show ?case by (cases "n < 10") (simp_all add: show_nat.simps [of n] digit_char_digit)
qed

lemma show_nat_nonempty [simp]: "show_nat n \<noteq> []"
  by (simp add: show_nat.simps [of n])

lemma digits_val_snoc: "digits_val (xs @ [c]) = 10 * digits_val xs + digit_val c"
  by (simp add: digits_val_def)

lemma digits_val_show_nat: "digits_val (show_nat n) = n"
proof (induction n rule: show_nat.induct)
  case (1 n)
  show ?case
  proof (cases "n < 10")
    case True
    then show ?thesis by (simp add: show_nat.simps [of n] digits_val_def digit_char_digit)
  next
    case False
    then have "digits_val (show_nat n) = 10 * (n div 10) + n mod 10"
      using "1" by (simp add: show_nat.simps [of n] digits_val_snoc digit_char_digit)
    then show ?thesis by simp
  qed
qed

lemma show_nat_hd: "\<exists>c r. show_nat n = c # r \<and> is_digit c"
  using show_nat_digits [of n] by (cases "show_nat n") auto

lemma digit_not_sign: "is_digit c \<Longrightarrow> \<not> is_ws c \<and> c \<noteq> CHR ''-'' \<and> c \<noteq> CHR ''+''"
  by (auto simp: is_digit_def in_range_def is_ws_def)

lemma parse_unsigned_show_nat: "parse_unsigned (show_nat n) = Some (int n)"
proof -
  have tw: "takeWhile is_digit (show_nat n) = show_nat n"
    using show_nat_digits [of n] by (simp add: takeWhile_eq_all_conv)
  show ?thesis by (simp add: parse_unsigned_def tw digits_val_show_nat del: takeWhile_eq_all_conv)
qed

lemma parse_int_show_nat: "parse_int (show_nat n) = Some (int n)"
proof -
  obtain c r where s: "show_nat n = c # r" and d: "is_digit c" using show_nat_hd by blast
  from d have "dropWhile is_ws (show_nat n) = show_nat n" by (simp add: s digit_not_sign)
  with s d show ?thesis by (simp add: parse_int_def digit_not_sign parse_unsigned_show_nat [of n, unfolded s])
qed

lemma parse_int_show_int: "parse_int (show_int i) = Some i"
proof (cases "i < 0")
  case True
  then show ?thesis
    by (simp add: show_int_def parse_int_def is_ws_def parse_unsigned_show_nat)
next
  case False
  then show ?thesis by (simp add: show_int_def parse_int_show_nat)
qed

lemma js_error_no_code [simp]: "js_error_field err ''code'' = None"
  by (cases err) simp_all

text \<open>C31: whatever error the login mutation rejects with, the page shows that error's message (or the generic text): the branches on \<open>err.code\<close> (unverified e-mail, inactive account, wrong password with the attempt counter) are never taken, because no thrown value has a \<open>code\<close> property.\<close>

theorem login_form_error_message:
  "login_form_on_error now err (p, st) =
     (p\<lparr>lp_localError := Some (js_or (js_error_message err) ''Login failed. Please try again.'')\<rparr>, st)"
  by (simp add: login_form_on_error_def)

lemma login_submit_unlocked:
  "login_unlocked (p, st, a) \<Longrightarrow> login_submit now n srv (p, st, a) = Some s' \<Longrightarrow> login_unlocked s'"
  by (auto simp: login_unlocked_def login_submit_def Let_def login_form_on_error_def login_form_on_success_def
      split: option.splits prod.splits sum.splits if_splits)

lemma login_step_unlocked:
  "login_unlocked s \<Longrightarrow> login_page_step s ev = Some s' \<Longrightarrow> login_unlocked s'"
proof (cases ev)
  case (Submit now n srv)
  moreover assume "login_unlocked s" "login_page_step s ev = Some s'"
  ultimately show ?thesis by (cases s) (auto intro: login_submit_unlocked)
qed (auto simp: login_unlocked_def login_tick_def split: prod.splits)

text \<open>C30: from a page mounted without a stored lockout, no sequence of edits, submissions (against any server) and interval ticks ever locks the form or stores a lockout: the five-attempt lockout is dead code.\<close>

theorem login_lockout_unreachable:
  "login_reach (p, st, a) \<Longrightarrow> \<not> lp_isLocked p \<and> account_lockout st = None"
proof -
  assume "login_reach (p, st, a)"
  then have "login_unlocked (p, st, a)"
  proof (induction rule: login_reach.induct)
    case (mount st now p st' a)
    then show ?case
      by (auto simp: login_unlocked_def login_mount_def login_page_init_def split: option.splits if_splits)
  next
    case (step s ev s')
    from step.IH step.hyps(2) show ?case by (rule login_step_unlocked)
  qed
  then show ?thesis by (simp add: login_unlocked_def)
qed


lemma digits_val_zero_Cons: "digit_val c = 0 \<Longrightarrow> digits_val (c # xs) = digits_val xs"
  by (simp add: digits_val_def)

lemma show_nat_small: "n < 10 \<Longrightarrow> show_nat n = [digit_char n]"
  by (simp add: show_nat.simps [of n])

lemma show_nat_two: "10 \<le> n \<Longrightarrow> n < 100 \<Longrightarrow> show_nat n = [digit_char (n div 10), digit_char (n mod 10)]"
  by (simp add: show_nat.simps [of n] show_nat_small)

lemma seconds_field:
  assumes "0 \<le> s" and "s < 60"
  shows "length ((if s < 10 then ''0'' else []) @ show_int s) = 2 \<and>
         parse_int ((if s < 10 then ''0'' else []) @ show_int s) = Some s"
proof (cases "s < 10")
  case True
  then have d: "is_digit (digit_char (nat s)) \<and> digit_val (digit_char (nat s)) = nat s"
    by (simp add: digit_char_digit)
  have z: "is_digit (CHR ''0'') \<and> digit_val (CHR ''0'') = 0 \<and> \<not> is_ws (CHR ''0'')"
    by (simp add: is_digit_def in_range_def digit_val_def is_ws_def)
  show ?thesis using True assms d z
    by (simp add: show_int_def show_nat_small parse_int_def parse_unsigned_def digits_val_def)
next
  case False
  then have "10 \<le> nat s" "nat s < 100" using assms by simp_all
  then show ?thesis using False assms parse_int_show_int [of s]
    by (simp add: show_int_def show_nat_two)
qed

text \<open>C32: while a lockout is running, the countdown reads \<open>m:ss\<close>: the minutes and the seconds of the remaining time, the seconds always with two digits and below 60.\<close>

theorem lockout_countdown_format:
  assumes "now < e"
  shows "\<exists>ms ss. remaining_lockout_time (Some e) now = ms @ '':'' @ ss \<and>
           parse_int ms = Some ((e - now) div 60000) \<and>
           length ss = 2 \<and> parse_int ss = Some (((e - now) mod 60000) div 1000) \<and>
           ((e - now) mod 60000) div 1000 < 60"
proof -
  define sec where "sec = ((e - now) mod 60000) div 1000"
  have b: "0 \<le> sec" "sec < 60" by (simp_all add: sec_def)
  have r: "remaining_lockout_time (Some e) now =
           show_int ((e - now) div 60000) @ '':'' @ ((if sec < 10 then ''0'' else []) @ show_int sec)"
    using assms by (simp add: remaining_lockout_time_def Let_def sec_def)
  show ?thesis
    using r seconds_field [OF b] parse_int_show_int [of "(e - now) div 60000"] b
    unfolding sec_def by blast
qed


section \<open>Witnesses\<close>

theorem login_lockout_unreachable_witness:
  "\<not> lp_isLocked (login_page_init\<lparr>lp_failedAttempts := Some 3, lp_email := ''ann@example.com''\<rparr>) \<and>
   account_lockout \<lparr>failed_login_attempts = Some ''3'', account_lockout = None\<rparr> = None"
proof -
  have m: "login_reach (login_page_init\<lparr>lp_failedAttempts := Some 3\<rparr>,
                        \<lparr>failed_login_attempts = Some ''3'', account_lockout = None\<rparr>, blank_app ())"
    by (rule login_reach.mount [where now = 0 and st = "\<lparr>failed_login_attempts = Some ''3'', account_lockout = None\<rparr>"])
       (simp_all add: login_mount_def parse_int_def parse_unsigned_def digits_val_def digit_val_def
         is_digit_def in_range_def is_ws_def)
  have "login_reach (login_page_init\<lparr>lp_failedAttempts := Some 3, lp_email := ''ann@example.com''\<rparr>,
                     \<lparr>failed_login_attempts = Some ''3'', account_lockout = None\<rparr>, blank_app ())"
    by (rule login_reach.step [OF m, where ev = "SetEmail ''ann@example.com''"]) (simp add: login_page_init_def)
  then show ?thesis by (rule login_lockout_unreachable)
qed

theorem lockout_countdown_format_witness:
  "\<exists>ms ss. remaining_lockout_time (Some 125000) 0 = ms @ '':'' @ ss \<and>
     parse_int ms = Some 2 \<and> length ss = 2 \<and> parse_int ss = Some 5"
  using lockout_countdown_format [of 0 125000] by simp

end
