(* ===== verification/Auth_Pages.thy ===== *)
theory Auth_Pages
  imports Login_Form
begin

text \<open>
  The other pages of the authentication flow, each with its local state and the handlers
  that call the mutations of \<open>Auth_Flows\<close>: the e-mail verification page
  (\<open>src/src/components/screens/auth/verify-email.tsx\<close> and its route
  \<open>src/src/app/(auth)/verify-email/page.tsx\<close>), the reset-password route with its zod
  form (\<open>src/src/app/(auth)/reset-password/page.tsx\<close>), the Formik reset form
  \<open>ResetPasswordForm.tsx\<close>, \<open>ForgotPasswordForm.tsx\<close> and \<open>SignUpForm.tsx\<close>.
  As on the sign-in page, per-call callbacks do not run after a hard navigation.
\<close>

section \<open>JavaScript helpers\<close>

text \<open>\<open>a ?? b\<close>: only \<open>null\<close> and \<open>undefined\<close> fall back.\<close>

definition nullish_or :: "'a option \<Rightarrow> 'a \<Rightarrow> 'a" where
  "nullish_or a b = (case a of None \<Rightarrow> b | Some x \<Rightarrow> x)"

section \<open>The e-mail verification page\<close>

datatype verify_status = VLoading | VSuccess | VError

record verify_page =
  vp_status :: verify_status
  vp_errorMsg :: string
  vp_hasRun :: bool    \<comment> \<open>\<open>hasRun.current\<close>\<close>

definition verify_page_init :: verify_page where
  "verify_page_init = \<lparr>vp_status = VLoading, vp_errorMsg = [], vp_hasRun = False\<rparr>"

text \<open>The route reads \<open>searchParams.token ?? ''\<close>.\<close>

definition verify_route_token :: "js_string \<Rightarrow> string" where
  "verify_route_token t = nullish_or t []"

text \<open>The message of the \<open>catch\<close> block (lines 45--59), read from the thrown value.\<close>

definition verify_error_message :: "js_error \<Rightarrow> string" where
  "verify_error_message err =
     (let ec = js_error_field err ''errorCode'' in
      if ec = Some ''EXPIRED_TOKEN'' then ''This link has expired. Please request a new verification email.''
      else if ec = Some ''INVALID_TOKEN'' then ''Invalid verification token. Please check your email for the correct link.''
      else if ec = Some ''ALREADY_VERIFIED'' then ''Your email is already verified. You can login to your account.''
      else if js_truthy (js_error_field err ''message'') then js_error_message err
      else ''Verification failed. Please try again.'')"

text \<open>The verification effect (lines 31--64), guarded by the \<open>hasRun\<close> ref.\<close>

definition verify_effect :: "string \<Rightarrow> nat \<Rightarrow> 's server \<Rightarrow> verify_page \<times> 's app \<Rightarrow> (verify_page \<times> 's app) option" where
  "verify_effect emailToken n srv va =
     (case va of (vp, a) \<Rightarrow>
        if vp_hasRun vp then Some (vp, a)
        else
          (let vp1 = vp\<lparr>vp_hasRun := True\<rparr> in
           if emailToken = [] then
             Some (vp1\<lparr>vp_errorMsg := ''No verification token provided.'', vp_status := VError\<rparr>, a)
           else
             (case verify_email_mutation emailToken n srv a of
                None \<Rightarrow> None
              | Some (a', out) \<Rightarrow>
                  if navigated_away (length (trace (net a))) a' then Some (vp1, a')
                  else Some (case out of
                               Inr _ \<Rightarrow> vp1\<lparr>vp_status := VSuccess\<rparr>
                             | Inl err \<Rightarrow> vp1\<lparr>vp_errorMsg := verify_error_message err, vp_status := VError\<rparr>,
                             a'))))"

text \<open>The redirect timer (lines 66--70): \<open>elapsed\<close> milliseconds after the success.\<close>

definition verify_redirect :: "int \<Rightarrow> verify_page \<times> 's app \<Rightarrow> verify_page \<times> 's app" where
  "verify_redirect elapsed va =
     (case va of (vp, a) \<Rightarrow>
        if vp_status vp = VSuccess \<and> 10000 \<le> elapsed then (vp, router_push ''/login'' a) else (vp, a))"

section \<open>The reset-password route\<close>

record reset_page =
  rp_submitted :: bool
  rp_apiError :: "(js_string \<times> js_string) option"   \<comment> \<open>\<open>{ code, message }\<close>\<close>

definition reset_page_init :: reset_page where
  "reset_page_init = \<lparr>rp_submitted = False, rp_apiError = None\<rparr>"

text \<open>\<open>friendlyErrorMessages\<close> (lines 50--52) indexed by \<open>apiError.code\<close>.\<close>

definition friendly_error_message :: "js_string \<Rightarrow> string option" where
  "friendly_error_message code =
     (if code = Some ''INVALID_RESET_TOKEN''
      then Some ''Your reset link is invalid or expired. Please request a new password link.'' else None)"

text \<open>
  \<open>handleSubmit(onSubmit)\<close> of react-hook-form: \<open>onSubmit\<close> (lines 75--90) runs only
  when the zod schema accepts the values.
\<close>

definition reset_page_submit ::
  "string \<Rightarrow> string \<Rightarrow> string \<Rightarrow> nat \<Rightarrow> 's server \<Rightarrow> reset_page \<times> 's app \<Rightarrow> (reset_page \<times> 's app) option" where
  "reset_page_submit token password confirmPassword n srv ra =
     (case ra of (rp, a) \<Rightarrow>
        if \<not> zod_reset_ok password confirmPassword then Some (rp, a)
        else if token = [] then Some (rp, a)
        else
          (let rp1 = rp\<lparr>rp_apiError := None\<rparr> in
           case reset_password_mutation token password n srv a of
             None \<Rightarrow> None
           | Some (a', out) \<Rightarrow>
               if navigated_away (length (trace (net a))) a' then Some (rp1, a')
               else Some (case out of
                            Inr _ \<Rightarrow> rp1\<lparr>rp_submitted := True\<rparr>
                          | Inl err \<Rightarrow> rp1\<lparr>rp_apiError := Some (js_error_field err ''errorCode'', js_error_field err ''message'')\<rparr>,
                          a')))"

text \<open>The alert (lines 179--181): \<open>friendlyErrorMessages[apiError.code!] ?? apiError.message\<close>.\<close>

definition reset_page_alert :: "reset_page \<Rightarrow> string option" where
  "reset_page_alert rp =
     (case rp_apiError rp of
        None \<Rightarrow> None
      | Some (code, msg) \<Rightarrow> Some (nullish_or (friendly_error_message code) (nullish_or msg [])))"

text \<open>\<open>canSubmit\<close> (line 100).\<close>

definition reset_can_submit :: "bool \<Rightarrow> string \<Rightarrow> bool \<Rightarrow> bool" where
  "reset_can_submit isValid token isPending \<longleftrightarrow> isValid \<and> token \<noteq> [] \<and> \<not> isPending"

section \<open>ResetPasswordForm\<close>

text \<open>\<open>disabled={isPending ?? !token}\<close> of its fields and button (lines 82, 96, 106).\<close>

definition reset_form_disabled :: "bool \<Rightarrow> string \<Rightarrow> bool" where
  "reset_form_disabled isPending token = nullish_or (Some isPending) (token = [])"

text \<open>
  Formik's submit: \<open>handleSubmit\<close> (lines 28--47) runs when \<open>resetPasswordSchema\<close>
  accepts the values; the local error is the page's state.
\<close>

definition reset_form_submit ::
  "string \<Rightarrow> string \<Rightarrow> string \<Rightarrow> nat \<Rightarrow> 's server \<Rightarrow> js_string \<times> 's app \<Rightarrow> (js_string \<times> 's app) option" where
  "reset_form_submit token newPassword confirmPassword n srv la =
     (case la of (le, a) \<Rightarrow>
        if \<not> reset_schema_ok newPassword confirmPassword then Some (le, a)
        else if token = [] then Some (Some ''Invalid or missing reset token'', a)
        else
          (case reset_password_mutation token newPassword n srv a of
             None \<Rightarrow> None
           | Some (a', out) \<Rightarrow>
               if navigated_away (length (trace (net a))) a' then Some (None, a')
               else Some (case out of
                            Inr _ \<Rightarrow> None
                          | Inl err \<Rightarrow> Some (js_or (js_error_message err) ''Reset failed''),
                          a')))"

section \<open>ForgotPasswordForm\<close>

text \<open>\<open>handleSubmit\<close> (lines 19--27): the flag \<open>isSubmitted\<close> is set on success.\<close>

definition forgot_submit :: "string \<Rightarrow> nat \<Rightarrow> 's server \<Rightarrow> bool \<times> 's app \<Rightarrow> (bool \<times> 's app) option" where
  "forgot_submit email n srv sa =
     (case sa of (submitted, a) \<Rightarrow>
        (case forgot_password_mutation email n srv a of
           None \<Rightarrow> None
         | Some (a', out) \<Rightarrow>
             if navigated_away (length (trace (net a))) a' then Some (submitted, a')
             else Some (case out of Inr _ \<Rightarrow> True | Inl _ \<Rightarrow> submitted, a')))"

text \<open>The submit button's \<open>disabled={isPending || !email}\<close> (line 44).\<close>

definition forgot_submit_disabled :: "bool \<Rightarrow> string \<Rightarrow> bool" where
  "forgot_submit_disabled isPending email \<longleftrightarrow> isPending \<or> email = []"

section \<open>SignUpForm\<close>

record signup_form =
  sf_fullName :: string
  sf_email :: string
  sf_password :: string
  sf_companyName :: string
  sf_agreeToTerms :: bool
  sf_plan :: string
  sf_billing :: string

text \<open>The initial form (lines 26--38) from the \<open>plan\<close> and \<open>billing\<close> query parameters.\<close>

definition signup_form_init :: "js_string \<Rightarrow> js_string \<Rightarrow> signup_form" where
  "signup_form_init planParam billingParam =
     \<lparr>sf_fullName = [], sf_email = [], sf_password = [], sf_companyName = [], sf_agreeToTerms = False,
      sf_plan = nullish_or planParam [], sf_billing = nullish_or billingParam ''monthly''\<rparr>"

definition plan_names :: "string \<Rightarrow> string option" where
  "plan_names k =
     (if k = ''starter'' then Some ''Starter Plan'' else if k = ''growth'' then Some ''Growth Plan''
      else if k = ''agency'' then Some ''Agency Plan'' else None)"

text \<open>\<open>handleChange\<close> (lines 52--58) for the inputs the form renders.\<close>

datatype signup_input = InText string string | InCheckbox string bool

fun signup_change :: "signup_input \<Rightarrow> signup_form \<Rightarrow> signup_form" where
  "signup_change (InText k v) f =
     (if k = ''fullName'' then f\<lparr>sf_fullName := v\<rparr> else if k = ''email'' then f\<lparr>sf_email := v\<rparr>
      else if k = ''password'' then f\<lparr>sf_password := v\<rparr> else if k = ''companyName'' then f\<lparr>sf_companyName := v\<rparr>
      else f)"
| "signup_change (InCheckbox k b) f = (if k = ''agreeToTerms'' then f\<lparr>sf_agreeToTerms := b\<rparr> else f)"

text \<open>The page's \<open>errorMsg\<close> and \<open>success\<close> state next to the form.\<close>

record signup_page =
  sp_form :: signup_form
  sp_errorMsg :: js_string
  sp_success :: bool

text \<open>\<open>onSubmit\<close> (lines 60--86): the plan and billing stay out of the request.\<close>

definition signup_submit :: "nat \<Rightarrow> 's server \<Rightarrow> signup_page \<times> 's app \<Rightarrow> (signup_page \<times> 's app) option" where
  "signup_submit n srv pa =
     (case pa of (sp, a) \<Rightarrow>
        (let sp1 = sp\<lparr>sp_errorMsg := None\<rparr>; f = sp_form sp in
         if \<not> sf_agreeToTerms f then Some (sp1\<lparr>sp_errorMsg := Some ''You must agree to the terms & privacy policy.''\<rparr>, a)
         else
           (case signup_mutation \<lparr>sr_name = sf_fullName f, sr_email = sf_email f, sr_password = sf_password f,
                                  sr_companyName = sf_companyName f\<rparr> n srv a of
              None \<Rightarrow> None
            | Some (a', out) \<Rightarrow>
                if navigated_away (length (trace (net a))) a' then Some (sp1, a')
                else Some (case out of
                             Inr _ \<Rightarrow> sp1\<lparr>sp_success := True\<rparr>
                           | Inl err \<Rightarrow> sp1\<lparr>sp_errorMsg := Some (nullish_or (js_error_field err ''message'')
                                                                ''Signup failed. Please try again.'')\<rparr>,
                           a'))))"

section \<open>Scenario data\<close>

definition reset_token_env :: envelope where
  "reset_token_env = \<lparr>success = False, data = None, message = ''Token invalid'', errorCode = Some ''INVALID_RESET_TOKEN''\<rparr>"

section \<open>Lemmas\<close>

lemma js_error_no_errorCode [simp]: "js_error_field err ''errorCode'' = None"
  by (cases err) simp_all

lemma js_error_message_field: "js_truthy (js_error_field err ''message'') \<longleftrightarrow> js_error_message err \<noteq> []"
  by (cases err) (simp_all add: js_error_message_def)

lemma zod_demo: "zod_reset_ok ''Passw0rd#'' ''Passw0rd#''"
  by (simp add: zod_reset_ok_def zod_password_ok_def char_class_defs)

text \<open>C33: the verification effect runs once: after it has settled, running it again (as React does twice in development) changes nothing and sends no request.\<close>

theorem verify_runs_once:
  "verify_effect t n srv (vp, a) = Some (vp', a') \<Longrightarrow>
   vp_hasRun vp' \<and> verify_effect t m srv' (vp', a') = Some (vp', a')"
  by (auto simp: verify_effect_def Let_def split: if_splits option.splits prod.splits sum.splits)

text \<open>C34: the messages the verification page and the reset-password route keep for specific error codes are never shown: the verification page shows the error's message (or its generic text), and the reset route's alert is the error's message, never the friendly text for \<open>INVALID_RESET_TOKEN\<close>, because the thrown values carry no \<open>errorCode\<close>.\<close>

theorem error_code_messages_unreachable:
  "verify_error_message err = js_or (js_error_message err) ''Verification failed. Please try again.'' \<and>
   (reset_page_submit tok pw cpw n srv (rp, a) = Some (rp', a') \<longrightarrow>
      (\<forall>c m. rp_apiError rp = Some (c, m) \<longrightarrow> c = None) \<longrightarrow>
      reset_page_alert rp' = map_option (\<lambda>(c, m). nullish_or m []) (rp_apiError rp'))"
proof (intro conjI impI)
  show "verify_error_message err = js_or (js_error_message err) ''Verification failed. Please try again.''"
    by (simp add: verify_error_message_def js_error_message_field js_or_def)
next
  assume s: "reset_page_submit tok pw cpw n srv (rp, a) = Some (rp', a')"
    and c: "\<forall>c m. rp_apiError rp = Some (c, m) \<longrightarrow> c = None"
  from s c have "\<forall>c m. rp_apiError rp' = Some (c, m) \<longrightarrow> c = None"
    by (auto simp: reset_page_submit_def Let_def split: if_splits option.splits prod.splits sum.splits)
  then show "reset_page_alert rp' = map_option (\<lambda>(c, m). nullish_or m []) (rp_apiError rp')"
    by (cases "rp_apiError rp'") (auto simp: reset_page_alert_def friendly_error_message_def nullish_or_def)
qed

text \<open>without a reset token \<open>ResetPasswordForm\<close> keeps its fields and button enabled (\<open>isPending ?? !token\<close> never looks at the token), and a submission sends no request.\<close>

theorem reset_form_missing_token:
  "reset_form_disabled False [] = False \<and>
   (reset_form_submit [] np cp n srv (le, a) = Some (le, a) \<or>
    reset_form_submit [] np cp n srv (le, a) = Some (Some ''Invalid or missing reset token'', a))"
  by (simp add: reset_form_disabled_def nullish_or_def reset_form_submit_def)

text \<open>C36: the plan and billing period the sign-up page reads from its URL never reach the sign-up request: the page behaves the same whatever they are.\<close>

theorem signup_ignores_plan:
  "map_option (\<lambda>(sp', a'). (sp_errorMsg sp', sp_success sp', a'))
     (signup_submit n srv (sp\<lparr>sp_form := (sp_form sp)\<lparr>sf_plan := p, sf_billing := b\<rparr>\<rparr>, a)) =
   map_option (\<lambda>(sp', a'). (sp_errorMsg sp', sp_success sp', a')) (signup_submit n srv (sp, a))"
  by (simp add: signup_submit_def Let_def split: option.split prod.split sum.split)

text \<open>C37: the reset-password route sends a reset request only for a password its zod schema accepts, with a matching confirmation and a non-empty token.\<close>

theorem reset_page_sends_only_valid:
  "reset_page_submit tok pw cpw n srv (rp, a) = Some (rp', a') \<Longrightarrow> trace (net a') \<noteq> trace (net a) \<Longrightarrow>
   zod_reset_ok pw cpw \<and> tok \<noteq> []"
  by (auto simp: reset_page_submit_def split: if_splits)


section \<open>Witnesses\<close>

theorem verify_runs_once_witness:
  "\<exists>vp' a'. verify_effect ''tok'' 1 (fixed_reply (Reply 200 (Some (reply_env True None ''Email verified''))))
             (verify_page_init, blank_app ()) = Some (vp', a') \<and>
           vp_status vp' = VSuccess \<and>
           verify_effect ''tok'' 1 (fixed_reply (Reply 200 (Some (reply_env True None ''Email verified''))))
             (vp', a') = Some (vp', a')"
proof -
  obtain vp' a' where r: "verify_effect ''tok'' 1 (fixed_reply (Reply 200 (Some (reply_env True None ''Email verified''))))
             (verify_page_init, blank_app ()) = Some (vp', a')" and st: "vp_status vp' = VSuccess"
    by (simp add: verify_effect_def verify_email_mutation_def run_mutation_def demo_defs transmit_def
        service_request_def status_ok_def Let_def callback_defs navigated_away_def reload_if_navigated_def hard_navigation_def
        verify_page_init_def)
  from verify_runs_once [OF r] r st show ?thesis by blast
qed

theorem error_code_messages_unreachable_witness:
  "reset_page_alert (fst (the (reset_page_submit ''tok'' ''Passw0rd#'' ''Passw0rd#'' 1
      (fixed_reply (Reply 400 (Some reset_token_env))) (reset_page_init, blank_app ())))) = Some ''Token invalid''"
proof -
  obtain rp' a' where r: "reset_page_submit ''tok'' ''Passw0rd#'' ''Passw0rd#'' 1
      (fixed_reply (Reply 400 (Some reset_token_env))) (reset_page_init, blank_app ()) = Some (rp', a')"
    and e: "rp_apiError rp' = Some (None, Some ''Token invalid'')"
    using zod_demo
    by (simp add: reset_page_submit_def reset_password_mutation_def run_mutation_def demo_defs transmit_def
        service_request_def status_ok_def Let_def callback_defs navigated_away_def reload_if_navigated_def hard_navigation_def
        reset_page_init_def on_rejected_generic token_rejection_def error_code_def reset_token_env_def
        generic_error_def)
  have "reset_page_alert rp' = map_option (\<lambda>(c, m). nullish_or m []) (rp_apiError rp')"
    using error_code_messages_unreachable [where tok = "''tok''" and pw = "''Passw0rd#''"
        and cpw = "''Passw0rd#''" and n = 1 and srv = "fixed_reply (Reply 400 (Some reset_token_env))"
        and rp = reset_page_init and a = "blank_app ()" and rp' = rp' and a' = a'] r
    by (simp add: reset_page_init_def)
  with r e show ?thesis by (simp add: nullish_or_def)
qed

theorem reset_page_sends_only_valid_witness:
  "zod_reset_ok ''Passw0rd#'' ''Passw0rd#'' \<and> ''tok'' \<noteq> []"
proof -
  obtain rp' a' where r: "reset_page_submit ''tok'' ''Passw0rd#'' ''Passw0rd#'' 1
      (fixed_reply (Reply 200 (Some (reply_env True None ''done'')))) (reset_page_init, blank_app ()) = Some (rp', a')"
    and t: "trace (net a') \<noteq> trace (net (blank_app ()))"
    using zod_demo
    by (simp add: reset_page_submit_def reset_password_mutation_def run_mutation_def demo_defs transmit_def
        service_request_def status_ok_def Let_def callback_defs navigated_away_def reload_if_navigated_def hard_navigation_def)
  from reset_page_sends_only_valid [OF r t] show ?thesis .
qed

end
