(* ===== verification/Navigation.thy ===== *)
theory Navigation
  imports Complex_Main Auth_Pages
begin

text \<open>
  The navigation around the authenticated area and the plan page: the pricing page of
  \<open>src/src/components/screens/plan/page.tsx\<close> (plans, billing toggle, prices,
  \<open>handlePlanSelect\<close>), the query string the sign-up page reads those choices from, and
  the sidebar of \<open>src/src/components/shared/sidebar.tsx\<close> with the open/close state of
  \<open>src/src/components/layouts/main-layout.tsx\<close>. Prices are exact rationals; the
  page computes them in floating point, which rounds to the same texts for these prices.
  The presentational fields of a plan (description, gradient, button classes) and the
  entrance animations are left out.
\<close>

section \<open>The plan page\<close>

datatype billing = Monthly | Yearly

fun billing_name :: "billing \<Rightarrow> string" where
  "billing_name Monthly = ''monthly''"
| "billing_name Yearly = ''yearly''"

record plan =
  plan_key :: string
  plan_title :: string
  plan_description :: string
  plan_monthly :: "rat option"
  plan_yearly :: "rat option"
  plan_features :: "string list"
  plan_cta_label :: string
  plan_cta_href :: path
  plan_featured :: bool

definition pricing_plans :: "plan list" where
  "pricing_plans =
     [\<lparr>plan_key = ''starter'', plan_title = ''Starter'',
       plan_description = ''Perfect for new TikTok Shops generating under $10k monthly GMV.'', plan_monthly = Some 199,
       plan_yearly = Some (199 * 12 * 8 / 10),
       plan_features = [''Up to 10k messages per month'', ''Basic CRM access'', ''One free affiliate video'',
                        ''Discord customer support''],
       plan_cta_label = ''Start 7-Day Free Trial'', plan_cta_href = ''/signup?plan=starter'', plan_featured = False\<rparr>,
      \<lparr>plan_key = ''growth'', plan_title = ''Growth'',
       plan_description = ''Ideal for TikTok Shops surpassing $10k monthly GMV.'', plan_monthly = Some 479,
       plan_yearly = Some (479 * 12 * 8 / 10),
       plan_features = [''Unlimited messages, invites & emails'', ''Premium CRM access'',
                        ''Automated Spark code collections'', ''AI-powered creator search'',
                        ''Competitor creator outreach'', ''Automated creative briefs'',
                        ''Social intelligence dashboard'', ''AI video generation tools'', ''Free strategy sessions'',
                        ''Advanced reporting'', ''Email & WhatsApp support''],
       plan_cta_label = ''Choose Growth Plan'', plan_cta_href = ''/signup?plan=growth'', plan_featured = True\<rparr>,
      \<lparr>plan_key = ''agency'', plan_title = ''Agency'',
       plan_description = ''Scale across multiple TikTok Shops with dedicated support.'', plan_monthly = None, plan_yearly = None,
       plan_features = [''Unlimited platform access'', ''Volume-based discounts'', ''Dedicated account manager'',
                        ''VIP Slack support''],
       plan_cta_label = ''Contact Sales'', plan_cta_href = ''/contact'', plan_featured = False\<rparr>]"

record plan_page =
  pp_billing :: billing
  pp_highlightYearly :: bool

definition plan_page_init :: plan_page where
  "plan_page_init = \<lparr>pp_billing = Monthly, pp_highlightYearly = False\<rparr>"

text \<open>
  The billing toggle with the effect on \<open>billing\<close> (lines 153--161): switching to yearly
  billing highlights it, and a timer of two seconds removes the highlight.
\<close>

definition set_billing :: "billing \<Rightarrow> plan_page \<Rightarrow> plan_page" where
  "set_billing b pp =
     (if b = Yearly then pp\<lparr>pp_billing := b, pp_highlightYearly := True\<rparr> else pp\<lparr>pp_billing := b\<rparr>)"

definition highlight_timer :: "int \<Rightarrow> plan_page \<Rightarrow> plan_page" where
  "highlight_timer elapsed pp =
     (if pp_billing pp = Yearly \<and> 2000 \<le> elapsed then pp\<lparr>pp_highlightYearly := False\<rparr> else pp)"

text \<open>\<open>x.toFixed(0)\<close> for a non-negative amount: rounded half up.\<close>

definition to_fixed0 :: "rat \<Rightarrow> string" where
  "to_fixed0 x = show_int (floor (x + 1 / 2))"

text \<open>\<open>plan[billing]\<close>.\<close>

fun plan_price :: "billing \<Rightarrow> plan \<Rightarrow> rat option" where
  "plan_price Monthly p = plan_monthly p"
| "plan_price Yearly p = plan_yearly p"

text \<open>The price line (lines 256--264) and the saving line (lines 266--269) of a card.\<close>

definition price_text :: "billing \<Rightarrow> plan \<Rightarrow> string option" where
  "price_text b p =
     (case plan_price b p of
        None \<Rightarrow> None
      | Some x \<Rightarrow> Some (''$'' @ to_fixed0 x @ ''/'' @ (if b = Monthly then ''mo'' else ''yr'')))"

definition savings_text :: "billing \<Rightarrow> plan \<Rightarrow> string option" where
  "savings_text b p =
     (case (plan_monthly p, plan_yearly p) of
        (Some m, Some y) \<Rightarrow>
          if b = Yearly then Some (''Save $'' @ to_fixed0 (m * 12 - y) @ '' with annual billing'') else None
      | _ \<Rightarrow> None)"

text \<open>\<open>handlePlanSelect\<close> (lines 164--174): the path the router is sent to.\<close>

definition handle_plan_select :: "billing \<Rightarrow> plan \<Rightarrow> path" where
  "handle_plan_select b p =
     (if plan_key p = ''agency'' then ''/contact''
      else ''/signup?plan='' @ plan_key p @ (if b = Yearly then ''&billing=yearly'' else []))"

section \<open>Query strings\<close>

text \<open>
  \<open>useSearchParams().get(k)\<close> on the query string after the first \<open>?\<close>: the value of the
  first pair with key \<open>k\<close>, each pair split at its first \<open>=\<close>. Percent-decoding is left
  out: the keys and values the pages write have no escaped character.
\<close>

definition query_pair :: "string \<Rightarrow> string \<times> string" where
  "query_pair s = (case split_first CHR ''='' s of Some (k, v) \<Rightarrow> (k, v) | None \<Rightarrow> (s, []))"

definition search_param :: "string \<Rightarrow> string \<Rightarrow> js_string" where
  "search_param q k = map_of (map query_pair (split_on CHR ''&'' q)) k"

definition path_query :: "path \<Rightarrow> string" where
  "path_query p = (case split_first CHR ''?'' p of None \<Rightarrow> [] | Some (_, q) \<Rightarrow> q)"

text \<open>The sign-up form as it starts on a path (\<open>SignUpForm\<close>, lines 23--38).\<close>

definition signup_form_at :: "path \<Rightarrow> signup_form" where
  "signup_form_at p = signup_form_init (search_param (path_query p) ''plan'') (search_param (path_query p) ''billing'')"

section \<open>The sidebar and the main layout\<close>

datatype nav_item = NavLink string path | NavGroup string "(string \<times> path) list"

definition navigation_items :: "nav_item list" where
  "navigation_items =
     [NavLink ''Dashboard'' ''/dashboard'', NavLink ''Creators'' ''/creators'', NavLink ''Products'' ''/products'',
      NavGroup ''Analytics'' [(''Sales Dashboard'', ''/analytics/sales''), (''Creator Analysis'', ''/analytics/creators'')],
      NavLink ''Settings'' ''/settings'']"

text \<open>\<open>sidebarOpen\<close> lives in \<open>MainLayout\<close>, \<open>openAnalytics\<close> in \<open>Sidebar\<close>.\<close>

record sidebar_state =
  sb_sidebarOpen :: bool
  sb_openAnalytics :: bool

definition sidebar_init :: sidebar_state where
  "sidebar_init = \<lparr>sb_sidebarOpen = False, sb_openAnalytics = True\<rparr>"

text \<open>
  The entries highlighted on \<open>pathname\<close> (lines 71--138): links by exact match; the
  children of the group are listed only while it is open.
\<close>

fun nav_active :: "bool \<Rightarrow> path \<Rightarrow> nav_item \<Rightarrow> string list" where
  "nav_active openGroup pathname (NavLink name href) = (if pathname = href then [name] else [])"
| "nav_active openGroup pathname (NavGroup name children) =
     (if openGroup then [fst c. c \<leftarrow> children, snd c = pathname] else [])"

definition active_entries :: "sidebar_state \<Rightarrow> path \<Rightarrow> string list" where
  "active_entries s pathname = concat (map (nav_active (sb_openAnalytics s) pathname) navigation_items)"

text \<open>
  The user's actions: the header's menu button, the overlay (present only while the
  sidebar is open) clicked or sent a key, the sidebar's close button, and the group's
  toggle.
\<close>

datatype sidebar_event = OpenSidebar | OverlayClick | OverlayKey string | CloseButton | ToggleAnalytics

fun sidebar_step :: "sidebar_state \<Rightarrow> sidebar_event \<Rightarrow> sidebar_state" where
  "sidebar_step s OpenSidebar = s\<lparr>sb_sidebarOpen := True\<rparr>"
| "sidebar_step s OverlayClick = (if sb_sidebarOpen s then s\<lparr>sb_sidebarOpen := False\<rparr> else s)"
| "sidebar_step s (OverlayKey k) =
     (if sb_sidebarOpen s \<and> (k = ''Escape'' \<or> k = ''Enter'' \<or> k = '' '') then s\<lparr>sb_sidebarOpen := False\<rparr> else s)"
| "sidebar_step s CloseButton = s\<lparr>sb_sidebarOpen := False\<rparr>"
| "sidebar_step s ToggleAnalytics = s\<lparr>sb_openAnalytics := \<not> sb_openAnalytics s\<rparr>"

text \<open>The name and e-mail at the bottom (lines 147--148): \<open>user?.name ?? 'User'\<close>.\<close>

definition user_text :: "auth_state \<Rightarrow> ufield \<Rightarrow> string \<Rightarrow> string" where
  "user_text st k dflt =
     (case user st of None \<Rightarrow> dflt | Some u \<Rightarrow> (case u k of Some (JStr s) \<Rightarrow> s | _ \<Rightarrow> dflt))"

definition sidebar_user_label :: "auth_state \<Rightarrow> string \<times> string" where
  "sidebar_user_label st = (user_text st Name ''User'', user_text st Email ''user@example.com'')"

text \<open>The logout button (lines 31--33 and 152--157) runs the logout mutation.\<close>

definition sidebar_logout :: "nat \<Rightarrow> 's server \<Rightarrow> 's app \<Rightarrow> 's app option" where
  "sidebar_logout n srv a = map_option fst (logout_mutation n srv a)"

section \<open>Lemmas\<close>

lemma query_pair_key:
  "CHR ''='' \<notin> set k \<Longrightarrow> query_pair (k @ CHR ''='' # v) = (k, v)"
  by (simp add: query_pair_def split_first_append)

lemma plan_query_pairs:
  assumes "CHR ''&'' \<notin> set k"
  shows "map query_pair (split_on CHR ''&'' (''plan='' @ k @ (if y then ''&billing=yearly'' else []))) =
         (''plan'', k) # (if y then [(''billing'', ''yearly'')] else [])"
proof (cases y)
  case True
  have "split_on CHR ''&'' (''plan='' @ k @ ''&billing=yearly'') = (''plan='' @ k) # [''billing=yearly'']"
    using split_on_append_sep [of "CHR ''&''" "''plan='' @ k" "''billing=yearly''"] assms
    by (simp add: split_on_no_sep)
  with True show ?thesis
    using query_pair_key [of "''plan''" k] query_pair_key [of "''billing''" "''yearly''"] by simp
next
  case False
  have "split_on CHR ''&'' (''plan='' @ k) = [''plan='' @ k]"
    using assms by (simp add: split_on_no_sep)
  with False show ?thesis using query_pair_key [of "''plan''" k] by simp
qed

lemma path_query_signup: "path_query (''/signup?'' @ q) = q"
  by (simp add: path_query_def)

lemma active_entries_at_most_one: "length (active_entries s p) \<le> 1"
  by (auto simp: active_entries_def navigation_items_def)

lemma growth_yearly_texts:
  "price_text Yearly (pricing_plans ! 1) = Some ''$4598/yr'' \<and>
   savings_text Yearly (pricing_plans ! 1) = Some ''Save $1150 with annual billing''"
  by code_simp


text \<open>C38: choosing a paid plan on the plan page opens the sign-up page with that plan and the billing period chosen on the toggle in the sign-up form's state: the query string the plan page writes is read back by the sign-up page (a round trip; by C36 the choice then goes no further).\<close>

theorem plan_choice_reaches_signup:
  assumes "plan_key p \<noteq> ''agency''" and "CHR ''&'' \<notin> set (plan_key p)"
  shows "sf_plan (signup_form_at (handle_plan_select b p)) = plan_key p \<and>
         sf_billing (signup_form_at (handle_plan_select b p)) = billing_name b"
proof -
  have h: "handle_plan_select b p = ''/signup?'' @ (''plan='' @ plan_key p @ (if b = Yearly then ''&billing=yearly'' else []))"
    using assms(1) by (simp add: handle_plan_select_def)
  show ?thesis
    unfolding h signup_form_at_def path_query_signup search_param_def plan_query_pairs [OF assms(2)]
    by (cases b) (simp_all add: signup_form_init_def nullish_or_def)
qed

section \<open>Witnesses\<close>

theorem plan_choice_reaches_signup_witness:
  "sf_plan (signup_form_at (handle_plan_select Yearly (pricing_plans ! 1))) = ''growth'' \<and>
   sf_billing (signup_form_at (handle_plan_select Yearly (pricing_plans ! 1))) = ''yearly''"
  using plan_choice_reaches_signup [of "pricing_plans ! 1" Yearly] by (simp add: pricing_plans_def)

end
