(* ===== verification/Settings_Page.thy ===== *)
theory Settings_Page
  imports Auth_Pages
begin

text \<open>
  The account settings screen \<open>SettingsPage\<close> of
  \<open>src/src/components/screens/accountSetting/page.tsx\<close>: its tab, the profile form filled
  from the profile query, the password form, and the two submit handlers that call the
  update-profile and change-password mutations of \<open>Auth_Flows\<close>; the password check is
  \<open>settings_password_error\<close> of \<open>Validation\<close>. The data of \<open>/user/me\<close> is an
  \<open>IUser\<close>; the notification switches and the static subscription card hold no state the
  handlers read.
\<close>

section \<open>The page state\<close>

record profile_form =
  pf_name :: string
  pf_email :: string
  pf_company :: string

record password_form =
  pw_currentPassword :: string
  pw_newPassword :: string
  pw_confirmPassword :: string

record settings_page =
  st_activeTab :: string
  st_profileForm :: profile_form
  st_passwordForm :: password_form

definition empty_password_form :: password_form where
  "empty_password_form = \<lparr>pw_currentPassword = [], pw_newPassword = [], pw_confirmPassword = []\<rparr>"

definition settings_init :: settings_page where
  "settings_init =
     \<lparr>st_activeTab = ''account'', st_profileForm = \<lparr>pf_name = [], pf_email = [], pf_company = []\<rparr>,
      st_passwordForm = empty_password_form\<rparr>"

section \<open>Loading the profile\<close>

text \<open>
  The effect on \<open>profileData\<close> (lines 45--53): the form takes the fetched user's name,
  e-mail and \<open>companyName ?? ''\<close>.
\<close>

definition settings_load_profile :: "envelope option \<Rightarrow> settings_page \<Rightarrow> settings_page" where
  "settings_load_profile res sp =
     (case res of
        Some env \<Rightarrow>
          (case data env of
             Some (PUser u) \<Rightarrow>
               sp\<lparr>st_profileForm := \<lparr>pf_name = user_name u, pf_email = user_email u,
                                       pf_company = nullish_or (user_company u) []\<rparr>\<rparr>
           | _ \<Rightarrow> sp)
      | None \<Rightarrow> sp)"

section \<open>Editing\<close>

text \<open>\<open>handleProfileChange\<close> and \<open>handlePasswordChange\<close> (lines 56--70), by input name.\<close>

definition settings_profile_change :: "string \<Rightarrow> string \<Rightarrow> settings_page \<Rightarrow> settings_page" where
  "settings_profile_change k v sp =
     (let f = st_profileForm sp in
      sp\<lparr>st_profileForm :=
           (if k = ''name'' then f\<lparr>pf_name := v\<rparr> else if k = ''email'' then f\<lparr>pf_email := v\<rparr>
            else if k = ''company'' then f\<lparr>pf_company := v\<rparr> else f)\<rparr>)"

definition settings_password_change :: "string \<Rightarrow> string \<Rightarrow> settings_page \<Rightarrow> settings_page" where
  "settings_password_change k v sp =
     (let f = st_passwordForm sp in
      sp\<lparr>st_passwordForm :=
           (if k = ''currentPassword'' then f\<lparr>pw_currentPassword := v\<rparr>
            else if k = ''newPassword'' then f\<lparr>pw_newPassword := v\<rparr>
            else if k = ''confirmPassword'' then f\<lparr>pw_confirmPassword := v\<rparr> else f)\<rparr>)"

section \<open>Submitting\<close>

text \<open>The request of \<open>handleProfileSubmit\<close> (lines 72--78): the name and the company, no e-mail.\<close>

definition settings_profile_request :: "settings_page \<Rightarrow> update_profile_request" where
  "settings_profile_request sp =
     \<lparr>upr_name = pf_name (st_profileForm sp), upr_email = None,
      upr_companyName = Some (pf_company (st_profileForm sp))\<rparr>"

definition settings_profile_submit :: "nat \<Rightarrow> 's server \<Rightarrow> settings_page \<times> 's app \<Rightarrow> (settings_page \<times> 's app) option" where
  "settings_profile_submit n srv spa =
     (case spa of (sp, a) \<Rightarrow>
        map_option (\<lambda>(a', out). (sp, a')) (update_profile_mutation (settings_profile_request sp) n srv a))"

text \<open>
  \<open>handlePasswordSubmit\<close> (lines 80--119): the two checks with their error toasts, then
  the mutation; its per-call \<open>onSuccess\<close> clears the form, its \<open>onError\<close> does nothing.
\<close>

definition settings_password_submit :: "nat \<Rightarrow> 's server \<Rightarrow> settings_page \<times> 's app \<Rightarrow> (settings_page \<times> 's app) option" where
  "settings_password_submit n srv spa =
     (case spa of (sp, a) \<Rightarrow>
        (let f = st_passwordForm sp in
         case settings_password_error (pw_newPassword f) (pw_confirmPassword f) of
           Some msg \<Rightarrow> Some (sp, add_toast (UiToast ''Error'' msg True) a)
         | None \<Rightarrow>
             (case change_password_mutation
                     \<lparr>cpr_currentPassword = pw_currentPassword f, cpr_newPassword = pw_newPassword f,
                      cpr_confirmPassword = pw_confirmPassword f\<rparr> n srv a of
                None \<Rightarrow> None
              | Some (a', out) \<Rightarrow>
                  if navigated_away (length (trace (net a))) a' then Some (sp, a')
                  else Some (case out of Inr _ \<Rightarrow> sp\<lparr>st_passwordForm := empty_password_form\<rparr> | Inl _ \<Rightarrow> sp, a'))))"

text \<open>The tab list (lines 126--132).\<close>

definition settings_set_tab :: "string \<Rightarrow> settings_page \<Rightarrow> settings_page" where
  "settings_set_tab t sp = sp\<lparr>st_activeTab := t\<rparr>"

section \<open>Scenario data\<close>

definition no_company_env :: envelope where
  "no_company_env = reply_env True (Some (PUser (demo_user\<lparr>user_company := None\<rparr>))) ''Profile fetched''"

section \<open>Lemmas\<close>

lemma settings_load_user:
  "data env = Some (PUser u) \<Longrightarrow>
   st_profileForm (settings_load_profile (Some env) sp) =
     \<lparr>pf_name = user_name u, pf_email = user_email u, pf_company = nullish_or (user_company u) []\<rparr>"
  by (simp add: settings_load_profile_def)

lemma settings_password_checked:
  "settings_password_submit n srv (sp, a) = Some (sp', a') \<Longrightarrow> trace (net a') \<noteq> trace (net a) \<Longrightarrow>
   settings_password_error (pw_newPassword (st_passwordForm sp)) (pw_confirmPassword (st_passwordForm sp)) = None"
  by (auto simp: settings_password_submit_def Let_def add_toast_def split: option.splits)

text \<open>C16: after the settings page has loaded a profile without a company, renaming the user and saving sends the new name with \<open>companyName: ''\<close>: the form turns the missing company into the empty string, so a save that only changes the name also sends an empty company; the e-mail is never sent.\<close>

theorem settings_rename_clears_company:
  assumes "data env = Some (PUser u)" and "user_company u = None"
  shows "update_profile_body (settings_profile_request
           (settings_profile_change ''name'' v (settings_load_profile (Some env) sp))) =
         [(''name'', v), (''companyName'', [])]"
  using settings_load_user [OF assms(1)] assms(2)
  by (simp add: settings_profile_change_def settings_profile_request_def update_profile_body_def nullish_or_def)

section \<open>Witnesses\<close>

theorem settings_rename_clears_company_witness:
  "update_profile_body (settings_profile_request
     (settings_profile_change ''name'' ''Ann B'' (settings_load_profile (Some no_company_env) settings_init))) =
   [(''name'', ''Ann B''), (''companyName'', [])]"
  using settings_rename_clears_company [of no_company_env "demo_user\<lparr>user_company := None\<rparr>"]
  by (simp add: no_company_env_def reply_env_def)

end
