(* ===== verification/Page_Views.thy ===== *)
theory Page_Views
  imports Navigation Settings_Page Route_Guard
begin

text \<open>
  What the pages show: each component's conditional rendering as a function from its
  state (and the state of the hook it uses: \<open>isPending\<close> and the last \<open>error\<close>) to the
  list of elements on the screen, in order. Only the elements that depend on the state
  or that the user can act on are kept: headings, texts, alerts, spinners, chips,
  buttons with their enabled flag, and links with their target. Strings are UTF-8 byte
  lists, so the ellipsis character is its three bytes.
\<close>

section \<open>Screen elements\<close>

datatype ui_label = Label string | Progress

datatype ui =
    Heading string | Text string | Alert string | Spinner | Chip string
  | Button ui_label bool      \<comment> \<open>label, enabled\<close>
  | LinkTo string path       \<comment> \<open>a link, or a button whose handler only navigates\<close>

type_synonym view = "ui list"

fun ui_link :: "ui \<Rightarrow> path list" where
  "ui_link (LinkTo _ p) = [p]"
| "ui_link _ = []"

definition view_links :: "view \<Rightarrow> path list" where
  "view_links v = concat (map ui_link v)"

definition ellipsis :: string where
  "ellipsis = [CHR 0xE2, CHR 0x80, CHR 0xA6]"

text \<open>\<open>{cond && (...)}\<close> with a truthy string.\<close>

definition when_text :: "js_string \<Rightarrow> (string \<Rightarrow> view) \<Rightarrow> view" where
  "when_text s f = (case s of Some t \<Rightarrow> if t \<noteq> [] then f t else [] | None \<Rightarrow> [])"

section \<open>The global loader and the auth layout\<close>

text \<open>\<open>Loader\<close> (\<open>components/shared/Loader.tsx\<close>, lines 5--25).\<close>

definition loader_view :: "loader_state \<Rightarrow> view" where
  "loader_view st = (if \<not> isLoading st then [] else Spinner # when_text (loader_message st) (\<lambda>m. [Text m]))"

text \<open>\<open>AuthLayout\<close> (\<open>components/layouts/auth-layout.tsx\<close>, lines 16--50).\<close>

definition auth_layout :: "string \<Rightarrow> js_string \<Rightarrow> view \<Rightarrow> view \<Rightarrow> view" where
  "auth_layout title description children footer =
     [LinkTo ''Brand Logo'' ''/'', Heading title] @ when_text description (\<lambda>d. [Text d]) @ children @ footer @
     [Text ''Need help?'', LinkTo ''Contact support'' ''/help'']"

section \<open>The sign-in page\<close>

text \<open>\<open>LoginPage\<close>'s markup (lines 146--266) at time \<open>now\<close>.\<close>

definition login_view :: "int \<Rightarrow> bool \<Rightarrow> js_error option \<Rightarrow> login_page \<Rightarrow> view" where
  "login_view now isPending err p =
     auth_layout ''Welcome back'' (Some ''Enter your credentials to access your account'')
       ((if js_truthy (lp_localError p) \<or> err \<noteq> None
         then [Alert (nullish_or (lp_localError p) (case err of Some e \<Rightarrow> js_error_message e | None \<Rightarrow> []))] @
              (if lp_isLocked p \<and> lp_lockoutEndTime p \<noteq> None
               then [Text (''Try again in '' @ remaining_lockout_time (lp_lockoutEndTime p) now)] else [])
         else []) @
        [LinkTo ''Forgot password?'' ''/forgot-password'',
         Button (Label (if isPending then ''Signing in...'' else ''Sign in'')) (\<not> (isPending \<or> lp_isLocked p))])
       [Text ''Or'', Text ''Don't have an account?'', LinkTo ''Sign up'' ''/signup'']"

section \<open>The sign-up page\<close>

text \<open>\<open>SignUpPage\<close>'s markup (lines 88--273), with its URL parameters.\<close>

definition signup_view :: "js_string \<Rightarrow> js_string \<Rightarrow> bool \<Rightarrow> js_error option \<Rightarrow> signup_page \<Rightarrow> view" where
  "signup_view planParam billingParam isPending err sp =
     (if sp_success sp then
        auth_layout ''Verification Email Sent'' (Some [])
          [Heading ''Verification Email Sent'',
           Text (''A verification link has been sent to '' @ sf_email (sp_form sp) @ ''.''),
           Text ''Please check your inbox to activate your account.'',
           LinkTo ''Back to Login'' ''/login''] []
      else
        auth_layout ''Create an account'' (Some ''Enter your information to get started'')
          ((if js_truthy (sp_errorMsg sp) \<or> err \<noteq> None
            then [Alert (nullish_or (sp_errorMsg sp) (case err of Some e \<Rightarrow> js_error_message e | None \<Rightarrow> []))]
            else []) @
           (case planParam of
              Some k \<Rightarrow>
                (if k \<noteq> [] then
                   (case plan_names k of
                      Some nm \<Rightarrow>
                        [Text ''Selected Plan:'',
                         Chip (nm @ '' ('' @ (if nullish_or billingParam ''monthly'' = ''yearly'' then ''Yearly'' else ''Monthly'') @ '')''),
                         LinkTo ''Change plan'' ''/plan'']
                    | None \<Rightarrow> [])
                 else [])
            | None \<Rightarrow> []) @
           [Text ''I agree to the'', LinkTo ''terms of service'' ''/terms'', Text ''and'',
            LinkTo ''privacy policy'' ''/privacy''])
          [Button (if isPending then Progress else Label ''Sign Up'') (\<not> isPending),
           Text ''Already have an account?'', LinkTo ''Sign in'' ''/login''])"

section \<open>The forgot-password form\<close>

text \<open>
  \<open>ForgotPasswordForm\<close>'s markup (lines 33--127). Every thrown value is an \<open>Error\<close>,
  so the alert shows its message. "Return to Login" assigns \<open>window.location.href\<close>.
\<close>

definition forgot_view :: "bool \<Rightarrow> js_error option \<Rightarrow> string \<Rightarrow> bool \<Rightarrow> view" where
  "forgot_view isPending err email isSubmitted =
     auth_layout ''Reset Your Password''
       (Some ''Enter your email address and we'll send you a link to reset your password'')
       ((case err of
           Some e \<Rightarrow> if \<not> isSubmitted then [Alert (js_error_message e)] else []
         | None \<Rightarrow> []) @
        (if isSubmitted
         then [Alert (''Password reset instructions have been sent to '' @ email @ ''. Please check your inbox.'')]
         else []) @
        (if err \<noteq> None \<and> \<not> isSubmitted then [Text ''Please verify your email address and try again.''] else []) @
        (if isSubmitted
         then [Text ''The email may take a few minutes to arrive. Please check your spam folder if you don't see it in your inbox.'']
         else []))
       (if \<not> isSubmitted
        then [Button (Label (if isPending then ''Sending...'' else ''Reset Password'')) (\<not> forgot_submit_disabled isPending email),
              Text ''Remember your password?'', LinkTo ''Sign in'' ''/login'']
        else [LinkTo ''Return to Login'' ''/login'', Button (Label ''Try a different email address'') True])"

section \<open>The reset-password form and route\<close>

text \<open>\<open>ResetPasswordForm\<close>'s markup (lines 49--146).\<close>

definition reset_form_view :: "bool \<Rightarrow> js_error option \<Rightarrow> string \<Rightarrow> js_string \<Rightarrow> view" where
  "reset_form_view isPending err token localError =
     auth_layout ''Reset Your Password'' (Some ''Enter your new password below'')
       ((if err \<noteq> None \<or> js_truthy localError
         then [Alert (nullish_or localError (case err of Some e \<Rightarrow> js_error_message e | None \<Rightarrow> []))] else []) @
        (if token = [] then [Alert ''Missing reset token. Please use the link emailed to you.''] else []) @
        [Button (if isPending then Progress else Label ''Reset Password'') (\<not> reset_form_disabled isPending token),
         Text ''Remember your password?'', LinkTo ''Sign in'' ''/login''])
       []"

text \<open>
  The field errors of the reset route's zod resolver: the first failing check of the
  password, and the refinement on the confirmation, which zod runs only when the
  fields themselves parse.
\<close>

definition zod_field_errors :: "string \<Rightarrow> string \<Rightarrow> js_string \<times> js_string" where
  "zod_field_errors password confirmPassword =
     (let pe = (if length password < 8 then Some ''At least 8 characters''
                else if \<not> zod_password_ok password then Some ''Must include uppercase, lowercase, number & special char''
                else None)
      in (pe, if pe = None \<and> password \<noteq> confirmPassword then Some ''Passwords do not match'' else None))"

text \<open>
  \<open>ResetPasswordPage\<close>'s three screens (lines 100--254): no token, done, and the form
  with the errors of the fields the user has changed.
\<close>

definition reset_page_view :: "string \<Rightarrow> bool \<Rightarrow> string \<Rightarrow> string \<Rightarrow> bool \<times> bool \<Rightarrow> reset_page \<Rightarrow> view" where
  "reset_page_view token isPending password confirmPassword touched rp =
     (if token = [] then
        [Heading ''Reset Your Password'', Alert ''Invalid or missing reset token.'',
         LinkTo ''Request new link'' ''/forgot-password'']
      else if rp_submitted rp then
        [Heading ''Password Reset!'', Text ''Your password has been updated successfully.'',
         Text ''Redirecting to login in 4 seconds...'', LinkTo ''Back to Login Now'' ''/login'']
      else
        (let (pe, ce) = zod_field_errors password confirmPassword in
         [Heading ''Reset Your Password'', Text ''Enter a new password to secure your account''] @
         (case reset_page_alert rp of Some m \<Rightarrow> [Alert m] | None \<Rightarrow> []) @
         (if fst touched then (case pe of Some m \<Rightarrow> [Text m] | None \<Rightarrow> []) else []) @
         (if snd touched then (case ce of Some m \<Rightarrow> [Text m] | None \<Rightarrow> []) else []) @
         [Button (if isPending then Progress else Label ''Reset Password'')
            (reset_can_submit (zod_reset_ok password confirmPassword) token isPending),
          Text ''Remembered?'', LinkTo ''Sign in'' ''/login'']))"

section \<open>The verification page\<close>

text \<open>\<open>VerifyEmailPage\<close>'s three states (lines 96--191); its buttons navigate.\<close>

definition verify_view :: "verify_page \<Rightarrow> view" where
  "verify_view vp =
     (case vp_status vp of
        VLoading \<Rightarrow> [Spinner, Heading (''Verifying your email'' @ ellipsis)]
      | VSuccess \<Rightarrow>
          [Heading ''Email Verified!'', Text ''Your email has been successfully verified.'',
           Text (''Redirecting to login'' @ ellipsis), LinkTo ''Back to Login'' ''/login'']
      | VError \<Rightarrow>
          [Heading ''Verification Failed'', Text (vp_errorMsg vp), Text ''The link may be expired or invalid.'',
           LinkTo ''Sign Up'' ''/signup'', LinkTo ''Back to Login'' ''/login''])"

section \<open>The settings page\<close>

text \<open>The two submit buttons of \<open>SettingsPage\<close> (lines 200--205 and 257--262).\<close>

definition settings_buttons :: "bool \<Rightarrow> bool \<Rightarrow> view" where
  "settings_buttons profilePending passwordPending =
     [Button (Label (if profilePending then ''Saving...'' else ''Save Changes'')) (\<not> profilePending),
      Button (Label (if passwordPending then ''Updating...'' else ''Update Password'')) (\<not> passwordPending)]"

section \<open>Full reloads\<close>

text \<open>
  \<open>window.location.href = p\<close> or \<open>window.location.assign(p)\<close>: the page is loaded again
  at \<open>p\<close>, every in-memory store starts from its initial state.
\<close>

definition full_reload :: "path \<Rightarrow> 's app \<Rightarrow> 's app" where
  "full_reload p a = a\<lparr>auth := auth_init, loader := loader_init, toasts := [], location := p\<rparr>"

text \<open>A signed-out visitor following a link: the route guard without an access token.\<close>

definition signed_out_follow :: "path \<Rightarrow> decision" where
  "signed_out_follow p = route_guard p None"

text \<open>The links of the pages a signed-out visitor sees, in any of their states.\<close>

definition signed_out_links ::
  "int \<Rightarrow> bool \<Rightarrow> js_error option \<Rightarrow> login_page \<Rightarrow> js_string \<Rightarrow> js_string \<Rightarrow> signup_page \<Rightarrow> string \<Rightarrow> bool \<Rightarrow>
   string \<Rightarrow> js_string \<Rightarrow> string \<Rightarrow> string \<Rightarrow> bool \<times> bool \<Rightarrow> reset_page \<Rightarrow> verify_page \<Rightarrow> path set" where
  "signed_out_links now isPending err lp pl bl sp email sub tok le pw cpw tch rp vp =
     set (view_links (login_view now isPending err lp)) \<union> set (view_links (signup_view pl bl isPending err sp))
             \<union> set (view_links (forgot_view isPending err email sub)) \<union> set (view_links (reset_form_view isPending err tok le))
             \<union> set (view_links (reset_page_view tok isPending pw cpw tch rp)) \<union> set (view_links (verify_view vp))"

section \<open>Lemmas\<close>

lemma view_links_append [simp]: "view_links (xs @ ys) = view_links xs @ view_links ys"
  by (simp add: view_links_def)

lemma view_links_Cons [simp]: "view_links (x # xs) = ui_link x @ view_links xs"
  by (simp add: view_links_def)

lemma view_links_Nil [simp]: "view_links [] = []"
  by (simp add: view_links_def)

lemma when_text_links [simp]: "view_links (when_text s (\<lambda>t. [Text t])) = []"
  by (simp add: when_text_def split: option.split)

lemma auth_layout_links:
  "view_links (auth_layout t d c f) = ''/'' # view_links c @ view_links f @ [''/help'']"
  by (simp add: auth_layout_def)

lemma signed_out_allowed:
  "signed_out_follow ''/'' = Next" "signed_out_follow ''/login'' = Next" "signed_out_follow ''/signup'' = Next"
  "signed_out_follow ''/forgot-password'' = Next" "signed_out_follow ''/plan'' = Next"
  "signed_out_follow ''/terms'' = Next" "signed_out_follow ''/privacy-policy'' = Next"
  by (simp_all add: signed_out_follow_def route_guard_def favicon_like_def middleware_def
      publicRoutes_def authRoutes_def hasValidAuthToken_def parse_cookie_def)

lemma signed_out_blocked:
  "signed_out_follow ''/help'' = Redirect ''/login''" "signed_out_follow ''/privacy'' = Redirect ''/login''"
  by (simp_all add: signed_out_follow_def route_guard_def favicon_like_def middleware_def
      publicRoutes_def authRoutes_def hasValidAuthToken_def parse_cookie_def)


lemma auth_page_links:
  "set (view_links (login_view now isPending err lp)) \<subseteq> {''/'', ''/login'', ''/signup'', ''/forgot-password'', ''/plan'', ''/terms'', ''/privacy-policy'', ''/privacy'', ''/help''}"
  "set (view_links (signup_view pl bl isPending err sp)) \<subseteq> {''/'', ''/login'', ''/signup'', ''/forgot-password'', ''/plan'', ''/terms'', ''/privacy-policy'', ''/privacy'', ''/help''}"
  "set (view_links (forgot_view isPending err email sub)) \<subseteq> {''/'', ''/login'', ''/signup'', ''/forgot-password'', ''/plan'', ''/terms'', ''/privacy-policy'', ''/privacy'', ''/help''}"
  "set (view_links (reset_form_view isPending err tok le)) \<subseteq> {''/'', ''/login'', ''/signup'', ''/forgot-password'', ''/plan'', ''/terms'', ''/privacy-policy'', ''/privacy'', ''/help''}"
  "set (view_links (reset_page_view tok isPending pw cpw tch rp)) \<subseteq> {''/'', ''/login'', ''/signup'', ''/forgot-password'', ''/plan'', ''/terms'', ''/privacy-policy'', ''/privacy'', ''/help''}"
  "set (view_links (verify_view vp)) \<subseteq> {''/'', ''/login'', ''/signup'', ''/forgot-password'', ''/plan'', ''/terms'', ''/privacy-policy'', ''/privacy'', ''/help''}"
  by (auto simp: login_view_def signup_view_def forgot_view_def reset_form_view_def reset_page_view_def
      verify_view_def auth_layout_links Let_def split: option.splits prod.splits verify_status.splits)

lemma zod_field_errors_valid:
  "zod_field_errors password confirmPassword = (None, None) \<longleftrightarrow> zod_reset_ok password confirmPassword"
  by (auto simp: zod_field_errors_def zod_reset_ok_def zod_password_ok_def Let_def)

lemma loader_view_shown: "loader_view st \<noteq> [] \<longleftrightarrow> isLoading st"
  by (simp add: loader_view_def)

lemma reload_is_full_reload:
  "hard_navigation (drop k (trace (net a))) = Some p \<Longrightarrow> reload_if_navigated k a = full_reload p a"
  by (simp add: reload_if_navigated_def full_reload_def)


lemma signed_out_link_decision:
  assumes "p \<in> signed_out_links now isPending err lp pl bl sp email sub tok le pw cpw tch rp vp"
  shows "signed_out_follow p = (if p \<in> {''/help'', ''/privacy''} then Redirect ''/login'' else Next)"
proof -
  have "signed_out_links now isPending err lp pl bl sp email sub tok le pw cpw tch rp vp
        \<subseteq> {''/'', ''/login'', ''/signup'', ''/forgot-password'', ''/plan'', ''/terms'', ''/privacy-policy'', ''/privacy'', ''/help''}"
    unfolding signed_out_links_def by (intro Un_least auth_page_links)
  from subsetD [OF this assms] show ?thesis using signed_out_allowed signed_out_blocked by auto
qed

lemma signed_out_links_dead:
  "\<not> sp_success sp \<Longrightarrow> {''/help'', ''/privacy''} \<subseteq> signed_out_links now isPending err lp pl bl sp email sub tok le pw cpw tch rp vp"
  by (simp add: signed_out_links_def login_view_def signup_view_def auth_layout_def)

text \<open>A signed-out visitor can follow every link of the sign-in, sign-up, forgot-password, reset-password and verification pages except two, which the route guard sends to \<open>/login\<close>: the layout's support link \<open>/help\<close> and the sign-up page's \<open>/privacy\<close> (the public route is \<open>/privacy-policy\<close>).\<close>

theorem signed_out_dead_links:
  assumes "\<not> sp_success sp"
  shows "{p \<in> signed_out_links now isPending err lp pl bl sp email sub tok le pw cpw tch rp vp. signed_out_follow p \<noteq> Next}
           = {''/help'', ''/privacy''} \<and>
         (\<forall>p. signed_out_follow p \<noteq> Next \<longrightarrow> p \<in> signed_out_links now isPending err lp pl bl sp email sub tok le pw cpw tch rp vp \<longrightarrow>
              signed_out_follow p = Redirect ''/login'')"
proof -
  let ?L = "signed_out_links now isPending err lp pl bl sp email sub tok le pw cpw tch rp vp"
  have dec: "\<And>p. p \<in> ?L \<Longrightarrow> signed_out_follow p = (if p \<in> {''/help'', ''/privacy''} then Redirect ''/login'' else Next)"
    by (rule signed_out_link_decision)
  have "{''/help'', ''/privacy''} \<subseteq> ?L"
    using assms by (rule signed_out_links_dead)
  then have "{p \<in> ?L. signed_out_follow p \<noteq> Next} = {''/help'', ''/privacy''}"
    using dec by (auto split: if_splits)
  moreover have "\<forall>p. signed_out_follow p \<noteq> Next \<longrightarrow> p \<in> ?L \<longrightarrow> signed_out_follow p = Redirect ''/login''"
    using dec by (auto split: if_splits)
  ultimately show ?thesis by blast
qed

section \<open>Witnesses\<close>

theorem signed_out_dead_links_witness:
  "{p \<in> signed_out_links 0 False None login_page_init None None
         \<lparr>sp_form = signup_form_init None None, sp_errorMsg = None, sp_success = False\<rparr>
         [] False [] None [] [] (False, False) reset_page_init verify_page_init. signed_out_follow p \<noteq> Next}
   = {''/help'', ''/privacy''}"
  using signed_out_dead_links [of "\<lparr>sp_form = signup_form_init None None, sp_errorMsg = None, sp_success = False\<rparr>"]
  by simp

end
