(* ===== verification/Class_Names.thy ===== *)
theory Class_Names
  imports Prelude
begin

text \<open>
  Class names and the two UI primitives built on them. \<open>cn\<close> of \<open>lib/index.ts\<close> is
  \<open>clsx\<close> applied to the array of its arguments; \<open>clsx\<close> (a library the sources call)
  is modelled from its published source: every truthy string, every truthy member of an
  array and every key of an object whose value is truthy contributes, in order, joined
  by single spaces. The \<open>Button\<close> and \<open>Typography\<close> components of
  \<open>components/ui\<close> are functions from their props to an element tree.
  \<open>removeAllCookies\<close> of \<open>lib/index.ts\<close> works on a cookie jar in which
  \<open>js-cookie\<close>'s \<open>get\<close> and \<open>remove\<close> are modelled from the library's
  documented behaviour.
\<close>

section \<open>\<open>clsx\<close>\<close>

text \<open>
  The values the sources pass to \<open>cn\<close>: strings, the booleans of \<open>cond && 'class'\<close>,
  \<open>null\<close> and \<open>undefined\<close>, arrays, and object literals whose values are the
  conditions (evaluated to booleans).
\<close>

datatype class_value =
    CStr string
  | CBool bool
  | CNull
  | CUndef
  | CArr "class_value list"
  | CObj "(string \<times> bool) list"

fun cv_truthy :: "class_value \<Rightarrow> bool" where
  "cv_truthy (CStr s) = (s \<noteq> [])"
| "cv_truthy (CBool b) = b"
| "cv_truthy CNull = False"
| "cv_truthy CUndef = False"
| "cv_truthy (CArr _) = True"
| "cv_truthy (CObj _) = True"

text \<open>\<open>str && (str += ' '); str += y\<close>.\<close>

definition join_sp :: "string \<Rightarrow> string \<Rightarrow> string" where
  "join_sp str y = (if str = [] then y else str @ '' '' @ y)"

text \<open>
  \<open>toVal\<close>: a string is taken as it is; an array contributes each truthy member whose
  own value is non-empty; an object contributes each key whose value is truthy; anything
  else contributes nothing.
\<close>

primrec toVal :: "class_value \<Rightarrow> string"
  and toVal_arr :: "class_value list \<Rightarrow> string \<Rightarrow> string" where
  "toVal (CStr s) = s"
| "toVal (CBool b) = []"
| "toVal CNull = []"
| "toVal CUndef = []"
| "toVal (CArr xs) = toVal_arr xs []"
| "toVal (CObj kvs) = foldl (\<lambda>str (k, v). if v then join_sp str k else str) [] kvs"
| "toVal_arr [] str = str"
| "toVal_arr (x # xs) str =
     toVal_arr xs (if cv_truthy x \<and> toVal x \<noteq> [] then join_sp str (toVal x) else str)"

text \<open>\<open>clsx(...args)\<close>: the loop over \<open>arguments\<close>.\<close>

fun clsx_loop :: "class_value list \<Rightarrow> string \<Rightarrow> string" where
  "clsx_loop [] str = str"
| "clsx_loop (tmp # args) str =
     clsx_loop args (if cv_truthy tmp then (let x = toVal tmp in if x \<noteq> [] then join_sp str x else str) else str)"

definition clsx :: "class_value list \<Rightarrow> string" where
  "clsx args = clsx_loop args []"

text \<open>\<open>cn = (...classes) => clsx(classes)\<close> (\<open>lib/index.ts\<close>, line 2).\<close>

definition cn :: "class_value list \<Rightarrow> string" where
  "cn classes = clsx [CArr classes]"

section \<open>The reference: truthy class names joined by spaces\<close>

primrec cv_items :: "class_value \<Rightarrow> string list"
  and cv_items_arr :: "class_value list \<Rightarrow> string list" where
  "cv_items (CStr s) = (if s = [] then [] else [s])"
| "cv_items (CBool b) = []"
| "cv_items CNull = []"
| "cv_items CUndef = []"
| "cv_items (CArr xs) = cv_items_arr xs"
| "cv_items (CObj kvs) = [k. (k, v) \<leftarrow> kvs, v]"
| "cv_items_arr [] = []"
| "cv_items_arr (x # xs) = cv_items x @ cv_items_arr xs"

fun space_join :: "string list \<Rightarrow> string" where
  "space_join [] = []"
| "space_join [x] = x"
| "space_join (x # y # ys) = x @ '' '' @ space_join (y # ys)"

text \<open>Every key of an object literal is a non-empty class name.\<close>

primrec keys_ok :: "class_value \<Rightarrow> bool"
  and keys_ok_arr :: "class_value list \<Rightarrow> bool" where
  "keys_ok (CStr s) = True"
| "keys_ok (CBool b) = True"
| "keys_ok CNull = True"
| "keys_ok CUndef = True"
| "keys_ok (CArr xs) = keys_ok_arr xs"
| "keys_ok (CObj kvs) = (\<forall>kv \<in> set kvs. fst kv \<noteq> [])"
| "keys_ok_arr [] = True"
| "keys_ok_arr (x # xs) = (keys_ok x \<and> keys_ok_arr xs)"

section \<open>Element trees\<close>

text \<open>
  A rendered element: a tag with its attributes and children, or text. A boolean
  attribute such as \<open>disabled\<close> is present (with the empty value) exactly when it is
  true, as React renders it.
\<close>

datatype element =
    Node (el_tag: string) (el_attrs: "(string \<times> string) list") (el_children: "element list")
  | Txt string

definition bool_attr :: "string \<Rightarrow> bool \<Rightarrow> (string \<times> string) list" where
  "bool_attr k b = (if b then [(k, [])] else [])"

section \<open>\<open>Button\<close>\<close>

datatype button_variant = Primary | Secondary | Danger | Outline | Transparent
datatype button_size = Sm | Md | Lg

text \<open>The props; an absent prop is \<open>None\<close> and takes the default of the destructuring.\<close>

record button_props =
  bp_variant :: "button_variant option"
  bp_size :: "button_size option"
  bp_isLoading :: "bool option"
  bp_disabled :: "bool option"
  bp_className :: "string option"
  bp_rest :: "(string \<times> string) list"

definition button_defaults :: button_props where
  "button_defaults = \<lparr>bp_variant = None, bp_size = None, bp_isLoading = None, bp_disabled = None,
                      bp_className = None, bp_rest = []\<rparr>"

text \<open>The class string of each variant and size, as a table (the reference for the object literal).\<close>

primrec button_variant_class :: "button_variant \<Rightarrow> string" where
  "button_variant_class Primary = ''bg-[#5A49F8] text-primary hover:bg-[#4A3FCF] focus:ring-[#5A49F8] dark:bg-[#6B5BFF] dark:hover:bg-[#5A49F8] dark:focus:ring-[#6B5BFF]''"
| "button_variant_class Secondary = ''bg-gray-500 text-white hover:bg-gray-600 focus:ring-gray-500 dark:bg-gray-600 dark:hover:bg-gray-700 dark:focus:ring-gray-600''"
| "button_variant_class Danger = ''bg-red-500 text-white hover:bg-red-600 focus:ring-red-500 dark:bg-red-600 dark:hover:bg-red-700 dark:focus:ring-red-600''"
| "button_variant_class Outline = ''border border-gray-300 text-gray-700 hover:bg-gray-50 focus:ring-gray-500 dark:border-gray-600 dark:text-gray-300 dark:hover:bg-gray-800 dark:focus:ring-gray-600''"
| "button_variant_class Transparent = ''bg-transparent text-gray-700 hover:bg-gray-100 dark:text-gray-300 dark:hover:bg-gray-800''"

primrec button_size_class :: "button_size \<Rightarrow> string" where
  "button_size_class Sm = ''px-2 py-1 text-sm''"
| "button_size_class Md = ''px-4 py-2 text-base''"
| "button_size_class Lg = ''px-6 py-3 text-lg''"

text \<open>\<open>buttonClasses\<close> (lines 31--55).\<close>

definition button_classes :: "button_variant \<Rightarrow> button_size \<Rightarrow> bool \<Rightarrow> bool \<Rightarrow> string \<Rightarrow> string" where
  "button_classes variant size' disabled isLoading className =
     cn [CStr ''rounded-[8px] font-medium transition-colors focus:ring-2 focus:ring-offset-2'',
         CObj [(''bg-[#5A49F8] text-primary hover:bg-[#4A3FCF] focus:ring-[#5A49F8] dark:bg-[#6B5BFF] dark:hover:bg-[#5A49F8] dark:focus:ring-[#6B5BFF]'',
                  variant = Primary),
               (''bg-gray-500 text-white hover:bg-gray-600 focus:ring-gray-500 dark:bg-gray-600 dark:hover:bg-gray-700 dark:focus:ring-gray-600'',
                  variant = Secondary),
               (''bg-red-500 text-white hover:bg-red-600 focus:ring-red-500 dark:bg-red-600 dark:hover:bg-red-700 dark:focus:ring-red-600'',
                  variant = Danger),
               (''border border-gray-300 text-gray-700 hover:bg-gray-50 focus:ring-gray-500 dark:border-gray-600 dark:text-gray-300 dark:hover:bg-gray-800 dark:focus:ring-gray-600'',
                  variant = Outline),
               (''bg-transparent text-gray-700 hover:bg-gray-100 dark:text-gray-300 dark:hover:bg-gray-800'',
                  variant = Transparent),
               (''px-2 py-1 text-sm'', size' = Sm),
               (''px-4 py-2 text-base'', size' = Md),
               (''px-6 py-3 text-lg'', size' = Lg),
               (''opacity-50 cursor-not-allowed'', disabled \<or> isLoading)],
         CStr className]"

text \<open>The spinner shown while loading (lines 64--86).\<close>

definition button_spinner :: "element list" where
  "button_spinner =
     [Node ''progress'' [(''className'', ''sr-only''), (''aria-label'', ''Loading'')] [Txt ''Loading...''],
      Node ''svg'' [(''className'', ''-ml-1 mr-3 size-5 animate-spin text-white dark:text-gray-300''),
                   (''xmlns'', ''http://www.w3.org/2000/svg''), (''fill'', ''none''), (''viewBox'', ''0 0 24 24''),
                   (''aria-hidden'', ''true'')]
        [Node ''circle'' [(''className'', ''opacity-25''), (''cx'', ''12''), (''cy'', ''12''), (''r'', ''10''),
                         (''stroke'', ''currentColor''), (''strokeWidth'', ''4'')] [],
         Node ''path'' [(''className'', ''opacity-75''), (''fill'', ''currentColor''),
                       (''d'', ''M4 12a8 8 0 018-8V0C5.373 0 0 5.373 0 12h4z'')] []]]"

text \<open>\<open>Button\<close> (lines 22--94): the remaining props first, then \<open>disabled\<close> and the class.\<close>

definition button :: "button_props \<Rightarrow> element list \<Rightarrow> element" where
  "button props children =
     (let variant = case_option Primary id (bp_variant props);
          size' = case_option Md id (bp_size props);
          isLoading = case_option False id (bp_isLoading props);
          disabled = case_option False id (bp_disabled props);
          className = case_option [] id (bp_className props)
      in Node ''button''
           (bp_rest props @ bool_attr ''disabled'' (disabled \<or> isLoading) @
            [(''className'', button_classes variant size' disabled isLoading className)])
           (if isLoading then [Node ''span'' [(''className'', ''flex items-center'')] (button_spinner @ children)]
            else children))"

section \<open>\<open>Typography\<close>\<close>

text \<open>\<open>sizeClasses\<close> and \<open>weightClasses\<close> (lines 27--46): record lookups, \<open>undefined\<close> off the table.\<close>

definition sizeClasses :: "int \<rightharpoonup> string" where
  "sizeClasses = map_of
     [(12, ''text-[12px]''), (14, ''text-[14px]''), (16, ''text-[16px]''), (18, ''text-[18px]''),
      (20, ''text-[20px]''), (24, ''text-[24px]''), (26, ''text-[26px]''), (28, ''text-[28px]''),
      (30, ''text-[30px]''), (32, ''text-[32px]''), (36, ''text-[36px]'')]"

definition weightClasses :: "string \<rightharpoonup> string" where
  "weightClasses = map_of
     [(''normal'', ''font-normal''), (''medium'', ''font-medium''), (''semibold'', ''font-semibold''),
      (''bold'', ''font-bold'')]"

definition cv_of_opt :: "string option \<Rightarrow> class_value" where
  "cv_of_opt s = (case s of Some c \<Rightarrow> CStr c | None \<Rightarrow> CUndef)"

text \<open>The text element's class (line 52).\<close>

definition typography_classes :: "int \<Rightarrow> string \<Rightarrow> string \<Rightarrow> string" where
  "typography_classes size' weight color = cn [cv_of_opt (sizeClasses size'), cv_of_opt (weightClasses weight), CStr color]"

record typography_props =
  tp_as :: "string option"
  tp_size :: "int option"
  tp_weight :: "string option"
  tp_color :: "string option"
  tp_className :: "string option"
  tp_leftIcon :: "element option"
  tp_rightIcon :: "element option"

text \<open>\<open>Typography\<close> (lines 17--59).\<close>

definition typography :: "typography_props \<Rightarrow> element list \<Rightarrow> element" where
  "typography props children =
     (let Component = case_option ''p'' id (tp_as props);
          size' = case_option 16 id (tp_size props);
          weight = case_option ''normal'' id (tp_weight props);
          color = case_option ''text-blue'' id (tp_color props);
          className = case_option [] id (tp_className props);
          icon = (\<lambda>i. case i of Some e \<Rightarrow> [Node ''span'' [(''className'', ''shrink-0'')] [e]] | None \<Rightarrow> [])
      in Node ''div'' [(''className'', cn [CStr ''flex items-center gap-2'', CStr className])]
           (icon (tp_leftIcon props) @
            [Node Component [(''className'', typography_classes size' weight color)] children] @
            icon (tp_rightIcon props)))"

section \<open>\<open>removeAllCookies\<close>\<close>

text \<open>
  A cookie of the browser's jar. \<open>document.cookie\<close>, which \<open>Cookies.get()\<close> reads,
  shows the cookies that are not \<open>HttpOnly\<close> and whose path matches the page's path;
  \<open>Cookies.remove(name, {path: '/'})\<close> writes an expired cookie of that name and path
  \<open>/\<close>, which deletes the stored one unless it is \<open>HttpOnly\<close> (a script cannot
  overwrite those).
  Domains are left out: every cookie is the page host's.
\<close>

record cookie =
  ck_name :: string
  ck_value :: string
  ck_path :: path
  ck_httpOnly :: bool

text \<open>RFC 6265's path-match of a request path against a cookie path.\<close>

definition path_match :: "path \<Rightarrow> path \<Rightarrow> bool" where
  "path_match req cp =
     (req = cp \<or> (starts_with req cp \<and> cp \<noteq> [] \<and> (last cp = CHR ''/'' \<or> req ! length cp = CHR ''/'')))"

definition cookies_get :: "path \<Rightarrow> cookie list \<Rightarrow> string list" where
  "cookies_get loc jar = remdups [ck_name c. c \<leftarrow> jar, \<not> ck_httpOnly c \<and> path_match loc (ck_path c)]"

definition cookie_remove :: "string \<Rightarrow> path \<Rightarrow> cookie list \<Rightarrow> cookie list" where
  "cookie_remove name p jar = filter (\<lambda>c. \<not> (ck_name c = name \<and> ck_path c = p \<and> \<not> ck_httpOnly c)) jar"

text \<open>\<open>removeAllCookies\<close> (\<open>lib/index.ts\<close>, lines 5--11) on a page at \<open>loc\<close>.\<close>

definition removeAllCookies :: "path \<Rightarrow> cookie list \<Rightarrow> cookie list" where
  "removeAllCookies loc jar = foldl (\<lambda>j n. cookie_remove n ''/'' j) jar (cookies_get loc jar)"

section \<open>Lemmas\<close>

subsection \<open>\<open>clsx\<close> against the reference\<close>

lemma space_join_append:
  "a \<noteq> [] \<Longrightarrow> b \<noteq> [] \<Longrightarrow> space_join (a @ b) = space_join a @ '' '' @ space_join b"
proof (induction a rule: space_join.induct)
  case (2 x)
  then show ?case by (cases b) auto
qed auto

lemma space_join_nonempty: "\<forall>s \<in> set a. s \<noteq> [] \<Longrightarrow> space_join a = [] \<longleftrightarrow> a = []"
  by (induction a rule: space_join.induct) auto

lemma join_sp_space_join:
  assumes "\<forall>s \<in> set a. s \<noteq> []" "b \<noteq> []" "\<forall>s \<in> set b. s \<noteq> []"
  shows "join_sp (space_join a) (space_join b) = space_join (a @ b)"
  using assms by (cases "a = []") (auto simp: join_sp_def space_join_nonempty space_join_append)

lemma obj_fold_space_join:
  "\<forall>s \<in> set a. s \<noteq> [] \<Longrightarrow> \<forall>kv \<in> set kvs. fst kv \<noteq> [] \<Longrightarrow>
   foldl (\<lambda>str (k, v). if v then join_sp str k else str) (space_join a) kvs = space_join (a @ [k. (k, v) \<leftarrow> kvs, v])"
proof (induction kvs arbitrary: a)
  case (Cons kv kvs)
  obtain k v where kv: "kv = (k, v)" by fastforce
  have k: "k \<noteq> []" using Cons.prems(2) kv by auto
  have "join_sp (space_join a) k = space_join (a @ [k])"
    using join_sp_space_join [of a "[k]"] Cons.prems(1) k by simp
  then show ?case using Cons k kv by (cases v) auto
qed simp

lemma cv_items_nonempty:
  "keys_ok v \<Longrightarrow> s \<in> set (cv_items v) \<Longrightarrow> s \<noteq> []"
proof (induction v arbitrary: s)
  case (CArr xs)
  then show ?case by (induction xs) auto
qed (auto split: if_splits)

lemma toVal_items_truthy: "toVal v \<noteq> [] \<Longrightarrow> cv_truthy v"
  by (cases v) auto

lemma toVal_arr_Cons_nonempty:
  "toVal_arr (x # xs) str = toVal_arr xs (if toVal x \<noteq> [] then join_sp str (toVal x) else str)"
  using toVal_items_truthy [of x] by auto

lemma toVal_arr_space_join:
  assumes "\<forall>x \<in> set xs. keys_ok x \<longrightarrow> toVal x = space_join (cv_items x)"
    and "keys_ok_arr xs" and "\<forall>s \<in> set a. s \<noteq> []"
  shows "toVal_arr xs (space_join a) = space_join (a @ cv_items_arr xs)"
  using assms
proof (induction xs arbitrary: a)
  case (Cons x xs)
  have x: "toVal x = space_join (cv_items x)" "keys_ok x" "keys_ok_arr xs"
    using Cons.prems by auto
  have ne: "\<forall>s \<in> set (cv_items x). s \<noteq> []" using cv_items_nonempty x(2) by blast
  have ih: "\<forall>s \<in> set b. s \<noteq> [] \<Longrightarrow> toVal_arr xs (space_join b) = space_join (b @ cv_items_arr xs)" for b
    using Cons.IH Cons.prems(1) x(3) by simp
  show ?case
  proof (cases "cv_items x = []")
    case True
    then have "toVal x = []" using x(1) by simp
    then show ?thesis using ih [OF Cons.prems(3)] True by (simp del: toVal_arr.simps add: toVal_arr_Cons_nonempty)
  next
    case False
    then have tv: "toVal x \<noteq> []" using x(1) space_join_nonempty [OF ne] by simp
    have "toVal_arr (x # xs) (space_join a) = toVal_arr xs (join_sp (space_join a) (space_join (cv_items x)))"
      using tv x(1) by (simp del: toVal_arr.simps add: toVal_arr_Cons_nonempty)
    also have "\<dots> = toVal_arr xs (space_join (a @ cv_items x))"
      using join_sp_space_join [OF Cons.prems(3) False ne] by simp
    also have "\<dots> = space_join (a @ cv_items x @ cv_items_arr xs)"
      using ih [of "a @ cv_items x"] Cons.prems(3) ne by auto
    finally show ?thesis by simp
  qed
qed simp

lemma toVal_space_join:
  "keys_ok v \<Longrightarrow> toVal v = space_join (cv_items v)"
proof (induction v)
  case (CArr xs)
  then show ?case using toVal_arr_space_join [of xs "[]"] by simp
next
  case (CObj kvs)
  then show ?case using obj_fold_space_join [of "[]" kvs] by simp
qed auto

lemma cv_items_arr_nonempty:
  "keys_ok_arr xs \<Longrightarrow> \<forall>s \<in> set (cv_items_arr xs). s \<noteq> []"
  using cv_items_nonempty [of "CArr xs"] by simp

lemma cn_toVal_space_join: "keys_ok_arr xs \<Longrightarrow> cn xs = space_join (cv_items_arr xs)"
proof -
  assume k: "keys_ok_arr xs"
  have "toVal (CArr xs) = space_join (cv_items_arr xs)" using toVal_space_join [of "CArr xs"] k by simp
  then show ?thesis by (simp add: cn_def clsx_def join_sp_def Let_def)
qed

subsection \<open>\<open>Button\<close>\<close>

lemma button_obj_items:
  "[k. (k, v) \<leftarrow> [(button_variant_class Primary, variant = Primary), (button_variant_class Secondary, variant = Secondary),
       (button_variant_class Danger, variant = Danger), (button_variant_class Outline, variant = Outline),
       (button_variant_class Transparent, variant = Transparent),
       (button_size_class Sm, sz = Sm), (button_size_class Md, sz = Md), (button_size_class Lg, sz = Lg), (oc, b)], v]
   = [button_variant_class variant, button_size_class sz] @ (if b then [oc] else [])"
  by (cases variant; cases sz) simp_all

lemma button_classes_table:
  "button_classes variant sz disabled isLoading className =
     space_join ([''rounded-[8px] font-medium transition-colors focus:ring-2 focus:ring-offset-2'',
                  button_variant_class variant, button_size_class sz] @
                 (if disabled \<or> isLoading then [''opacity-50 cursor-not-allowed''] else []) @
                 (if className = [] then [] else [className]))"
proof -
  have keys: "keys_ok_arr [CStr ''rounded-[8px] font-medium transition-colors focus:ring-2 focus:ring-offset-2'',
       CObj [(button_variant_class Primary, variant = Primary), (button_variant_class Secondary, variant = Secondary),
       (button_variant_class Danger, variant = Danger), (button_variant_class Outline, variant = Outline),
       (button_variant_class Transparent, variant = Transparent),
       (button_size_class Sm, sz = Sm), (button_size_class Md, sz = Md), (button_size_class Lg, sz = Lg),
       (''opacity-50 cursor-not-allowed'', disabled \<or> isLoading)], CStr className]"
    by simp
  show ?thesis
    using cn_toVal_space_join [OF keys] button_obj_items [of variant sz "''opacity-50 cursor-not-allowed''" "disabled \<or> isLoading"]
    by (simp add: button_classes_def del: list.map concat.simps)
qed

lemma split_on_space_join:
  "\<forall>s \<in> set xs. s \<noteq> [] \<Longrightarrow> split_on c (space_join (x # xs)) = concat (map (split_on c) (x # xs))" if "c = CHR '' ''"
  using that
proof (induction xs arbitrary: x)
  case (Cons y ys)
  then show ?case by (simp add: split_on_append_split)
qed simp

lemma login_button_backgrounds:
  "{''bg-[#5A49F8]'', ''bg-black''} \<subseteq> set (split_on CHR '' '' (button_classes Primary Md d False ''w-full bg-black hover:bg-gray-800 text-white''))"
  by (cases d) (simp_all add: button_classes_table split_on_space_join)

lemma typography_classes_table:
  "typography_classes size' weight color =
     space_join (case_option [] (\<lambda>c. [c]) (sizeClasses size') @ case_option [] (\<lambda>c. [c]) (weightClasses weight) @
                 (if color = [] then [] else [color]))"
  using cn_toVal_space_join [of "[cv_of_opt (sizeClasses size'), cv_of_opt (weightClasses weight), CStr color]"]
  by (auto simp: typography_classes_def cv_of_opt_def sizeClasses_def weightClasses_def split: option.splits)

subsection \<open>\<open>removeAllCookies\<close>\<close>

lemma foldl_cookie_remove:
  "foldl (\<lambda>j n. cookie_remove n p j) jar ns = filter (\<lambda>c. \<not> (ck_name c \<in> set ns \<and> ck_path c = p \<and> \<not> ck_httpOnly c)) jar"
  by (induction ns arbitrary: jar) (auto simp: cookie_remove_def intro: filter_cong)

lemma path_match_root: "starts_with loc ''/'' \<Longrightarrow> path_match loc ''/''"
  by (simp add: path_match_def)

lemma removeAllCookies_keeps:
  "starts_with loc ''/'' \<Longrightarrow> removeAllCookies loc jar = filter (\<lambda>c. ck_httpOnly c \<or> ck_path c \<noteq> ''/'') jar"
  unfolding removeAllCookies_def foldl_cookie_remove
  by (rule filter_cong) (auto simp: cookies_get_def path_match_root)

end
