(* ===== verification/Screen_Views.thy ===== *)
theory Screen_Views
  imports Page_Views Class_Names
begin

text \<open>
  The screens outside the auth flow, in the vocabulary of \<open>Page_Views\<close>: the landing
  page, the plan page with its cards, the sidebar of the dashboard layout and the tabs of
  the account settings page. The plan cards' buttons only call \<open>handlePlanSelect\<close>, so
  they are links to its target. Following a target runs the route guard on its path, the
  part before \<open>?\<close>. The theory ends with the links a signed-out visitor can follow
  from every public page and with the settings page's form that has no submit handler.
\<close>

section \<open>Following a URL\<close>

text \<open>The pathname of a URL: the middleware reads \<open>request.nextUrl.pathname\<close>, without the query.\<close>

definition url_pathname :: "string \<Rightarrow> path" where
  "url_pathname u = takeWhile (\<lambda>c. c \<noteq> CHR ''?'') u"

section \<open>The landing page\<close>

definition copyright_sign :: string where
  "copyright_sign = [CHR 0xC2, CHR 0xA9]"

text \<open>\<open>LandingPage\<close> (\<open>components/screens/landingPage/landing-page.tsx\<close>, lines 5--96).\<close>

definition landing_view :: view where
  "landing_view =
     [Text ''Affli.'', Text ''ai'',
      LinkTo ''Login'' ''/login'', LinkTo ''Sign Up'' ''/signup'', LinkTo ''Plan'' ''/plan'',
      LinkTo ''Privacy'' ''/privacy'',
      Heading ''TikTok Shop Creator Management'',
      Text ''Automated creator outreach, affiliate tracking, and sales analytics for TikTok Shop sellers'',
      LinkTo ''Get Started'' ''/signup'', LinkTo ''Login'' ''/login'',
      Heading ''Creator Outreach'',
      Text ''Automate your TikTok creator outreach with personalized messages and follow-ups'',
      Heading ''Affiliate Tracking'',
      Text ''Track creator performance and commissions with real-time analytics'',
      Heading ''Sales Analytics'',
      Text ''Comprehensive sales data and insights to optimize your TikTok Shop performance'',
      Text (copyright_sign @ '' 2025 Affli.ai. All rights reserved.''),
      LinkTo ''Privacy Policy'' ''/privacy'', LinkTo ''Terms of Service'' ''/terms'']"

section \<open>The plan page\<close>

text \<open>A card of \<open>plans.map\<close> (lines 237--301): the price or \<open>Custom\<close>, the saving, the features and the call to action.\<close>

definition plan_card :: "billing \<Rightarrow> plan \<Rightarrow> view" where
  "plan_card b p =
     [Heading (plan_title p)] @ (if plan_featured p then [Chip ''Recommended Plan''] else []) @
     [Text (plan_description p)] @
     (case price_text b p of
        Some t \<Rightarrow> Text t # (case savings_text b p of Some s \<Rightarrow> [Text s] | None \<Rightarrow> [])
      | None \<Rightarrow> [Text ''Custom'']) @
     map Text (plan_features p) @
     [LinkTo (plan_cta_label p) (handle_plan_select b p)]"

text \<open>\<open>ModernPricingPage\<close>'s markup (lines 176--305).\<close>

definition plan_view :: "plan_page \<Rightarrow> view" where
  "plan_view pp =
     [Heading ''Simple & Transparent Pricing'',
      Text ''Scale your TikTok Shop business with our powerful affiliate management platform'',
      Button (Label ''Monthly'') True, Button (Label ''Yearly Save 20%'') True] @
     concat (map (plan_card (pp_billing pp)) pricing_plans)"

section \<open>The sidebar\<close>

text \<open>The container's class (lines 51--55): off screen on small viewports while closed.\<close>

definition sidebar_class :: "sidebar_state \<Rightarrow> string" where
  "sidebar_class st =
     cn [CStr ''fixed inset-y-0 left-0 z-50 w-64 transform border-r border-gray-200 bg-white transition-transform duration-300 ease-in-out lg:static lg:translate-x-0'',
         CStr (if sb_sidebarOpen st then ''translate-x-0'' else ''-translate-x-full'')]"

text \<open>An entry of \<open>navigationItems.map\<close> (lines 71--138): a link, or the group's toggle with its links while open.\<close>

fun sidebar_entry :: "sidebar_state \<Rightarrow> nav_item \<Rightarrow> view" where
  "sidebar_entry st (NavLink name href) = [LinkTo name href]"
| "sidebar_entry st (NavGroup name subs) =
     Button (Label name) True # (if sb_openAnalytics st then map (\<lambda>(n, h). LinkTo n h) subs else [])"

text \<open>\<open>Sidebar\<close>'s markup (lines 50--163).\<close>

definition sidebar_view :: "sidebar_state \<Rightarrow> auth_state \<Rightarrow> view" where
  "sidebar_view st au =
     [LinkTo ''Logo'' ''/dashboard'', Button (Label ''X'') True] @
     concat (map (sidebar_entry st) navigation_items) @
     [Text (fst (sidebar_user_label au)), Text (snd (sidebar_user_label au)), Button (Label ''Logout'') True]"

section \<open>The account settings page\<close>

text \<open>\<open>String.prototype.toUpperCase\<close> on ASCII letters.\<close>

definition to_upper :: "char \<Rightarrow> char" where
  "to_upper c = (if in_range 97 122 c then char_of (of_char c - (32::nat)) else c)"

text \<open>\<open>profileForm.name.substring(0, 2).toUpperCase()\<close> (line 146).\<close>

definition avatar_fallback :: "string \<Rightarrow> string" where
  "avatar_fallback name = map to_upper (take 2 name)"

text \<open>\<open>subscriptionInfo\<close> (lines 37--42).\<close>

definition subscription_info :: "(string \<times> string) list" where
  "subscription_info =
     [(''Current Plan'', ''Business Pro''), (''Billing Cycle'', ''Monthly''),
      (''Next Payment'', ''June 15, 2025''), (''Payment Method'', ''Visa ending in 4242'')]"

text \<open>
  The page's markup (lines 121--330): the title, the tab list and the active tab's
  card. Only the account and password tabs' forms have a submit handler.
\<close>

definition settings_view :: "settings_page \<Rightarrow> bool \<Rightarrow> bool \<Rightarrow> view" where
  "settings_view sp profilePending passwordPending =
     [Heading ''Settings'', Text ''Manage your account settings and preferences'',
      Button (Label ''Account'') True, Button (Label ''Password'') True,
      Button (Label ''Notifications'') True, Button (Label ''Subscription'') True] @
     (if st_activeTab sp = ''account'' then
        [Heading ''Account Settings'', Text ''Manage your account information and preferences'',
         Text (avatar_fallback (pf_name (st_profileForm sp))), Button (Label ''Change Picture'') True,
         Text ''Email cannot be changed'', settings_buttons profilePending passwordPending ! 0]
      else if st_activeTab sp = ''password'' then
        [Heading ''Change Password'', Text ''Update your password to keep your account secure'',
         settings_buttons profilePending passwordPending ! 1]
      else if st_activeTab sp = ''notifications'' then
        [Heading ''Notification Settings'', Text ''Manage how you receive notifications'',
         Text ''Notification preferences will be available soon.'', Button (Label ''Save Preferences'') True]
      else if st_activeTab sp = ''subscription'' then
        [Heading ''Subscription Details'', Text ''Manage your subscription plan and billing''] @
        concat (map (\<lambda>(k, v). [Text k, Text v]) subscription_info) @
        [Button (Label ''Update Payment Method'') True, Button (Label ''View Billing History'') True]
      else [])"

text \<open>
  \<open>Save Preferences\<close> (lines 276--286) is a submit button of a form without
  \<open>onSubmit\<close>: the browser submits the form natively, a \<open>GET\<close> of the page's own URL
  with the empty query, which loads the page again.
\<close>

definition settings_save_preferences :: "'s app \<Rightarrow> 's app" where
  "settings_save_preferences a = full_reload (url_pathname (location a) @ ''?'') a"

text \<open>The account tab's submit \<open>Button\<close> (lines 198--204) as \<open>components/ui/Button.tsx\<close> renders it.\<close>

definition settings_save_button :: "bool \<Rightarrow> element" where
  "settings_save_button pending =
     button (button_defaults\<lparr>bp_disabled := Some pending,
                             bp_className := Some ''mt-6 bg-black hover:bg-gray-800 text-white'',
                             bp_rest := [(''type'', ''submit'')]\<rparr>)
       [Txt (if pending then ''Saving...'' else ''Save Changes'')]"

section \<open>What a signed-out visitor can follow\<close>

text \<open>
  The targets on the public pages: the landing page, the plan page in any billing state,
  and the auth pages in any of their states.
\<close>

definition public_targets ::
  "plan_page \<Rightarrow> int \<Rightarrow> bool \<Rightarrow> js_error option \<Rightarrow> login_page \<Rightarrow> js_string \<Rightarrow> js_string \<Rightarrow> signup_page \<Rightarrow>
   string \<Rightarrow> bool \<Rightarrow> string \<Rightarrow> js_string \<Rightarrow> string \<Rightarrow> string \<Rightarrow> bool \<times> bool \<Rightarrow> reset_page \<Rightarrow> verify_page \<Rightarrow> string set" where
  "public_targets pp now isPending err lp pl bl sp email sub tok le pw cpw tch rp vp =
     set (view_links landing_view) \<union> set (view_links (plan_view pp)) \<union>
     signed_out_links now isPending err lp pl bl sp email sub tok le pw cpw tch rp vp"

section \<open>Lemmas\<close>

lemma view_links_concat [simp]: "view_links (concat vs) = concat (map view_links vs)"
  by (induction vs) simp_all

lemma view_links_map_Text [simp]: "view_links (map Text xs) = []"
  by (induction xs) simp_all

lemma plan_card_links: "view_links (plan_card b p) = [handle_plan_select b p]"
  by (simp add: plan_card_def split: option.split)

lemma plan_view_links:
  "set (view_links (plan_view pp)) = handle_plan_select (pp_billing pp) ` set pricing_plans"
  by (auto simp: plan_view_def plan_card_links)

lemma plan_select_target:
  "handle_plan_select b p = ''/contact'' \<or> url_pathname (handle_plan_select b p) = ''/signup''"
  by (simp add: handle_plan_select_def url_pathname_def)

lemma landing_links:
  "set (view_links landing_view) = {''/login'', ''/signup'', ''/plan'', ''/privacy'', ''/terms''}"
  by (auto simp: landing_view_def)

lemma signed_out_contact: "signed_out_follow ''/contact'' = Redirect ''/login''"
  by (simp add: signed_out_follow_def route_guard_def favicon_like_def middleware_def
      publicRoutes_def authRoutes_def hasValidAuthToken_def parse_cookie_def)

lemma signed_out_signup_query:
  "url_pathname u = ''/signup'' \<Longrightarrow> signed_out_follow (url_pathname u) = Next"
  using signed_out_allowed(3) by simp

lemma public_targets_cover:
  "public_targets pp now isPending err lp pl bl sp email sub tok le pw cpw tch rp vp \<subseteq>
     ({''/'', ''/login'', ''/signup'', ''/forgot-password'', ''/plan'', ''/terms'', ''/privacy-policy'', ''/privacy'', ''/help''}
      \<union> {''/contact''}) \<union> {u. url_pathname u = ''/signup''}"
    (is "_ \<subseteq> (?S \<union> ?C) \<union> ?Q")
proof -
  have auth: "signed_out_links now isPending err lp pl bl sp email sub tok le pw cpw tch rp vp \<subseteq> ?S"
    unfolding signed_out_links_def by (intro Un_least auth_page_links)
  have landing: "set (view_links landing_view) \<subseteq> ?S"
    unfolding landing_links by simp
  have plan: "set (view_links (plan_view pp)) \<subseteq> ?C \<union> ?Q"
    using plan_select_target by (auto simp: plan_view_links)
  show ?thesis
    unfolding public_targets_def
  proof (intro Un_least)
    show "set (view_links landing_view) \<subseteq> (?S \<union> ?C) \<union> ?Q" by (rule subset_trans [OF subset_trans [OF landing Un_upper1] Un_upper1])
    show "set (view_links (plan_view pp)) \<subseteq> (?S \<union> ?C) \<union> ?Q" by (rule subset_trans [OF plan]) (intro Un_mono Un_upper2 subset_refl)
    show "signed_out_links now isPending err lp pl bl sp email sub tok le pw cpw tch rp vp \<subseteq> (?S \<union> ?C) \<union> ?Q"
      by (rule subset_trans [OF subset_trans [OF auth Un_upper1] Un_upper1])
  qed
qed

lemma public_target_decision:
  assumes "u \<in> public_targets pp now isPending err lp pl bl sp email sub tok le pw cpw tch rp vp"
  shows "signed_out_follow (url_pathname u) = (if u \<in> {''/help'', ''/privacy'', ''/contact''} then Redirect ''/login'' else Next)"
proof -
  have "u \<in> {''/'', ''/login'', ''/signup'', ''/forgot-password'', ''/plan'', ''/terms'', ''/privacy-policy'', ''/privacy'', ''/help''}
         \<or> u = ''/contact'' \<or> url_pathname u = ''/signup''"
    using subsetD [OF public_targets_cover assms] by (simp only: Un_iff mem_Collect_eq singleton_iff disj_assoc)
  then consider
      (plain) "u \<in> {''/'', ''/login'', ''/signup'', ''/forgot-password'', ''/plan'', ''/terms'', ''/privacy-policy'', ''/privacy'', ''/help''}"
    | (contact) "u = ''/contact''"
    | (signup) "url_pathname u = ''/signup''"
    by argo
  then show ?thesis
  proof cases
    case plain
    then have "url_pathname u = u" by (auto simp: url_pathname_def)
    with plain show ?thesis using signed_out_allowed signed_out_blocked by auto
  next
    case contact
    then show ?thesis using signed_out_contact by (simp add: url_pathname_def)
  next
    case signup
    then have "u \<notin> {''/help'', ''/privacy'', ''/contact''}" by (auto simp: url_pathname_def)
    then show ?thesis using signed_out_signup_query [OF signup] by simp
  qed
qed

lemma sidebar_view_links:
  "set (view_links (sidebar_view st au)) \<subseteq>
     {''/dashboard'', ''/creators'', ''/products'', ''/analytics/sales'', ''/analytics/creators'', ''/settings''}"
  by (simp add: sidebar_view_def navigation_items_def)

lemma sidebar_targets_protected:
  "p \<in> {''/dashboard'', ''/creators'', ''/products'', ''/analytics/sales'', ''/analytics/creators'', ''/settings''} \<Longrightarrow>
   matcher_applies p \<and> p \<notin> set publicRoutes \<and> \<not> auth_prefixed p"
  by (auto simp: favicon_like_def route_lists auth_prefixed_def)

lemma sidebar_links_protected:
  "p \<in> set (view_links (sidebar_view st au)) \<Longrightarrow>
   route_guard p c = (if hasValidAuthToken c then Next else Redirect ''/login'')"
  using sidebar_targets_protected [OF subsetD [OF sidebar_view_links]]
  by (simp add: route_guard_def middleware_def list_ex_iff auth_prefixed_def Let_def)

lemma settings_save_preferences_reloads:
  "auth (settings_save_preferences a) = auth_init \<and> loader (settings_save_preferences a) = loader_init \<and>
   toasts (settings_save_preferences a) = [] \<and> net (settings_save_preferences a) = net a"
  by (simp add: settings_save_preferences_def full_reload_def)

lemma sidebar_class_open:
  "sidebar_class st =
     ''fixed inset-y-0 left-0 z-50 w-64 transform border-r border-gray-200 bg-white transition-transform duration-300 ease-in-out lg:static lg:translate-x-0 ''
     @ (if sb_sidebarOpen st then ''translate-x-0'' else ''-translate-x-full'')"
  by (simp add: sidebar_class_def cn_def clsx_def join_sp_def)

lemma settings_save_button_view:
  "((''disabled'', []) \<in> set (el_attrs (settings_save_button pending))) \<longleftrightarrow>
     settings_buttons pending q ! 0 = Button (Label (if pending then ''Saving...'' else ''Save Changes'')) False"
  by (simp add: settings_save_button_def button_def button_defaults_def bool_attr_def settings_buttons_def)

text \<open>C35: of all the targets a signed-out visitor can follow from the public pages (the landing page, the plan page in either billing state, and the sign-in, sign-up, forgot-password, reset-password and verification pages), exactly three are not let through by the route guard, and all three bounce to \<open>/login\<close>: the auth layout's support link \<open>/help\<close>, the \<open>/privacy\<close> links of the landing and sign-up pages (the public route is \<open>/privacy-policy\<close>), and the Agency card's \<open>/contact\<close>.\<close>

theorem public_dead_links:
  assumes "\<not> sp_success sp"
  shows "{u \<in> public_targets pp now isPending err lp pl bl sp email sub tok le pw cpw tch rp vp.
            signed_out_follow (url_pathname u) \<noteq> Next} = {''/help'', ''/privacy'', ''/contact''} \<and>
         (\<forall>u. u \<in> public_targets pp now isPending err lp pl bl sp email sub tok le pw cpw tch rp vp \<longrightarrow>
              signed_out_follow (url_pathname u) \<noteq> Next \<longrightarrow> signed_out_follow (url_pathname u) = Redirect ''/login'')"
proof -
  let ?T = "public_targets pp now isPending err lp pl bl sp email sub tok le pw cpw tch rp vp"
  have dead_help: "''/help'' \<in> ?T"
    by (simp add: public_targets_def signed_out_links_def login_view_def auth_layout_def)
  have dead_privacy: "''/privacy'' \<in> ?T"
    by (simp add: public_targets_def landing_links)
  have dead_contact: "''/contact'' \<in> ?T"
    by (simp add: public_targets_def plan_view_links pricing_plans_def handle_plan_select_def)
  have dec: "\<And>u. u \<in> ?T \<Longrightarrow>
      signed_out_follow (url_pathname u) = (if u \<in> {''/help'', ''/privacy'', ''/contact''} then Redirect ''/login'' else Next)"
    by (rule public_target_decision)
  have "{u \<in> ?T. signed_out_follow (url_pathname u) \<noteq> Next} = {''/help'', ''/privacy'', ''/contact''}"
    using dead_help dead_privacy dead_contact dec by (auto split: if_splits)
  moreover have "\<forall>u. u \<in> ?T \<longrightarrow> signed_out_follow (url_pathname u) \<noteq> Next \<longrightarrow>
                   signed_out_follow (url_pathname u) = Redirect ''/login''"
    using dec by (auto split: if_splits)
  ultimately show ?thesis by blast
qed

section \<open>Witnesses\<close>

theorem public_dead_links_witness:
  "{u \<in> public_targets plan_page_init 0 False None login_page_init None None
         \<lparr>sp_form = signup_form_init None None, sp_errorMsg = None, sp_success = False\<rparr>
         [] False [] None [] [] (False, False) reset_page_init verify_page_init.
     signed_out_follow (url_pathname u) \<noteq> Next}
   = {''/help'', ''/privacy'', ''/contact''}"
  using public_dead_links [of "\<lparr>sp_form = signup_form_init None None, sp_errorMsg = None, sp_success = False\<rparr>"]
  by simp

end
