(* ===== verification/Spec2Isabelle.thy ===== *)
theory Spec2Isabelle
  imports Http_Client Route_Guard Session_Store Validation Auth_Flows Login_Form Auth_Pages Navigation Settings_Page Page_Views Class_Names Screen_Views
begin

text \<open>
  \<^bold>\<open>A verification model of the tiktok-ui client.\<close>
  The program is a Next.js front end (sources under \<open>src/src\<close>). Its parts and how they
  interact: an edge middleware guards every page by the presence of the \<open>accessToken\<close>
  cookie; the pages call React Query hooks (mutations and one query); the hooks raise the
  global loader, call the REST services, which go through one axios instance whose
  response interceptor refreshes an expired token, replays the request once and, when the
  session cannot be saved, logs out and hard-navigates to \<open>/login\<close>; the hooks then
  update the zustand stores, show toasts and route. The development models these parts as
  executable HOL definitions, one theory per part:

  \<^item> \<open>Prelude\<close>: JavaScript idioms shared by all parts (\<open>||\<close> on strings and numbers,
    truthiness, \<open>startsWith\<close>, splitting and trimming) and their lemmas.
  \<^item> \<open>Http_Client\<close>: \<open>lib/api/axiosInstance.ts\<close> and the services of
    \<open>lib/api/services\<close>. The server is an oracle with a state of its own; the world
    record holds that state and a trace of the requests put on the wire (with their
    \<open>_retry\<close> flag), of hard navigations and of logged logout failures. \<open>send\<close> is
    \<open>axiosInstance(config)\<close>, \<open>on_rejected\<close> the interceptor's error handler and
    \<open>session_expiration\<close> \<open>handleSessionExpiration\<close>. Because the interceptor calls the
    client again, \<open>send\<close> takes fuel, the depth of nested client calls; \<open>None\<close> is a
    call that never settles. Three units are enough whenever the refresh and logout
    endpoints never answer with a token rejection (C6): the original request, the refresh
    or logout call, and the replay or the logout after a failed refresh. Without that
    hypothesis no fuel is enough (C2). The lemmas give every branch of the interceptor
    (C1, C3--C5, C7), the shape of every rejection (C8) and fuel monotonicity.
  \<^item> \<open>Route_Guard\<close>: \<open>middleware.ts\<close> with its matcher, and the cookie parser of the
    \<open>cookie\<close> package it relies on (modelled from that package). The lemmas classify every
    path (C9--C11), show that a redirect never leads to another (C12), that the guard reads
    back the token of any serialised cookie header (C13, a round trip), and that the
    matcher exempts every path beginning with \<open>/api\<close> (C14).
  \<^item> \<open>Session_Store\<close>: \<open>stores/useAuthStore.ts\<close> as a record with its four mutators,
    a step function and the inductive set of reachable states, whose invariant is proved
    by rule induction (C15, C17); \<open>stores/useLoaderStore.ts\<close> with interleaved schedules
    of operation starts and ends (C18, C19).
  \<^item> \<open>Validation\<close>: the Yup schemas of \<open>lib/validations\<close>, the zod schema of the
    reset-password route and the settings page's check, with regular expressions written
    out as character-class predicates (C20, C21).
  \<^item> \<open>Auth_Flows\<close>: the hooks of \<open>lib/api/mutations\<close>, \<open>lib/api/queries/user.ts\<close> and
    the effect of \<open>context/AuthContext.tsx\<close>. The application state joins the client
    world, both stores, the toasts and the router; \<open>run_mutation\<close> is React Query's
    \<open>mutate\<close> (mutationFn with loader and \<open>finally\<close>, then \<open>onSuccess\<close>, which may
    throw, or \<open>onError\<close>); a hard navigation in the trace reloads the page and resets
    the in-memory stores. A 2xx reply with an empty body is axios' \<open>data = ''\<close>, whose
    properties read \<open>undefined\<close> without throwing. The lemmas give the login, logout,
    profile and update flows (C22--C25, C27), the hooks' answers to an empty body (C26) and
    that every mutation lowers the loader (C28).
  \<^item> \<open>Login_Form\<close>: \<open>components/screens/auth/LoginForm.tsx\<close> with its
    \<open>localStorage\<close> entries, mount effect, interval, submit handler and countdown, and
    the page as a state machine whose reachable states are characterised by rule
    induction (C30--C32).
  \<^item> \<open>Auth_Pages\<close>: the verification page and route, the reset-password route and
    form, the forgot-password and sign-up forms (C33, C34, C36, C37).
  \<^item> \<open>Navigation\<close>: the plan page (plans, billing toggle, price texts with
    \<open>toFixed(0)\<close> on exact rationals, \<open>handlePlanSelect\<close>), the query string the
    sign-up page reads back (C38, a round trip), and the sidebar with the layout's
    open/close state, active entries and user label.
  \<^item> \<open>Settings_Page\<close>: the account settings screen, its profile form filled from
    the profile query, its password form and both submit handlers (C16).
  \<^item> \<open>Page_Views\<close>: what the pages render, as lists of observable elements
    (headings, texts, alerts, spinners, buttons with their disabled flag, links with their
    targets): the global loader, the auth layout of \<open>components/layouts/auth-layout.tsx\<close>, the
    sign-in, sign-up, forgot-password, reset-password and verification pages on every
    branch of their JSX, and the settings page's buttons. The links are checked against the
    route guard for a signed-out visitor (\<open>signed_out_dead_links\<close>). The reset
    route's per-field zod errors are empty exactly when the schema accepts, and the page
    reload after a hard navigation is the full reset of the in-memory state.
  \<^item> \<open>Class_Names\<close>: \<open>lib/index.ts\<close> and \<open>components/ui\<close>. \<open>cn\<close> is
    \<open>clsx\<close> over the array of its arguments, with \<open>clsx\<close> (a library) modelled from
    its source as a mutually recursive \<open>toVal\<close> over a datatype of JavaScript values,
    and shown equal to the reference join of the truthy class names, so conflicting
    Tailwind classes are kept. No component under \<open>src/\<close> imports this \<open>cn\<close>:
    \<open>Button\<close>, \<open>Typography\<close> and the sidebar import \<open>@/lib/utils\<close>, which is not
    in the repository (its tests expect \<open>tailwind-merge\<close>); the model uses
    \<open>lib/index.ts\<close> in its place. \<open>Button\<close> and \<open>Typography\<close> map their props, with
    the destructuring defaults, to an element tree; their class strings are given as
    tables (the object literal picks exactly one variant and one size class), and the
    sign-in button ends up with two background classes. \<open>removeAllCookies\<close> runs on a
    cookie jar with \<open>js-cookie\<close>'s \<open>get\<close> and \<open>remove\<close>; it keeps exactly the
    \<open>HttpOnly\<close> cookies and those with a path other than \<open>/\<close>.
  \<^item> \<open>Screen_Views\<close>: the landing page, the plan page's cards (their buttons are links
    to \<open>handlePlanSelect\<close>'s target), the sidebar with its container class and the
    settings page's tabs. Following a target runs the guard on its pathname. From every
    public page a signed-out visitor meets exactly three targets the guard bounces to
    \<open>/login\<close>: \<open>/help\<close>, \<open>/privacy\<close> and the Agency card's \<open>/contact\<close> (C35);
    every sidebar link needs the token; the notification tab's form, which has no submit
    handler, reloads the page and drops the in-memory stores.

  The theory below holds the property that spans the client, the hooks and the stores
  (C29). Fuel in the flows is the fuel of the client: a flow settles with the fuel its
  client calls need.

  \<^bold>\<open>Not modelled.\<close> Rendering (markup, styles, animations such as the plan
  cards' entrance), the root layout's composition of providers and
  fonts and the dashboard layout's frame (their only state is the sidebar, modelled in
  \<open>Navigation\<close>), the profile route (a debug page printing the stored user
  as JSON, which would need the JSON encoding), the form inputs and the
  avatar image of the settings page, the \<open>components/ui\<close> primitives of shadcn (card,
  tabs, input; not under \<open>src/\<close> either), \<open>types/global.ts\<close> (declarations only),
  domains of cookies, Tailwind's stylesheet order, React Query's caching and
  refetching (\<open>staleTime\<close>; invalidation is a flag), the transport below the HTTP status
  and body (headers, cookies sent by the browser, time-outs), the JSON encoding of request
  bodies, which are flat key/value lists handed to the server oracle, percent-decoding of
  query strings, and the lint and test configuration. Strings are byte lists, which agrees
  with JavaScript's UTF-16 strings on ASCII text; times are integers in milliseconds;
  prices are exact rationals where the page uses floating point.
\<close>

section \<open>Properties across components\<close>

text \<open>C29: when a profile update meets an expired token and the refresh call fails, the HTTP client ends the session and hard-navigates to \<open>/login\<close>; the page reloads, so the auth store, the loader and the toasts start again from their initial states (the mutation's error toast is lost) and the update rejects with the session-expired error.\<close>

theorem expired_session_during_profile_update:
  assumes "srv (server (net a)) UpdateProfile (update_profile_body v) = (sb, r)" and "token_rejection True r"
    and "srv sb endpoint.RefreshToken [] = (sc, rf)" and "resolved rf = None" and "\<not> token_rejection True rf"
    and "srv sc Logout [] = (sd, Reply stb lb)" and "status_ok stb"
  shows "\<exists>a'. update_profile_mutation v (Suc (Suc n)) srv a =
             Some (a', Inl (ApiErr (expired_error ''Your session has expired. Please log in again.'' r))) \<and>
           auth a' = auth_init \<and> loader a' = loader_init \<and> toasts a' = [] \<and> location a' = ''/login'' \<and>
           profile_stale a' = profile_stale a \<and>
           trace (net a') = trace (net a) @ [Sent UpdateProfile False, Sent endpoint.RefreshToken False,
                                             Sent Logout False, Navigate ''/login'']"
proof -
  have s: "send (Suc (Suc n)) srv True (service_request UpdateProfile (update_profile_body v)) (net a) =
           Some ((net a)\<lparr>server := sd, trace := trace (net a) @ [Sent UpdateProfile False, Sent endpoint.RefreshToken False,
                                             Sent Logout False, Navigate ''/login'']\<rparr>,
                 Inl (expired_error ''Your session has expired. Please log in again.'' r))"
    using assms by (simp add: send_steps on_rejected_def session_expiration_def)
  show ?thesis
    by (simp add: update_profile_mutation_def run_mutation_def Let_def s reload_if_navigated_def
        hard_navigation_def update_profile_on_error_def add_toast_def del: send.simps)
qed

theorem expired_session_during_profile_update_witness:
  "\<exists>a'. update_profile_mutation \<lparr>upr_name = ''Ann'', upr_email = None, upr_companyName = None\<rparr> 2 refresh_down
           ((blank_app 0)\<lparr>auth := login (login_user_obj demo_user ''at'' ''rt'') auth_init, location := ''/settings''\<rparr>) =
         Some (a', Inl (ApiErr (expired_error ''Your session has expired. Please log in again.''
                                 (Reply 401 (Some (tok_env ''TOKEN_EXPIRED'')))))) \<and>
         auth a' = auth_init \<and> location a' = ''/login''"
  using expired_session_during_profile_update [of refresh_down
      "(blank_app 0)\<lparr>auth := login (login_user_obj demo_user ''at'' ''rt'') auth_init, location := ''/settings''\<rparr>"
      "\<lparr>upr_name = ''Ann'', upr_email = None, upr_companyName = None\<rparr>" 1
      "Reply 401 (Some (tok_env ''TOKEN_EXPIRED''))" 2 "Reply 500 None" 3 200 "Some ok_env" 0]
  by (auto simp: scenario_defs blank_app_def numeral_2_eq_2)

end
